theory Spec2Isabelle
  imports Complex_Main "HOL-Library.AList"
begin

section \<open>Numbers, dates and the data model\<close>

text \<open>
  The TypeScript sources compute with JavaScript numbers. Prices, volumes and levels are
  modelled as \<^typ>\<open>real\<close>; where the code itself tests for \<^verbatim>\<open>NaN\<close>
  (\<^verbatim>\<open>isNaN(x)\<close>, or the falsy test in \<^verbatim>\<open>a || b\<close>), the field is a
  \<^typ>\<open>real option\<close> with \<open>None\<close> for \<^verbatim>\<open>NaN\<close>. Rounding of binary
  floating point and the infinities are outside the model.

  A \<^verbatim>\<open>Date\<close> is its epoch time in milliseconds, \<open>None\<close> for an Invalid Date.
\<close>

type_synonym jsdate = "int option"

datatype side = long | short

datatype signalType = BB_reversal | breakout

text \<open>\<^verbatim>\<open>interface DailyBar\<close> (the 15-minute bar has the same fields).\<close>

record DailyBar =
  date :: jsdate
  opn :: real
  high :: real
  low :: real
  close :: real
  sma :: real
  bbMid :: real
  bbUpper :: real
  bbLower :: real
  atr :: real

text \<open>\<^verbatim>\<open>interface Signal\<close>.\<close>

record Signal =
  index :: nat
  sig_date :: jsdate
  sig_side :: side
  sig_type :: signalType

section \<open>Indicator engine: \<^verbatim>\<open>computeIndicators\<close>\<close>

text \<open>
  The inner loops \<^verbatim>\<open>for (let j = i - p + 1; j <= i; j++) sum += xs[j]\<close>. They are only
  reached with \<open>p \<le> i + 1\<close>, so every index read is inside the array.
\<close>

definition window :: "nat \<Rightarrow> nat \<Rightarrow> nat list" where
  "window i p = [i + 1 - p ..< i + 1]"

definition windowSum :: "real list \<Rightarrow> nat \<Rightarrow> nat \<Rightarrow> real" where
  "windowSum xs i p = (\<Sum>j\<leftarrow>window i p. xs ! j)"

text \<open>
  \<^verbatim>\<open>sum / period\<close>. With a period of 0 the loop body never runs, the sum is 0 and
  \<^verbatim>\<open>0 / 0\<close> is \<^verbatim>\<open>NaN\<close>.
\<close>

definition divPeriod :: "real \<Rightarrow> nat \<Rightarrow> real option" where
  "divPeriod s p = (if p = 0 then None else Some (s / real p))"

definition smaSeries :: "real list \<Rightarrow> nat \<Rightarrow> real option list" where
  "smaSeries closes smaPeriod =
     map (\<lambda>i. if i + 1 < smaPeriod then None
              else divPeriod (windowSum closes i smaPeriod) smaPeriod)
       [0 ..< length closes]"

text \<open>
  Mean, population standard deviation and the two bands of one window. The three arrays
  \<^verbatim>\<open>bbMid\<close>, \<^verbatim>\<open>bbUpper\<close>, \<^verbatim>\<open>bbLower\<close> are \<^verbatim>\<open>NaN\<close> at the same
  indices, so one list of optional triples (mid, upper, lower) stands for them.
\<close>

definition bbAt :: "real list \<Rightarrow> nat \<Rightarrow> nat \<Rightarrow> (real \<times> real \<times> real) option" where
  "bbAt closes i bbPeriod =
     (case divPeriod (windowSum closes i bbPeriod) bbPeriod of
        None \<Rightarrow> None
      | Some mean \<Rightarrow>
          (let variance = (\<Sum>j\<leftarrow>window i bbPeriod. (closes ! j - mean) * (closes ! j - mean));
               std = sqrt (variance / real bbPeriod)
           in Some (mean, mean + 2 * std, mean - 2 * std)))"

definition bbSeries :: "real list \<Rightarrow> nat \<Rightarrow> (real \<times> real \<times> real) option list" where
  "bbSeries closes bbPeriod =
     map (\<lambda>i. if i + 1 < bbPeriod then None else bbAt closes i bbPeriod)
       [0 ..< length closes]"

definition trueRanges :: "real list \<Rightarrow> real list \<Rightarrow> real list \<Rightarrow> real option list" where
  "trueRanges highs lows closes =
     map (\<lambda>i. if i = 0 then None
              else (let highLow = highs ! i - lows ! i;
                        highPrevClose = \<bar>highs ! i - closes ! (i - 1)\<bar>;
                        lowPrevClose = \<bar>lows ! i - closes ! (i - 1)\<bar>
                    in Some (max (max highLow highPrevClose) lowPrevClose)))
       [0 ..< length closes]"

text \<open>Addition of numbers that may be \<^verbatim>\<open>NaN\<close>: \<^verbatim>\<open>NaN\<close> absorbs.\<close>

fun nanAdd :: "real option \<Rightarrow> real option \<Rightarrow> real option" where
  "nanAdd (Some a) (Some b) = Some (a + b)"
| "nanAdd _ _ = None"

definition nanWindowSum :: "real option list \<Rightarrow> nat \<Rightarrow> nat \<Rightarrow> real option" where
  "nanWindowSum xs i p = foldl (\<lambda>s j. nanAdd s (xs ! j)) (Some 0) (window i p)"

definition atrSeries :: "real option list \<Rightarrow> nat \<Rightarrow> real option list" where
  "atrSeries trs atrPeriod =
     map (\<lambda>i. if i < atrPeriod then None
              else (case nanWindowSum trs i atrPeriod of
                      None \<Rightarrow> None
                    | Some s \<Rightarrow> divPeriod s atrPeriod))
       [0 ..< length trs]"

text \<open>
  The closing \<^verbatim>\<open>daily.map((d, i) => ...)\<close> with its five \<^verbatim>\<open>last*\<close> variables:
  the state is threaded through the bars from left to right.
\<close>

record fill =
  lastSma :: real
  lastBbMid :: real
  lastBbUpper :: real
  lastBbLower :: real
  lastAtr :: real

definition fillStep ::
  "fill \<Rightarrow> real option \<Rightarrow> (real \<times> real \<times> real) option \<Rightarrow> real option \<Rightarrow> fill" where
  "fillStep f s b a =
     (let f1 = (case s of None \<Rightarrow> f | Some v \<Rightarrow> f\<lparr>lastSma := v\<rparr>);
          f2 = (case b of None \<Rightarrow> f1
                | Some (m, u, l) \<Rightarrow> f1\<lparr>lastBbMid := m, lastBbUpper := u, lastBbLower := l\<rparr>)
      in (case a of None \<Rightarrow> f2 | Some v \<Rightarrow> f2\<lparr>lastAtr := v\<rparr>))"

fun assign ::
  "fill \<Rightarrow> (DailyBar \<times> real option \<times> (real \<times> real \<times> real) option \<times> real option) list
     \<Rightarrow> DailyBar list" where
  "assign f [] = []"
| "assign f ((d, s, b, a) # rest) =
     (let f' = fillStep f s b a
      in d\<lparr>sma := lastSma f', bbMid := lastBbMid f', bbUpper := lastBbUpper f',
             bbLower := lastBbLower f', atr := lastAtr f'\<rparr>
         # assign f' rest)"

definition computeIndicators :: "DailyBar list \<Rightarrow> nat \<Rightarrow> nat \<Rightarrow> nat \<Rightarrow> DailyBar list" where
  "computeIndicators daily bbPeriod smaPeriod atrPeriod =
     (let closes = map close daily;
          highs = map high daily;
          lows = map low daily;
          smas = smaSeries closes smaPeriod;
          bbs = bbSeries closes bbPeriod;
          atrs = atrSeries (trueRanges highs lows closes) atrPeriod
      in assign \<lparr>lastSma = 0, lastBbMid = 0, lastBbUpper = 0, lastBbLower = 0, lastAtr = 0\<rparr>
           (zip daily (zip smas (zip bbs atrs))))"

text \<open>The default window lengths of the daily engine and of the 15-minute engine.\<close>

definition computeIndicatorsDaily :: "DailyBar list \<Rightarrow> DailyBar list" where
  "computeIndicatorsDaily daily = computeIndicators daily 10 20 10"

definition computeIndicators15Min :: "DailyBar list \<Rightarrow> DailyBar list" where
  "computeIndicators15Min bars = computeIndicators bars 50 100 14"

section \<open>The indicator definitions in the words of the specification\<close>

text \<open>
  The trailing window of \<open>p\<close> values ending at index \<open>i\<close>, the mean (undefined on an
  empty window), the population standard deviation, and the three indicators as the
  specification words them: each is undefined (\<open>None\<close>) until its window is full.
\<close>

definition trailingWindow :: "'a list \<Rightarrow> nat \<Rightarrow> nat \<Rightarrow> 'a list" where
  "trailingWindow xs i p = drop (i + 1 - p) (take (i + 1) xs)"

definition meanDef :: "real list \<Rightarrow> real option" where
  "meanDef xs = (if xs = [] then None else Some (sum_list xs / real (length xs)))"

definition popStd :: "real \<Rightarrow> real list \<Rightarrow> real" where
  "popStd m xs = sqrt (sum_list (map (\<lambda>x. (x - m)\<^sup>2) xs) / real (length xs))"

definition specSMA :: "real list \<Rightarrow> nat \<Rightarrow> nat \<Rightarrow> real option" where
  "specSMA closes p i = (if i + 1 < p then None else meanDef (trailingWindow closes i p))"

definition specBB :: "real list \<Rightarrow> nat \<Rightarrow> nat \<Rightarrow> (real \<times> real \<times> real) option" where
  "specBB closes p i =
     (if i + 1 < p then None
      else (case meanDef (trailingWindow closes i p) of
              None \<Rightarrow> None
            | Some m \<Rightarrow> Some (m, m + 2 * popStd m (trailingWindow closes i p),
                                m - 2 * popStd m (trailingWindow closes i p))))"

definition trueRange :: "DailyBar list \<Rightarrow> nat \<Rightarrow> real" where
  "trueRange bars i =
     max (high (bars ! i) - low (bars ! i))
       (max \<bar>high (bars ! i) - close (bars ! (i - 1))\<bar>
            \<bar>low (bars ! i) - close (bars ! (i - 1))\<bar>)"

definition specTR :: "DailyBar list \<Rightarrow> nat \<Rightarrow> real option" where
  "specTR bars i = (if i = 0 then None else Some (trueRange bars i))"

definition specATR :: "DailyBar list \<Rightarrow> nat \<Rightarrow> nat \<Rightarrow> real option" where
  "specATR bars p i =
     (if i + 1 < p then None
      else (case those (trailingWindow (map (specTR bars) [0 ..< length bars]) i p) of
              None \<Rightarrow> None
            | Some trs \<Rightarrow> meanDef trs))"

fun lastDefined :: "'a option list \<Rightarrow> 'a option" where
  "lastDefined [] = None"
| "lastDefined (x # xs) = (case lastDefined xs of None \<Rightarrow> x | Some v \<Rightarrow> Some v)"

definition forwardFill :: "'a \<Rightarrow> (nat \<Rightarrow> 'a option) \<Rightarrow> nat \<Rightarrow> 'a" where
  "forwardFill placeholder v i =
     (case lastDefined (map v [0 ..< i + 1]) of None \<Rightarrow> placeholder | Some x \<Rightarrow> x)"

text \<open>The state of the \<^verbatim>\<open>last*\<close> variables after a prefix of the bars.\<close>

fun fillAll ::
  "fill \<Rightarrow> (DailyBar \<times> real option \<times> (real \<times> real \<times> real) option \<times> real option) list \<Rightarrow> fill" where
  "fillAll f [] = f"
| "fillAll f ((d, s, b, a) # rest) = fillAll (fillStep f s b a) rest"

section \<open>Signal generator: \<^verbatim>\<open>generateSignals\<close> and \<^verbatim>\<open>generateSignals15Min\<close>\<close>

text \<open>
  \<^verbatim>\<open>aggregateToDaily\<close> and \<^verbatim>\<open>aggregateTo15Min\<close> create every bar with its five
  indicator fields set to 0; \<open>rawBar\<close> is such a bar.
\<close>

definition rawBar :: "jsdate \<Rightarrow> real \<Rightarrow> real \<Rightarrow> real \<Rightarrow> real \<Rightarrow> DailyBar" where
  "rawBar d o' h l c =
     \<lparr>date = d, opn = o', high = h, low = l, close = c,
      sma = 0, bbMid = 0, bbUpper = 0, bbLower = 0, atr = 0\<rparr>"

definition threshold :: real where
  "threshold = 3 / 10"

text \<open>The body of the loop of \<^verbatim>\<open>generateSignals\<close> for bar \<open>d\<close> at index \<open>i\<close>.\<close>

definition signalsAt :: "DailyBar \<Rightarrow> DailyBar \<Rightarrow> nat \<Rightarrow> Signal list" where
  "signalsAt prev d i =
     (if close d < bbLower d
        then [\<lparr>index = i, sig_date = date d, sig_side = long, sig_type = BB_reversal\<rparr>]
      else if close d > bbUpper d
        then [\<lparr>index = i, sig_date = date d, sig_side = short, sig_type = BB_reversal\<rparr>]
      else [])
     @ (if close d > close prev + threshold * atr d \<and> close d > sma d \<and> sma d > sma prev
          then [\<lparr>index = i, sig_date = date d, sig_side = long, sig_type = breakout\<rparr>]
        else [])
     @ (if close d < close prev - threshold * atr d \<and> close d < sma d \<and> sma d < sma prev
          then [\<lparr>index = i, sig_date = date d, sig_side = short, sig_type = breakout\<rparr>]
        else [])"

definition generateSignals :: "DailyBar list \<Rightarrow> Signal list" where
  "generateSignals daily =
     concat (map (\<lambda>i. signalsAt (daily ! (i - 1)) (daily ! i) i) [1 ..< length daily])"

text \<open>
  The 15-minute generator has the same body behind the guard
  \<^verbatim>\<open>if (bar.atr === 0 || bar.sma === 0) continue;\<close> (``skip if indicators not ready'').
\<close>

definition generateSignals15Min :: "DailyBar list \<Rightarrow> Signal list" where
  "generateSignals15Min bars =
     concat (map (\<lambda>i. if atr (bars ! i) = 0 \<or> sma (bars ! i) = 0 then []
                       else signalsAt (bars ! (i - 1)) (bars ! i) i)
               [1 ..< length bars])"

section \<open>Contract selector: \<^verbatim>\<open>selectContract\<close> and \<^verbatim>\<open>findNearestStrike\<close>\<close>

text \<open>
  \<^verbatim>\<open>interface OptionRow\<close>. The numbers of a row come from \<^verbatim>\<open>cleanNumber\<close>, which
  returns \<^verbatim>\<open>NaN\<close> for an empty cell or a dash, and \<^verbatim>\<open>loadOptionData\<close> keeps such rows.
  The last traded price, the day's low and high, the open interest and the number of
  contracts are therefore optional, \<open>None\<close> standing for \<^verbatim>\<open>NaN\<close>. The strike is only
  compared with \<^verbatim>\<open>===\<close>, where a \<^verbatim>\<open>NaN\<close> equals nothing, and the change of open interest
  is never read; both are numbers here.
\<close>

record OptionRow =
  opt_date :: jsdate
  expiry :: string
  expiryDt :: jsdate
  opt_type :: string
  strike :: real
  ltp :: "real option"
  opt_low :: "real option"
  opt_high :: "real option"
  oi :: "real option"
  oiChange :: real
  contracts :: "real option"

definition STRIKE_STEP :: real where "STRIKE_STEP = 50"
definition LOT_SIZE :: real where "LOT_SIZE = 75"
definition START_CAPITAL :: real where "START_CAPITAL = 15000"
definition ENTRY_BUFFER :: real where "ENTRY_BUFFER = 10"
definition RISK_PER_TRADE :: real where "RISK_PER_TRADE = 10"

text \<open>\<^verbatim>\<open>Math.round\<close>: the nearest integer, a tie going up.\<close>

definition jsRound :: "real \<Rightarrow> int" where
  "jsRound x = \<lfloor>x + 1 / 2\<rfloor>"

definition atmStrike :: "real \<Rightarrow> real \<Rightarrow> real" where
  "atmStrike step spot = real_of_int (jsRound (spot / step)) * step"

text \<open>\<^verbatim>\<open>a >= b\<close> on two dates compares their times; with an Invalid Date it is false.\<close>

fun dateGe :: "jsdate \<Rightarrow> jsdate \<Rightarrow> bool" where
  "dateGe (Some a) (Some b) = (b \<le> a)"
| "dateGe _ _ = False"

text \<open>
  \<^verbatim>\<open>getTime()\<close> of an expiry; the comparator only sees rows that passed the validity
  filter, so the value for an Invalid Date is never used.
\<close>

definition expiryTime :: "OptionRow \<Rightarrow> real" where
  "expiryTime r = (case expiryDt r of Some t \<Rightarrow> real_of_int t | None \<Rightarrow> 0)"

text \<open>A difference of two numbers; it is \<^verbatim>\<open>NaN\<close> when one of them is.\<close>

fun nanSub :: "real option \<Rightarrow> real option \<Rightarrow> real option" where
  "nanSub (Some a) (Some b) = Some (a - b)"
| "nanSub _ _ = None"

text \<open>
  The comparator handed to \<^verbatim>\<open>candidates.sort\<close>. \<^verbatim>\<open>oiComp !== 0\<close> is true of
  \<^verbatim>\<open>NaN\<close>, so a \<^verbatim>\<open>NaN\<close> difference of open interests is returned as it is.
\<close>

definition compareRows :: "OptionRow \<Rightarrow> OptionRow \<Rightarrow> real option" where
  "compareRows a b =
     (let expComp = expiryTime a - expiryTime b
      in if expComp \<noteq> 0 then Some expComp
         else (let oiComp = nanSub (oi b) (oi a)
               in if oiComp \<noteq> Some 0 then oiComp
                  else nanSub (contracts b) (contracts a)))"

text \<open>
  \<^verbatim>\<open>Array.prototype.sort\<close> reads a \<^verbatim>\<open>NaN\<close> result of the comparator as \<open>+0\<close> and is
  stable. With a comparator that orders the array consistently its result is the one that
  a stable insertion sort produces. With \<^verbatim>\<open>NaN\<close> keys the comparator is not consistent
  and the language leaves the order to the implementation; the insertion sort then stands
  for the implementation.
\<close>

definition sortOrder :: "real option \<Rightarrow> real" where
  "sortOrder v = (case v of None \<Rightarrow> 0 | Some r \<Rightarrow> r)"

fun insertRow :: "OptionRow \<Rightarrow> OptionRow list \<Rightarrow> OptionRow list" where
  "insertRow x [] = [x]"
| "insertRow x (y # ys) =
     (if sortOrder (compareRows x y) \<le> 0 then x # y # ys else y # insertRow x ys)"

definition sortRows :: "OptionRow list \<Rightarrow> OptionRow list" where
  "sortRows xs = foldr insertRow xs []"

definition targetStrikeOf :: "side \<Rightarrow> real \<Rightarrow> real" where
  "targetStrikeOf sd underlyingClose =
     (if sd = long then atmStrike STRIKE_STEP underlyingClose + STRIKE_STEP
      else atmStrike STRIKE_STEP underlyingClose - STRIKE_STEP)"

definition desiredTypeOf :: "side \<Rightarrow> string" where
  "desiredTypeOf sd = (if sd = long then ''CE'' else ''PE'')"

definition selectContract :: "OptionRow list \<Rightarrow> side \<Rightarrow> real \<Rightarrow> OptionRow option" where
  "selectContract snapshot sd underlyingClose =
     (let targetStrike = targetStrikeOf sd underlyingClose;
          desiredType = desiredTypeOf sd;
          candidates = filter (\<lambda>row. opt_type row = desiredType \<and> strike row = targetStrike) snapshot
      in if candidates = [] then None
         else (case snapshot of
                 [] \<Rightarrow> None
               | first # _ \<Rightarrow>
                   (let tradeDate = opt_date first;
                        candidates' = filter (\<lambda>row. expiryDt row \<noteq> None \<and>
                                                     dateGe (expiryDt row) tradeDate) candidates
                    in case sortRows candidates' of
                         [] \<Rightarrow> None
                       | best # _ \<Rightarrow> Some best)))"

text \<open>The contract selector in the words of the specification.\<close>

definition survivors :: "OptionRow list \<Rightarrow> side \<Rightarrow> real \<Rightarrow> OptionRow list" where
  "survivors snapshot sd spot =
     (case snapshot of
        [] \<Rightarrow> []
      | first # _ \<Rightarrow>
          filter (\<lambda>row. opt_type row = desiredTypeOf sd \<and> strike row = targetStrikeOf sd spot \<and>
                        dateGe (expiryDt row) (opt_date first))
            snapshot)"

text \<open>
  \<open>a\<close> ranks before \<open>b\<close>: earlier expiry, then larger open interest, then at least as
  many contracts. A row without a number in a key it is compared on ranks before nothing.
\<close>

fun keyGt :: "real option \<Rightarrow> real option \<Rightarrow> bool" where
  "keyGt (Some x) (Some y) = (x > y)"
| "keyGt _ _ = False"

fun keyEq :: "real option \<Rightarrow> real option \<Rightarrow> bool" where
  "keyEq (Some x) (Some y) = (x = y)"
| "keyEq _ _ = False"

definition ranksBefore :: "OptionRow \<Rightarrow> OptionRow \<Rightarrow> bool" where
  "ranksBefore a b \<longleftrightarrow>
     expiryTime a < expiryTime b \<or>
     (expiryTime a = expiryTime b \<and>
        (keyGt (oi a) (oi b) \<or>
         (keyEq (oi a) (oi b) \<and>
            (keyGt (contracts a) (contracts b) \<or> keyEq (contracts a) (contracts b)))))"

section \<open>Stop and target levels\<close>

text \<open>
  The four assignments \<^verbatim>\<open>initialStop = entry - R\<close>, \<^verbatim>\<open>target1 = entry + 3 * R\<close>,
  \<^verbatim>\<open>trailingStop = entry + 2 * R\<close>, \<^verbatim>\<open>finalTarget = entry + finalRR * R\<close> stand in
  \<^verbatim>\<open>backtestTrailing\<close> and in both versions of \<^verbatim>\<open>enterPosition\<close>. None of them reads
  the side of the signal.
\<close>

record Levels =
  initialStop :: real
  target1 :: real
  trailingStop :: real
  finalTarget :: real

definition riskLevels :: "real \<Rightarrow> real \<Rightarrow> real \<Rightarrow> Levels" where
  "riskLevels entry R k =
     \<lparr>initialStop = entry - R, target1 = entry + 3 * R,
      trailingStop = entry + 2 * R, finalTarget = entry + k * R\<rparr>"

section \<open>Back test: \<^verbatim>\<open>backtestTrailing\<close>\<close>

text \<open>\<^verbatim>\<open>interface TradeRecord\<close>.\<close>

record TradeRecord = Levels +
  tr_entryDate :: jsdate
  tr_exitDate :: jsdate
  tr_signalType :: signalType
  tr_side :: side
  tr_strike :: real
  tr_expiry :: string
  entryLimit :: real
  exitPrice :: real
  tr_profit :: real
  capitalAfter :: real

text \<open>
  \<^verbatim>\<open>d.toISOString().slice(0, 10)\<close> is the UTC calendar day of a valid date; the day
  number stands for that string, and the option snapshots are keyed by it.
\<close>

definition isoDay :: "int \<Rightarrow> int" where
  "isoDay t = t div 86400000"

type_synonym optionMap = "int \<Rightarrow> OptionRow list option"

text \<open>\<^verbatim>\<open>a || b\<close> on numbers: \<open>a\<close> unless it is 0 or \<^verbatim>\<open>NaN\<close>.\<close>

definition truthy :: "real option \<Rightarrow> bool" where
  "truthy x = (case x of None \<Rightarrow> False | Some v \<Rightarrow> v \<noteq> 0)"

definition orElse :: "real option \<Rightarrow> real option \<Rightarrow> real option" where
  "orElse a b = (if truthy a then a else b)"

definition sameContract :: "OptionRow \<Rightarrow> OptionRow \<Rightarrow> bool" where
  "sameContract contract r \<longleftrightarrow>
     opt_type r = opt_type contract \<and> strike r = strike contract \<and> expiry r = expiry contract"

text \<open>
  The loop \<^verbatim>\<open>for (let j = 1; j <= 3; j++)\<close> over the following days, with its two loop
  variables \<^verbatim>\<open>hitTarget1\<close> and \<^verbatim>\<open>currentStop\<close>; the result is the exit price and
  date, if the loop found one.
\<close>

fun scanDays ::
  "DailyBar list \<Rightarrow> optionMap \<Rightarrow> OptionRow \<Rightarrow> Levels \<Rightarrow> nat \<Rightarrow> nat list \<Rightarrow> bool \<Rightarrow> real
     \<Rightarrow> (real \<times> jsdate) option" where
  "scanDays daily groupedOpts contract lv idx [] hitTarget1 currentStop = None"
| "scanDays daily groupedOpts contract lv idx (j # js) hitTarget1 currentStop =
     (let nextIdx = idx + j
      in if nextIdx \<ge> length daily then None
         else (case date (daily ! nextIdx) of
                 None \<Rightarrow> scanDays daily groupedOpts contract lv idx js hitTarget1 currentStop
               | Some t \<Rightarrow>
                   (case groupedOpts (isoDay t) of
                      None \<Rightarrow> scanDays daily groupedOpts contract lv idx js hitTarget1 currentStop
                    | Some snapNext \<Rightarrow>
                        (case filter (sameContract contract) snapNext of
                           [] \<Rightarrow> scanDays daily groupedOpts contract lv idx js hitTarget1 currentStop
                         | row # _ \<Rightarrow>
                             (case (opt_low row, opt_high row) of
                                (Some lo, Some hi) \<Rightarrow>
                                  if hi \<ge> finalTarget lv then Some (finalTarget lv, Some t)
                                  else (let hit = (hitTarget1 \<or> hi \<ge> target1 lv);
                                            stop = (if \<not> hitTarget1 \<and> hi \<ge> target1 lv
                                                    then trailingStop lv else currentStop)
                                        in if lo \<le> stop then Some (stop, Some t)
                                           else scanDays daily groupedOpts contract lv idx js hit stop)
                              | _ \<Rightarrow> scanDays daily groupedOpts contract lv idx js
                                       hitTarget1 currentStop)))))"

text \<open>The check of day 0 on the selected contract's own low and high.\<close>

definition dayZero :: "Levels \<Rightarrow> real \<Rightarrow> real \<Rightarrow> (real option \<times> bool \<times> real)" where
  "dayZero lv lo hi =
     (if hi \<ge> finalTarget lv then (Some (finalTarget lv), False, initialStop lv)
      else (let hitTarget1 = (hi \<ge> target1 lv);
                currentStop = (if hi \<ge> target1 lv then trailingStop lv else initialStop lv)
            in if lo \<le> currentStop then (Some currentStop, hitTarget1, currentStop)
               else (None, hitTarget1, currentStop)))"

text \<open>
  The exit ``at the end of the holding period'': the bar \<^verbatim>\<open>Math.min(idx + 3, daily.length - 1)\<close>
  and the last traded price of the contract on that day.
\<close>

definition endIdx :: "nat \<Rightarrow> nat \<Rightarrow> nat" where
  "endIdx idx len = min (idx + 3) (len - 1)"

definition holdingExit ::
  "DailyBar list \<Rightarrow> optionMap \<Rightarrow> OptionRow \<Rightarrow> nat \<Rightarrow> (real \<times> jsdate) option" where
  "holdingExit daily groupedOpts contract idx =
     (case date (daily ! endIdx idx (length daily)) of
        None \<Rightarrow> None
      | Some t \<Rightarrow>
          (case groupedOpts (isoDay t) of
             None \<Rightarrow> None
           | Some snapEnd \<Rightarrow>
               (case filter (sameContract contract) snapEnd of
                  [] \<Rightarrow> None
                | row # _ \<Rightarrow>
                    (let ltpExit = orElse (orElse (ltp row) (opt_high row)) (opt_low row)
                     in case ltpExit of
                          None \<Rightarrow> None
                        | Some v \<Rightarrow> if v \<noteq> 0 then Some (v, Some t) else None))))"

text \<open>
  One pass of the body of \<^verbatim>\<open>signals.forEach\<close>. \<open>Skip\<close> is one of the early
  \<^verbatim>\<open>return\<close>s (no trade); \<open>TypeError\<close> is the read of \<^verbatim>\<open>daily[idx].close\<close> with
  \<open>idx\<close> outside the array.
\<close>

datatype sigResult = Skip | TypeError | Trade TradeRecord

definition tradeSignal ::
  "DailyBar list \<Rightarrow> optionMap \<Rightarrow> real \<Rightarrow> real \<Rightarrow> Signal \<Rightarrow> sigResult" where
  "tradeSignal daily groupedOpts finalRR capital sig =
     (let idx = index sig
      in case sig_date sig of
           None \<Rightarrow> Skip
         | Some tradeTime \<Rightarrow>
             if idx \<ge> length daily then TypeError
             else (let underlyingClose = close (daily ! idx)
                   in case groupedOpts (isoDay tradeTime) of
                        None \<Rightarrow> Skip
                      | Some snapshot \<Rightarrow>
                          (case selectContract snapshot (sig_side sig) underlyingClose of
                             None \<Rightarrow> Skip
                           | Some contract \<Rightarrow>
                               (case orElse (orElse (ltp contract) (opt_high contract)) (opt_low contract) of
                                  None \<Rightarrow> Skip
                                | Some l \<Rightarrow>
                                    if l \<le> 0 then Skip
                                    else (let entryLim = l - ENTRY_BUFFER;
                                              cost = entryLim * LOT_SIZE
                                          in if cost > capital then Skip
                                             else (let lv = riskLevels entryLim RISK_PER_TRADE finalRR
                                                   in case (opt_low contract, opt_high contract) of
                                                        (Some lo, Some hi) \<Rightarrow>
                                                          if lo > entryLim \<or> hi < entryLim then Skip
                                                          else (let (exit0, hitTarget1, currentStop) = dayZero lv lo hi;
                                                                    exit1 = (case exit0 of
                                                                               Some p \<Rightarrow> Some (p, Some tradeTime)
                                                                             | None \<Rightarrow>
                                                                                 scanDays daily groupedOpts contract lv idx
                                                                                   [1, 2, 3] hitTarget1 currentStop);
                                                                    exit2 = (case exit1 of
                                                                               Some e \<Rightarrow> Some e
                                                                             | None \<Rightarrow> holdingExit daily groupedOpts contract idx)
                                                                in case exit2 of
                                                                     None \<Rightarrow> Skip
                                                                   | Some (exitP, exitD) \<Rightarrow>
                                                                       (let profit = (exitP - entryLim) * LOT_SIZE
                                                                        in Trade
                                                                             \<lparr>initialStop = initialStop lv, target1 = target1 lv,
                                                                              trailingStop = trailingStop lv, finalTarget = finalTarget lv,
                                                                              tr_entryDate = Some tradeTime, tr_exitDate = exitD,
                                                                              tr_signalType = sig_type sig, tr_side = sig_side sig,
                                                                              tr_strike = strike contract, tr_expiry = expiry contract,
                                                                              entryLimit = entryLim, exitPrice = exitP,
                                                                              tr_profit = profit, capitalAfter = capital + profit\<rparr>))
                                                      | _ \<Rightarrow> Skip))))))"

text \<open>
  \<^verbatim>\<open>backtestTrailing\<close>: the signals in order, the trades collected and the capital
  carried along. \<open>None\<close> is the \<open>TypeError\<close> that aborts the run.
\<close>

fun runSignals ::
  "DailyBar list \<Rightarrow> optionMap \<Rightarrow> real \<Rightarrow> Signal list \<Rightarrow> TradeRecord list \<times> real
     \<Rightarrow> (TradeRecord list \<times> real) option" where
  "runSignals daily groupedOpts finalRR [] st = Some st"
| "runSignals daily groupedOpts finalRR (sig # sigs) (trades, capital) =
     (case tradeSignal daily groupedOpts finalRR capital sig of
        Skip \<Rightarrow> runSignals daily groupedOpts finalRR sigs (trades, capital)
      | TypeError \<Rightarrow> None
      | Trade t \<Rightarrow> runSignals daily groupedOpts finalRR sigs (trades @ [t], capitalAfter t))"

definition backtestTrailing ::
  "DailyBar list \<Rightarrow> Signal list \<Rightarrow> optionMap \<Rightarrow> real \<Rightarrow> TradeRecord list option" where
  "backtestTrailing daily signals groupedOpts finalRR =
     map_option fst (runSignals daily groupedOpts finalRR signals ([], START_CAPITAL))"

section \<open>Live manager: \<^verbatim>\<open>LiveStrategyManager\<close> of \<^verbatim>\<open>strategy_v2_live.ts\<close>\<close>

datatype optionType = CE | PE

datatype txn = BUY | SELL

datatype status = active | trailing | closed

text \<open>
  A trading symbol is printed from the strike, the option type and the expiry date
  (\<^verbatim>\<open>getOptionTradingSymbol\<close>); the triple stands for the printed string.
\<close>

type_synonym symbol = "real \<times> optionType \<times> int"

definition getOptionTradingSymbol :: "real \<Rightarrow> optionType \<Rightarrow> int \<Rightarrow> symbol" where
  "getOptionTradingSymbol strk optionTyp expiryT = (strk, optionTyp, expiryT)"

text \<open>\<^verbatim>\<open>interface LiveTradingConfig\<close> (without the two credential strings).\<close>

record LiveTradingConfig =
  cfg_capital :: real
  riskPerTrade :: real
  entryBuffer :: real
  strikeStep :: real
  lotSize :: real
  finalRR :: real
  enableTrailing :: bool
  maxPositions :: int
  debugMode :: bool

text \<open>\<^verbatim>\<open>interface LivePosition\<close>; the optional members are \<open>None\<close> while unset.\<close>

record LivePosition = Levels +
  orderId :: string
  entryDate :: jsdate
  pos_side :: side
  pos_strike :: real
  pos_expiry :: int
  tradingSymbol :: symbol
  entryPrice :: real
  quantity :: real
  status :: status
  currentPrice :: "real option"
  profit :: "real option"

text \<open>
  One line of \<^verbatim>\<open>live_trades.jsonl\<close>: the closed position (whose members the line
  repeats), the exit price, the capital after the exit and the reason.
\<close>

record 'p LiveTrade =
  lt_position :: 'p
  lt_exitPrice :: real
  lt_capital :: real
  lt_reason :: string

text \<open>
  The manager's members, with the console output of \<^verbatim>\<open>log\<close> and the trade file as two
  more components. \<^verbatim>\<open>positions\<close> is a \<^verbatim>\<open>Map\<close>: an association list in insertion
  order with distinct keys.
\<close>

record 'p Manager =
  config :: LiveTradingConfig
  positions :: "(string \<times> 'p) list"
  capital :: real
  tradingActive :: bool
  console :: "string list"
  live_trades :: "'p LiveTrade list"

text \<open>
  What the brokerage and the clock answer during one call: the last traded price of a
  symbol (\<open>None\<close> when the request fails or carries no price), the order id of a placed
  order (\<open>None\<close> when placing it fails), the next expiry, and the current time with its
  local weekday, hour and minute.
\<close>

record Broker =
  lastPrice :: "symbol \<Rightarrow> real option"
  placeOrder :: "symbol \<Rightarrow> real \<Rightarrow> real \<Rightarrow> txn \<Rightarrow> string option"
  nextExpiry :: int
  nowTime :: int
  nowDay :: nat
  nowHours :: nat
  nowMinutes :: nat

text \<open>\<^verbatim>\<open>log\<close> prints only in debug mode. A message is recorded by its fixed text.\<close>

definition logMsg :: "string \<Rightarrow> ('p, 'm) Manager_scheme \<Rightarrow> ('p, 'm) Manager_scheme" where
  "logMsg m s = (if debugMode (config s) then s\<lparr>console := console s @ [m]\<rparr> else s)"

definition getNumLots :: "('p, 'm) Manager_scheme \<Rightarrow> real" where
  "getNumLots s =
     (if capital s > 300000 then real_of_int \<lfloor>capital s / 100000\<rfloor>
      else if capital s > 100000 then 2
      else 1)"

definition findNearestStrike :: "LiveTradingConfig \<Rightarrow> real \<Rightarrow> optionType \<Rightarrow> real" where
  "findNearestStrike cfg spotPrice sd =
     (let atm = atmStrike (strikeStep cfg) spotPrice
      in if sd = CE then atm + strikeStep cfg else atm - strikeStep cfg)"

text \<open>\<^verbatim>\<open>getOptionLTP\<close>: a missing or zero price is thrown as an error, after a log line.\<close>

definition getOptionLTP ::
  "'b Broker_scheme \<Rightarrow> symbol \<Rightarrow> ('p, 'm) Manager_scheme \<Rightarrow> real option \<times> ('p, 'm) Manager_scheme" where
  "getOptionLTP b tsym s =
     (case lastPrice b tsym of
        None \<Rightarrow> (None, logMsg ''Error getting LTP'' s)
      | Some l \<Rightarrow> if l = 0 then (None, logMsg ''Error getting LTP'' s) else (Some l, s))"

definition placeOptionOrder ::
  "'b Broker_scheme \<Rightarrow> symbol \<Rightarrow> real \<Rightarrow> real \<Rightarrow> txn \<Rightarrow> ('p, 'm) Manager_scheme
     \<Rightarrow> string option \<times> ('p, 'm) Manager_scheme" where
  "placeOptionOrder b tsym qty limitPrice t s =
     (let s1 = logMsg ''Placing order'' s
      in case placeOrder b tsym qty limitPrice t of
           None \<Rightarrow> (None, logMsg ''Error placing order'' s1)
         | Some oid \<Rightarrow> (Some oid, logMsg ''Order placed successfully'' s1))"

text \<open>
  \<^verbatim>\<open>enterPosition\<close>. The result is the new position or \<^verbatim>\<open>null\<close>, and the manager
  after the call. The call is taken as one step: no other call runs between its
  \<^verbatim>\<open>await\<close>s.
\<close>

definition enterPosition ::
  "Broker \<Rightarrow> Signal \<Rightarrow> real \<Rightarrow> LivePosition Manager \<Rightarrow> LivePosition option \<times> LivePosition Manager" where
  "enterPosition b signal spotPrice s =
     (if int (length (positions s)) \<ge> maxPositions (config s)
        then (None, logMsg ''Max positions reached. Skipping entry.'' s)
      else (let cfg = config s;
                optionTyp = (if sig_side signal = long then CE else PE);
                strk = findNearestStrike cfg spotPrice optionTyp;
                expiryT = nextExpiry b;
                tsym = getOptionTradingSymbol strk optionTyp expiryT
            in case getOptionLTP b tsym s of
                 (None, s1) \<Rightarrow> (None, logMsg ''Error entering position'' s1)
               | (Some l, s1) \<Rightarrow>
                   (let entryP = max (l - entryBuffer cfg) (1 / 20);
                        lv = riskLevels entryP (riskPerTrade cfg) (finalRR cfg);
                        numLots = getNumLots s1;
                        qty = numLots * lotSize cfg
                    in case placeOptionOrder b tsym qty entryP BUY s1 of
                         (None, s2) \<Rightarrow> (None, logMsg ''Error entering position'' s2)
                       | (Some oid, s2) \<Rightarrow>
                           (let position =
                                  \<lparr>initialStop = initialStop lv, target1 = target1 lv,
                                   trailingStop = trailingStop lv, finalTarget = finalTarget lv,
                                   orderId = oid, entryDate = Some (nowTime b),
                                   pos_side = sig_side signal, pos_strike = strk,
                                   pos_expiry = expiryT, tradingSymbol = tsym,
                                   entryPrice = entryP, quantity = qty, status = active,
                                   currentPrice = None, profit = None\<rparr>
                            in (Some position,
                                logMsg ''Targets''
                                  (logMsg ''Position entered''
                                     (s2\<lparr>positions := AList.update oid position (positions s2)\<rparr>)))))))"





text \<open>
  \<^verbatim>\<open>exitPosition\<close>. The flag tells whether the call threw (the sell order failed); the
  manager is the state it leaves.
\<close>

definition exitPosition ::
  "Broker \<Rightarrow> string \<Rightarrow> real \<Rightarrow> string \<Rightarrow> LivePosition Manager \<Rightarrow> bool \<times> LivePosition Manager" where
  "exitPosition b oid exitP reason s =
     (case map_of (positions s) oid of
        None \<Rightarrow> (False, logMsg ''Position not found'' s)
      | Some position \<Rightarrow>
          (case placeOptionOrder b (tradingSymbol position) (quantity position) exitP SELL s of
             (None, s1) \<Rightarrow> (True, logMsg ''Error exiting position'' s1)
           | (Some _, s1) \<Rightarrow>
               (let pr = (exitP - entryPrice position) * quantity position;
                    position' = position\<lparr>profit := Some pr, status := closed\<rparr>;
                    s2 = s1\<lparr>capital := capital s1 + pr\<rparr>;
                    s3 = logMsg ''Updated capital'' (logMsg ''Exit'' (logMsg ''Position closed'' s2));
                    s4 = s3\<lparr>positions := AList.delete oid (positions s3)\<rparr>
                in (False,
                    s4\<lparr>live_trades := live_trades s4 @
                          [\<lparr>lt_position = position', lt_exitPrice = exitP,
                            lt_capital = capital s4, lt_reason = reason\<rparr>]\<rparr>))))"

text \<open>
  An exit called from inside the \<^verbatim>\<open>try\<close> of \<^verbatim>\<open>monitorPositions\<close>: a thrown error
  is caught and logged, and the loop goes on to the next position.
\<close>

definition exitCaught ::
  "Broker \<Rightarrow> string \<Rightarrow> real \<Rightarrow> string \<Rightarrow> LivePosition Manager \<Rightarrow> LivePosition Manager" where
  "exitCaught b oid exitP reason s =
     (case exitPosition b oid exitP reason s of
        (True, s') \<Rightarrow> logMsg ''Error monitoring position'' s'
      | (False, s') \<Rightarrow> s')"

text \<open>\<^verbatim>\<open>now.getDay() === 5 && now.getHours() >= 15 && now.getMinutes() >= 15\<close>.\<close>

definition fridayExitTime :: "'b Broker_scheme \<Rightarrow> bool" where
  "fridayExitTime b \<longleftrightarrow> nowDay b = 5 \<and> nowHours b \<ge> 15 \<and> nowMinutes b \<ge> 15"

text \<open>The body of the loop of \<^verbatim>\<open>monitorPositions\<close> for the position stored under \<open>oid\<close>.\<close>

definition monitorOne :: "Broker \<Rightarrow> string \<Rightarrow> LivePosition Manager \<Rightarrow> LivePosition Manager" where
  "monitorOne b oid s =
     (case map_of (positions s) oid of
        None \<Rightarrow> s
      | Some position \<Rightarrow>
          (case getOptionLTP b (tradingSymbol position) s of
             (None, s0) \<Rightarrow> logMsg ''Error monitoring position'' s0
           | (Some price, s0) \<Rightarrow>
               (let p1 = position\<lparr>currentPrice := Some price\<rparr>;
                    s1 = logMsg ''Monitoring'' (s0\<lparr>positions := AList.update oid p1 (positions s0)\<rparr>)
                in if status p1 = active \<and> price \<le> initialStop p1
                     then exitCaught b oid price ''stop_loss'' (logMsg ''Stop-loss hit'' s1)
                   else (let hit = (status p1 = active \<and> price \<ge> target1 p1);
                             p2 = (if hit then p1\<lparr>status := trailing\<rparr> else p1);
                             s2 = (if hit
                                     then logMsg ''Target 1:3 hit''
                                            (s1\<lparr>positions := AList.update oid p2 (positions s1)\<rparr>)
                                   else s1)
                         in if status p2 = trailing \<and> price \<le> trailingStop p2
                              then exitCaught b oid price ''trailing_stop''
                                     (logMsg ''Trailing stop hit'' s2)
                            else if price \<ge> finalTarget p2
                              then exitCaught b oid price ''target'' (logMsg ''Final target hit'' s2)
                            else if fridayExitTime b
                              then exitCaught b oid price ''friday_exit'' (logMsg ''Friday exit'' s2)
                            else s2))))"

definition monitorPositions :: "Broker \<Rightarrow> LivePosition Manager \<Rightarrow> LivePosition Manager" where
  "monitorPositions b s = fold (monitorOne b) (map fst (positions s)) s"

text \<open>\<^verbatim>\<open>isNearMarketClose\<close> of the configuration module, on the clock of the broker record.\<close>

definition isNearMarketClose :: "int \<Rightarrow> int \<Rightarrow> int \<Rightarrow> 'b Broker_scheme \<Rightarrow> bool" where
  "isNearMarketClose marketEndHour marketEndMinute minutesBefore b \<longleftrightarrow>
     (marketEndHour * 60 + marketEndMinute) - (int (nowHours b) * 60 + int (nowMinutes b))
       \<le> minutesBefore"

section \<open>The 15-minute version of the live manager\<close>

text \<open>
  A second, later text of \<^verbatim>\<open>LiveStrategyManager\<close> trades on 15-minute bars. Its
  position carries the entry bar and the running high and low; its manager counts bars and
  appends every entry and exit attempt to \<^verbatim>\<open>order_log.jsonl\<close>.
\<close>

record LivePosition15 = LivePosition +
  entryBarIndex :: int
  intradayHigh :: "real option"
  intradayLow :: "real option"
  pos_signalType :: signalType

text \<open>\<^verbatim>\<open>interface OptionChainRow\<close>, as \<^verbatim>\<open>selectBestContract\<close> returns it.\<close>

record OptionChainRow =
  oc_tradingsymbol :: symbol
  oc_strike :: real
  oc_last_price :: real
  oc_oi :: real
  oc_volume :: real
  oc_bid :: real
  oc_ask :: real

record OrderAttempt =
  oa_type :: string
  oa_status :: string
  oa_error :: "string option"

record 'p Manager15 = "'p Manager" +
  currentBarIndex :: int
  order_log :: "OrderAttempt list"

text \<open>
  Two more answers of the brokerage: the row that \<^verbatim>\<open>selectBestContract\<close> returns for a
  spot price and a side (\<open>None\<close> for \<^verbatim>\<open>null\<close>), and what \<^verbatim>\<open>verifyOrderFill\<close>
  reports for an order: whether it is complete, and its average price.
\<close>

record Broker15 = Broker +
  bestContract :: "real \<Rightarrow> side \<Rightarrow> OptionChainRow option"
  orderFill :: "string \<Rightarrow> bool \<times> real option"

definition MAX_HOLDING_BARS :: int where
  "MAX_HOLDING_BARS = 75"


definition logOrderAttempt ::
  "OrderAttempt \<Rightarrow> ('p, 'm) Manager15_scheme \<Rightarrow> ('p, 'm) Manager15_scheme" where
  "logOrderAttempt e s = logMsg ''[ORDER LOG]'' (s\<lparr>order_log := order_log s @ [e]\<rparr>)"




definition exitPosition15 ::
  "Broker15 \<Rightarrow> string \<Rightarrow> real \<Rightarrow> string \<Rightarrow> LivePosition15 Manager15
     \<Rightarrow> bool \<times> LivePosition15 Manager15" where
  "exitPosition15 b oid exitP reason s =
     (case map_of (positions s) oid of
        None \<Rightarrow> (False, logMsg ''Position not found'' s)
      | Some position \<Rightarrow>
          (case placeOptionOrder b (tradingSymbol position) (quantity position) exitP SELL s of
             (None, s1) \<Rightarrow> (True, logMsg ''Error exiting position'' s1)
           | (Some _, s1) \<Rightarrow>
               (let pr = (exitP - entryPrice position) * quantity position;
                    position' = position\<lparr>profit := Some pr, status := closed\<rparr>;
                    s2 = s1\<lparr>capital := capital s1 + pr\<rparr>;
                    s3 = logMsg ''Updated capital'' (logMsg ''Exit'' (logMsg ''Position closed'' s2));
                    s4 = s3\<lparr>positions := AList.delete oid (positions s3)\<rparr>;
                    s5 = s4\<lparr>live_trades := live_trades s4 @
                           [\<lparr>lt_position = position', lt_exitPrice = exitP,
                             lt_capital = capital s4, lt_reason = reason\<rparr>]\<rparr>
                in (False,
                    logOrderAttempt \<lparr>oa_type = ''EXIT'', oa_status = ''SUCCESS'', oa_error = None\<rparr> s5))))"

definition exitCaught15 ::
  "Broker15 \<Rightarrow> string \<Rightarrow> real \<Rightarrow> string \<Rightarrow> LivePosition15 Manager15 \<Rightarrow> LivePosition15 Manager15" where
  "exitCaught15 b oid exitP reason s =
     (case exitPosition15 b oid exitP reason s of
        (True, s') \<Rightarrow> logMsg ''Error monitoring position'' s'
      | (False, s') \<Rightarrow> s')"

text \<open>
  \<^verbatim>\<open>if (!position.intradayHigh || currentPrice > position.intradayHigh)\<close> and its mirror
  for the low: the running extreme after the update.
\<close>

definition runHigh :: "real option \<Rightarrow> real \<Rightarrow> real" where
  "runHigh h price = (case h of None \<Rightarrow> price | Some v \<Rightarrow> if v = 0 \<or> price > v then price else v)"

definition runLow :: "real option \<Rightarrow> real \<Rightarrow> real" where
  "runLow l price = (case l of None \<Rightarrow> price | Some v \<Rightarrow> if v = 0 \<or> price < v then price else v)"

definition monitorOne15 ::
  "Broker15 \<Rightarrow> string \<Rightarrow> LivePosition15 Manager15 \<Rightarrow> LivePosition15 Manager15" where
  "monitorOne15 b oid s =
     (case map_of (positions s) oid of
        None \<Rightarrow> s
      | Some position \<Rightarrow>
          (case getOptionLTP b (tradingSymbol position) s of
             (None, s0) \<Rightarrow> logMsg ''Error monitoring position'' s0
           | (Some price, s0) \<Rightarrow>
               (let hi = runHigh (intradayHigh position) price;
                    lo = runLow (intradayLow position) price;
                    p1 = position\<lparr>currentPrice := Some price,
                                   intradayHigh := Some hi, intradayLow := Some lo\<rparr>;
                    s1 = logMsg ''Monitoring'' (s0\<lparr>positions := AList.update oid p1 (positions s0)\<rparr>);
                    barsHeld = currentBarIndex s1 - entryBarIndex p1
                in if barsHeld \<ge> MAX_HOLDING_BARS
                     then exitCaught15 b oid price ''max_holding_period''
                            (logMsg ''Max holding period reached'' s1)
                   else if status p1 = active \<and> lo \<le> initialStop p1
                     then exitCaught15 b oid price ''stop_loss'' (logMsg ''Stop-loss hit'' s1)
                   else (let hit = (status p1 = active \<and> hi \<ge> target1 p1);
                             p2 = (if hit then p1\<lparr>status := trailing\<rparr> else p1);
                             s2 = (if hit
                                     then logMsg ''Target 1:3 hit''
                                            (s1\<lparr>positions := AList.update oid p2 (positions s1)\<rparr>)
                                   else s1)
                         in if status p2 = trailing \<and> lo \<le> trailingStop p2
                              then exitCaught15 b oid price ''trailing_stop''
                                     (logMsg ''Trailing stop hit'' s2)
                            else if hi \<ge> finalTarget p2
                              then exitCaught15 b oid price ''target'' (logMsg ''Final target hit'' s2)
                            else if fridayExitTime b
                              then exitCaught15 b oid price ''friday_exit'' (logMsg ''Friday exit'' s2)
                            else s2))))"

definition monitorPositions15 :: "Broker15 \<Rightarrow> LivePosition15 Manager15 \<Rightarrow> LivePosition15 Manager15" where
  "monitorPositions15 b s = fold (monitorOne15 b) (map fst (positions s)) s"

section \<open>The exit rules of a monitoring tick, in priority order\<close>

text \<open>
  The rule that decides a tick, as the specification lists them: first match wins. For the
  manager of \<^verbatim>\<open>strategy_v2_live.ts\<close> the observation is the current price; for the
  15-minute version it is the running high and low after the tick, and the number of bars
  held comes first.
\<close>

definition liveRule :: "LivePosition \<Rightarrow> real \<Rightarrow> bool \<Rightarrow> string option" where
  "liveRule position price friday =
     (if status position = active \<and> price \<le> initialStop position then Some ''stop_loss''
      else if (status position = trailing \<or> (status position = active \<and> price \<ge> target1 position))
              \<and> price \<le> trailingStop position then Some ''trailing_stop''
      else if price \<ge> finalTarget position then Some ''target''
      else if friday then Some ''friday_exit''
      else None)"

definition closedAt :: "LivePosition \<Rightarrow> real \<Rightarrow> LivePosition" where
  "closedAt position price =
     position\<lparr>currentPrice := Some price,
              profit := Some ((price - entryPrice position) * quantity position),
              status := closed\<rparr>"

definition liveRule15 :: "LivePosition15 \<Rightarrow> real \<Rightarrow> real \<Rightarrow> int \<Rightarrow> bool \<Rightarrow> string option" where
  "liveRule15 position hi lo barsHeld friday =
     (if barsHeld \<ge> MAX_HOLDING_BARS then Some ''max_holding_period''
      else if status position = active \<and> lo \<le> initialStop position then Some ''stop_loss''
      else if (status position = trailing \<or> (status position = active \<and> hi \<ge> target1 position))
              \<and> lo \<le> trailingStop position then Some ''trailing_stop''
      else if hi \<ge> finalTarget position then Some ''target''
      else if friday then Some ''friday_exit''
      else None)"

definition closedAt15 :: "LivePosition15 \<Rightarrow> real \<Rightarrow> LivePosition15" where
  "closedAt15 position price =
     position\<lparr>currentPrice := Some price,
              profit := Some ((price - entryPrice position) * quantity position),
              status := closed,
              intradayHigh := Some (runHigh (intradayHigh position) price),
              intradayLow := Some (runLow (intradayLow position) price)\<rparr>"

section \<open>Example inputs\<close>

text \<open>
  Nine bars closing at 100 followed by one closing at 90 (Scenario A of the
  specification), used to evaluate the engine and the signal generator.
\<close>

definition bar100 :: DailyBar where "bar100 = rawBar (Some 0) 100 100 100 100"
definition bar90 :: DailyBar where "bar90 = rawBar (Some 0) 90 90 90 90"
definition scenarioA :: "DailyBar list" where
  "scenarioA = [bar100, bar100, bar100, bar100, bar100, bar100, bar100, bar100, bar100, bar90]"

text \<open>An option chain for one day: five rows of strike 24600.\<close>

definition optRow ::
  "string \<Rightarrow> int \<Rightarrow> string \<Rightarrow> real \<Rightarrow> real \<Rightarrow> real \<Rightarrow> real \<Rightarrow> real \<Rightarrow> real \<Rightarrow> OptionRow" where
  "optRow e et ty k l lo hi opi c =
     \<lparr>opt_date = Some 0, expiry = e, expiryDt = Some et, opt_type = ty, strike = k,
      ltp = Some l, opt_low = Some lo, opt_high = Some hi, oi = Some opi, oiChange = 0, contracts = Some c\<rparr>"

definition rowA :: OptionRow where "rowA = optRow ''09-Jan'' 259200000 ''CE'' 24600 110 95 115 1000 50"
definition rowB :: OptionRow where "rowB = optRow ''16-Jan'' 864000000 ''CE'' 24600 150 140 160 5000 70"
definition rowC :: OptionRow where "rowC = optRow ''09-Jan'' 259200000 ''CE'' 24600 110 95 115 2000 60"
definition rowD :: OptionRow where "rowD = optRow ''09-Jan'' 259200000 ''PE'' 24600 90 80 100 9000 90"
definition rowE :: OptionRow where "rowE = optRow ''26-Dec'' (- 86400000) ''CE'' 24600 1 1 2 9000 90"
definition rowP :: OptionRow where "rowP = optRow ''09-Jan'' 259200000 ''PE'' 24500 110 95 115 3000 80"
definition snapshotC :: "OptionRow list" where "snapshotC = [rowA, rowB, rowC, rowD, rowE, rowP]"

text \<open>
  Three rows of strike 24600 with the same expiry and open interests 5000, \<^verbatim>\<open>NaN\<close> (a dash
  in the file) and 9000.
\<close>

definition rowLow :: OptionRow where "rowLow = optRow ''09-Jan'' 259200000 ''CE'' 24600 110 95 115 5000 70"
definition rowNaN :: OptionRow where
  "rowNaN = (optRow ''09-Jan'' 259200000 ''CE'' 24600 105 90 110 0 50)\<lparr>oi := None\<rparr>"
definition rowHigh :: OptionRow where "rowHigh = optRow ''09-Jan'' 259200000 ''CE'' 24600 120 100 125 9000 90"
definition snapshotNaN :: "OptionRow list" where "snapshotNaN = [rowLow, rowNaN, rowHigh]"

text \<open>
  A one-row chain whose day range reaches both the stop (low 85) and the final target
  (high 185) of an entry at 100; one daily bar closing at 24537; the option data of that
  day.
\<close>

definition rowWide :: OptionRow where "rowWide = optRow ''09-Jan'' 259200000 ''CE'' 24600 110 85 185 1000 50"
definition snapshotWide :: "OptionRow list" where "snapshotWide = [rowWide]"
definition dailyOne :: "DailyBar list" where "dailyOne = [rawBar (Some 0) 24500 24600 24400 24537]"
definition optsWide :: optionMap where "optsWide = (\<lambda>k. if k = 0 then Some snapshotWide else None)"
definition optsC :: optionMap where "optsC = (\<lambda>k. if k = 0 then Some snapshotC else None)"

text \<open>
  A configuration with \<^verbatim>\<open>maxPositions = 1\<close> and debug mode off, a brokerage that quotes
  110 and accepts every order on a Monday morning, an empty manager, and the position that
  a long signal then opens: entry 100, stop 90, trailing stop 120, first target 130, final
  target 180 (Scenario B of the specification).
\<close>

definition cfgA :: LiveTradingConfig where
  "cfgA = \<lparr>cfg_capital = 15000, riskPerTrade = 10, entryBuffer = 10, strikeStep = 50,
            lotSize = 75, finalRR = 8, enableTrailing = True, maxPositions = 1,
            debugMode = False\<rparr>"

definition brokerA :: Broker where
  "brokerA = \<lparr>lastPrice = (\<lambda>_. Some 110), placeOrder = (\<lambda>_ _ _ _. Some ''order-1''),
               nextExpiry = 259200000, nowTime = 0, nowDay = 1, nowHours = 10, nowMinutes = 0\<rparr>"

definition managerA :: "LivePosition Manager" where
  "managerA = \<lparr>config = cfgA, positions = [], capital = 15000, tradingActive = True,
                console = [], live_trades = []\<rparr>"

definition sigLong :: Signal where
  "sigLong = \<lparr>index = 0, sig_date = Some 0, sig_side = long, sig_type = BB_reversal\<rparr>"

definition sigShort :: Signal where
  "sigShort = \<lparr>index = 0, sig_date = Some 0, sig_side = short, sig_type = BB_reversal\<rparr>"

definition posA :: LivePosition where
  "posA = \<lparr>initialStop = 90, target1 = 130, trailingStop = 120, finalTarget = 180,
            orderId = ''order-1'', entryDate = Some 0, pos_side = long, pos_strike = 24600,
            pos_expiry = 259200000, tradingSymbol = (24600, CE, 259200000),
            entryPrice = 100, quantity = 75, status = active,
            currentPrice = None, profit = None\<rparr>"

text \<open>
  The manager holding that position; the same position opened by a short signal (a put);
  a brokerage that quotes 85, and clocks on a Friday at 15:20 and at 14:57.
\<close>

definition managerB :: "LivePosition Manager" where
  "managerB = managerA\<lparr>positions := [(''order-1'', posA)]\<rparr>"



definition brokerStop :: Broker where
  "brokerStop = brokerA\<lparr>lastPrice := (\<lambda>_. Some 85)\<rparr>"

definition brokerFri :: Broker where
  "brokerFri = brokerA\<lparr>nowDay := 5, nowHours := 15, nowMinutes := 20\<rparr>"

definition brokerFriEarly :: Broker where
  "brokerFriEarly = brokerA\<lparr>nowDay := 5, nowHours := 14, nowMinutes := 57\<rparr>"

text \<open>The same for the 15-minute version: the position entered at bar 0, the manager at bar 75.\<close>

definition pos15A :: LivePosition15 where
  "pos15A = \<lparr>initialStop = 90, target1 = 130, trailingStop = 120, finalTarget = 180,
            orderId = ''order-1'', entryDate = Some 0, pos_side = long, pos_strike = 24600,
            pos_expiry = 259200000, tradingSymbol = (24600, CE, 259200000),
            entryPrice = 100, quantity = 75, status = active,
            currentPrice = None, profit = None,
            entryBarIndex = 0, intradayHigh = Some 100, intradayLow = Some 100,
            pos_signalType = BB_reversal\<rparr>"

definition manager15A :: "LivePosition15 Manager15" where
  "manager15A = \<lparr>config = cfgA, positions = [(''order-1'', pos15A)], capital = 15000,
                  tradingActive = True, console = [], live_trades = [],
                  currentBarIndex = 75, order_log = []\<rparr>"

definition broker15A :: Broker15 where
  "broker15A = \<lparr>lastPrice = (\<lambda>_. Some 110), placeOrder = (\<lambda>_ _ _ _. Some ''order-2''),
               nextExpiry = 259200000, nowTime = 0, nowDay = 1, nowHours = 10, nowMinutes = 0,
               bestContract = (\<lambda>_ _. None), orderFill = (\<lambda>_. (True, Some 100))\<rparr>"

definition broker15Stop :: Broker15 where
  "broker15Stop = broker15A\<lparr>lastPrice := (\<lambda>_. Some 85)\<rparr>"

definition manager15B :: "LivePosition15 Manager15" where
  "manager15B = manager15A\<lparr>currentBarIndex := 10\<rparr>"

definition manager15C :: "LivePosition15 Manager15" where
  "manager15C = manager15A\<lparr>currentBarIndex := 74\<rparr>"


definition broker15Fri :: Broker15 where
  "broker15Fri = broker15A\<lparr>nowDay := 5, nowHours := 15, nowMinutes := 20\<rparr>"

text \<open>
  Five consecutive daily bars closing at 24537. Option data in which the contract stays
  between 95 and 115 on the days 0 to 2 and trades at 112 on day 3; option data in which
  the contract reaches both the stop (low 85) and the final target (high 185) on day 1.
\<close>

definition dayBar :: "int \<Rightarrow> DailyBar" where
  "dayBar n = rawBar (Some (n * 86400000)) 24500 24600 24400 24537"

definition dailyFive :: "DailyBar list" where
  "dailyFive = [dayBar 0, dayBar 1, dayBar 2, dayBar 3, dayBar 4]"

definition rowEnd :: OptionRow where
  "rowEnd = (optRow ''09-Jan'' 259200000 ''CE'' 24600 112 96 114 2000 60)\<lparr>opt_date := Some 259200000\<rparr>"

definition rowWideNext :: OptionRow where
  "rowWideNext = rowWide\<lparr>opt_date := Some 86400000\<rparr>"

definition optsQuiet :: optionMap where
  "optsQuiet = (\<lambda>k. if k = 0 then Some snapshotC
                     else if k = 1 \<or> k = 2 then Some [rowC]
                     else if k = 3 then Some [rowEnd] else None)"

definition optsNext :: optionMap where
  "optsNext = (\<lambda>k. if k = 0 then Some snapshotC else if k = 1 then Some [rowWideNext] else None)"

text \<open>
  A position of the 15-minute version whose running low is 85 (from a tick whose exit
  order failed) while the brokerage quotes 185: the observation of the tick is at or below
  the stop 90 and at or above the final target 180. A position of \<^verbatim>\<open>strategy_v2_live.ts\<close>
  entered with \<^verbatim>\<open>riskPerTrade = 0\<close>, whose levels all equal the entry price 100, and a
  quote of 100.
\<close>

definition pos15Low :: LivePosition15 where
  "pos15Low = pos15A\<lparr>intradayLow := Some 85\<rparr>"

definition manager15Low :: "LivePosition15 Manager15" where
  "manager15Low = manager15B\<lparr>positions := [(''order-1'', pos15Low)]\<rparr>"

definition broker15High :: Broker15 where
  "broker15High = broker15A\<lparr>lastPrice := (\<lambda>_. Some 185)\<rparr>"

definition cfgFlat :: LiveTradingConfig where
  "cfgFlat = cfgA\<lparr>riskPerTrade := 0\<rparr>"

definition posFlat :: LivePosition where
  "posFlat = posA\<lparr>initialStop := 100, target1 := 100, trailingStop := 100, finalTarget := 100\<rparr>"

definition managerFlat :: "LivePosition Manager" where
  "managerFlat = managerA\<lparr>config := cfgFlat, positions := [(''order-1'', posFlat)]\<rparr>"

definition brokerFlat :: Broker where
  "brokerFlat = brokerA\<lparr>lastPrice := (\<lambda>_. Some 100)\<rparr>"



section \<open>Frame property of the indicator engine\<close>

lemma length_assign: "length (assign f xs) = length xs"
  by (induction xs arbitrary: f) (auto simp: Let_def)

lemma assign_frame:
  "i < length xs \<Longrightarrow>
     date (assign f xs ! i) = date (fst (xs ! i)) \<and>
     opn (assign f xs ! i) = opn (fst (xs ! i)) \<and>
     high (assign f xs ! i) = high (fst (xs ! i)) \<and>
     low (assign f xs ! i) = low (fst (xs ! i)) \<and>
     close (assign f xs ! i) = close (fst (xs ! i))"
proof (induction xs arbitrary: f i)
  case Nil
  then show ?case by simp
next
  case (Cons x xs)
  obtain d s b a where x: "x = (d, s, b, a)" by (cases x) auto
  show ?case
  proof (cases i)
    case 0
    then show ?thesis by (simp add: x Let_def)
  next
    case (Suc k)
    with Cons.prems have "k < length xs" by simp
    from Cons.IH[OF this] show ?thesis by (simp add: x Suc Let_def)
  qed
qed

lemma length_series:
  "length (smaSeries cs p) = length cs"
  "length (bbSeries cs p) = length cs"
  "length (trueRanges hs ls cs) = length cs"
  "length (atrSeries trs p) = length trs"
  by (simp_all add: smaSeries_def bbSeries_def trueRanges_def atrSeries_def)

lemma length_zipped:
  "length (zip daily (zip (smaSeries (map close daily) sp)
     (zip (bbSeries (map close daily) bp)
        (atrSeries (trueRanges (map high daily) (map low daily) (map close daily)) ap))))
   = length daily"
  by (simp add: length_series)

text \<open>
  C10. The indicator engine returns as many bars as it was given, and output bar \<open>i\<close>
  has the date, open, high, low and close of input bar \<open>i\<close>; only the five indicator
  fields are rewritten.
\<close>

theorem computeIndicators_frame:
  "length (computeIndicators daily bbPeriod smaPeriod atrPeriod) = length daily \<and>
   (\<forall>i < length daily.
      date (computeIndicators daily bbPeriod smaPeriod atrPeriod ! i) = date (daily ! i) \<and>
      opn (computeIndicators daily bbPeriod smaPeriod atrPeriod ! i) = opn (daily ! i) \<and>
      high (computeIndicators daily bbPeriod smaPeriod atrPeriod ! i) = high (daily ! i) \<and>
      low (computeIndicators daily bbPeriod smaPeriod atrPeriod ! i) = low (daily ! i) \<and>
      close (computeIndicators daily bbPeriod smaPeriod atrPeriod ! i) = close (daily ! i))"
proof (intro conjI allI impI)
  show "length (computeIndicators daily bbPeriod smaPeriod atrPeriod) = length daily"
    by (simp add: computeIndicators_def Let_def length_assign length_series)
next
  fix i assume i: "i < length daily"
  let ?z = "zip daily (zip (smaSeries (map close daily) smaPeriod)
     (zip (bbSeries (map close daily) bbPeriod)
        (atrSeries (trueRanges (map high daily) (map low daily) (map close daily)) atrPeriod)))"
  have len: "i < length ?z" using i by (simp add: length_series)
  have fst: "fst (?z ! i) = daily ! i" using i by (simp add: length_series)
  have ci: "computeIndicators daily bbPeriod smaPeriod atrPeriod =
      assign \<lparr>lastSma = 0, lastBbMid = 0, lastBbUpper = 0, lastBbLower = 0, lastAtr = 0\<rparr> ?z"
    by (simp add: computeIndicators_def Let_def)
  note fr = assign_frame[OF len, of "\<lparr>lastSma = 0, lastBbMid = 0, lastBbUpper = 0, lastBbLower = 0, lastAtr = 0\<rparr>"]
  show "date (computeIndicators daily bbPeriod smaPeriod atrPeriod ! i) = date (daily ! i)"
    using fr fst by (simp add: ci)
  show "opn (computeIndicators daily bbPeriod smaPeriod atrPeriod ! i) = opn (daily ! i)"
    using fr fst by (simp add: ci)
  show "high (computeIndicators daily bbPeriod smaPeriod atrPeriod ! i) = high (daily ! i)"
    using fr fst by (simp add: ci)
  show "low (computeIndicators daily bbPeriod smaPeriod atrPeriod ! i) = low (daily ! i)"
    using fr fst by (simp add: ci)
  show "close (computeIndicators daily bbPeriod smaPeriod atrPeriod ! i) = close (daily ! i)"
    using fr fst by (simp add: ci)
qed

theorem computeIndicators_frame_witness:
  "length (computeIndicators scenarioA 10 20 10) = 10 \<and>
   close (computeIndicators scenarioA 10 20 10 ! 9) = 90 \<and>
   high (computeIndicators scenarioA 10 20 10 ! 0) = 100"
proof -
  note f = computeIndicators_frame[of scenarioA 10 20 10]
  have a: "length (computeIndicators scenarioA 10 20 10) = 10"
    using f by (simp add: scenarioA_def)
  have "9 < length scenarioA" "0 < length scenarioA" by (simp_all add: scenarioA_def)
  with f have "close (computeIndicators scenarioA 10 20 10 ! 9) = close (scenarioA ! 9)"
    and "high (computeIndicators scenarioA 10 20 10 ! 0) = high (scenarioA ! 0)"
    by blast+
  then show ?thesis using a by (simp add: scenarioA_def bar100_def bar90_def rawBar_def)
qed

section \<open>The indicator engine computes the specified indicators\<close>

lemma map_nth_upt: "b \<le> length xs \<Longrightarrow> map ((!) xs) [a ..< b] = drop a (take b xs)"
  by (rule nth_equalityI) auto

lemma window_trailing:
  "i < length xs \<Longrightarrow> map ((!) xs) (window i p) = trailingWindow xs i p"
  unfolding window_def trailingWindow_def by (rule map_nth_upt) simp

lemma length_trailing: "i < length xs \<Longrightarrow> p \<le> i + 1 \<Longrightarrow> length (trailingWindow xs i p) = p"
  by (simp add: trailingWindow_def)

lemma windowSum_trailing:
  "i < length xs \<Longrightarrow> windowSum xs i p = sum_list (trailingWindow xs i p)"
  unfolding windowSum_def using window_trailing[of i xs p] by simp

lemma sma_spec:
  assumes "i < length closes"
  shows "smaSeries closes p ! i = specSMA closes p i"
proof (cases "i + 1 < p")
  case True
  then show ?thesis using assms by (simp add: smaSeries_def specSMA_def)
next
  case False
  then have len: "length (trailingWindow closes i p) = p" using assms by (simp add: length_trailing)
  show ?thesis
    using assms False len
    by (auto simp: smaSeries_def specSMA_def divPeriod_def meanDef_def windowSum_trailing)
qed

lemma sq_window:
  fixes xs :: "real list"
  assumes "i < length xs"
  shows "(\<Sum>j\<leftarrow>window i p. (xs ! j - m) * (xs ! j - m)) = sum_list (map (\<lambda>x. (x - m)\<^sup>2) (trailingWindow xs i p))"
proof -
  have "(\<Sum>j\<leftarrow>window i p. (xs ! j - m) * (xs ! j - m))
      = sum_list (map (\<lambda>x. (x - m)\<^sup>2) (map ((!) xs) (window i p)))"
    unfolding map_map comp_def power2_eq_square ..
  then show ?thesis using window_trailing[OF assms, of p] by simp
qed

lemma bb_spec:
  assumes "i < length closes"
  shows "bbSeries closes p ! i = specBB closes p i"
proof (cases "i + 1 < p")
  case True
  then show ?thesis using assms by (simp add: bbSeries_def specBB_def)
next
  case False
  then have len: "length (trailingWindow closes i p) = p" using assms by (simp add: length_trailing)
  show ?thesis
    using assms False len
    by (auto simp: bbSeries_def specBB_def bbAt_def divPeriod_def meanDef_def
        windowSum_trailing sq_window popStd_def Let_def)
qed

lemma trueRanges_spec:
  "trueRanges (map high bars) (map low bars) (map close bars) = map (specTR bars) [0 ..< length bars]"
  by (auto simp: trueRanges_def specTR_def trueRange_def Let_def max.assoc)

lemma foldl_nanAdd_None: "foldl (\<lambda>s j. nanAdd s (xs ! j)) None ws = None"
  by (induction ws) auto

lemma foldl_nanAdd:
  "foldl (\<lambda>s j. nanAdd s (xs ! j)) (Some a) ws =
     (case those (map ((!) xs) ws) of None \<Rightarrow> None | Some vs \<Rightarrow> Some (a + sum_list vs))"
proof (induction ws arbitrary: a)
  case Nil
  then show ?case by simp
next
  case (Cons w ws)
  show ?case
  proof (cases "xs ! w")
    case None
    then show ?thesis by (simp add: foldl_nanAdd_None)
  next
    case (Some v)
    then show ?thesis using Cons.IH[of "a + v"]
      by (auto split: option.splits simp: algebra_simps)
  qed
qed

lemma nanWindowSum_trailing:
  "i < length xs \<Longrightarrow>
   nanWindowSum xs i p =
     (case those (trailingWindow xs i p) of None \<Rightarrow> None | Some vs \<Rightarrow> Some (sum_list vs))"
  unfolding nanWindowSum_def foldl_nanAdd using window_trailing[of i xs p]
  by (simp split: option.splits)

lemma those_None: "None \<in> set xs \<Longrightarrow> those xs = None"
  by (induction xs) (auto split: option.splits)

lemma those_length: "those xs = Some ys \<Longrightarrow> length ys = length xs"
  by (induction xs arbitrary: ys) (auto split: option.splits)

lemma atr_spec:
  assumes "i < length bars"
  shows "atrSeries (map (specTR bars) [0 ..< length bars]) p ! i = specATR bars p i"
proof -
  let ?trs = "map (specTR bars) [0 ..< length bars]"
  have il: "i < length ?trs" using assms by simp
  consider (a) "i + 1 < p" | (b) "i + 1 = p" | (c) "p \<le> i"
    by linarith
  then show ?thesis
  proof cases
    case a
    then show ?thesis using assms by (simp add: atrSeries_def specATR_def)
  next
    case b
    then have tr: "trailingWindow ?trs i p = take (i + 1) ?trs" by (simp add: trailingWindow_def)
    have pos: "0 < length bars" using assms by (cases bars) auto
    have "?trs ! 0 = None" using nth_map[of 0 "[0 ..< length bars]" "specTR bars"] pos
      by (simp add: specTR_def)
    then have "take (i + 1) ?trs ! 0 = None" by simp
    moreover have "0 < length (take (i + 1) ?trs)" using assms by simp
    ultimately have "None \<in> set (take (i + 1) ?trs)" by (metis nth_mem)
    then have "those (trailingWindow ?trs i p) = None" unfolding tr by (rule those_None)
    then show ?thesis using assms b by (simp add: atrSeries_def specATR_def)
  next
    case c
    have len: "length (trailingWindow ?trs i p) = p" using il c by (simp add: length_trailing)
    show ?thesis
    proof (cases "those (trailingWindow ?trs i p)")
      case None
      then show ?thesis using assms c il
        by (simp add: atrSeries_def specATR_def nanWindowSum_trailing)
    next
      case (Some vs)
      then have "length vs = p" using those_length len by fastforce
      then show ?thesis using assms c il Some
        by (auto simp: atrSeries_def specATR_def nanWindowSum_trailing divPeriod_def meanDef_def)
    qed
  qed
qed

lemma lastDefined_snoc:
  "lastDefined (xs @ [x]) = (case x of None \<Rightarrow> lastDefined xs | Some v \<Rightarrow> Some v)"
  by (induction xs) (auto split: option.splits)

lemma assign_nth:
  "i < length xs \<Longrightarrow>
   assign f xs ! i =
     (fst (xs ! i))\<lparr>sma := lastSma (fillAll f (take (Suc i) xs)),
                     bbMid := lastBbMid (fillAll f (take (Suc i) xs)),
                     bbUpper := lastBbUpper (fillAll f (take (Suc i) xs)),
                     bbLower := lastBbLower (fillAll f (take (Suc i) xs)),
                     atr := lastAtr (fillAll f (take (Suc i) xs))\<rparr>"
proof (induction xs arbitrary: f i)
  case Nil
  then show ?case by simp
next
  case (Cons x xs)
  obtain d s b a where x: "x = (d, s, b, a)" by (cases x) auto
  show ?case
  proof (cases i)
    case 0
    then show ?thesis by (simp add: x Let_def)
  next
    case (Suc k)
    with Cons.prems have "k < length xs" by simp
    from Cons.IH[OF this] show ?thesis by (simp add: x Suc Let_def)
  qed
qed

lemma fillAll_snoc: "fillAll f (xs @ [(d, s, b, a)]) = fillStep (fillAll f xs) s b a"
  by (induction f xs rule: fillAll.induct) auto

lemma fillAll_sma:
  "lastSma (fillAll f xs) =
     (case lastDefined (map (\<lambda>(d, s, b, a). s) xs) of None \<Rightarrow> lastSma f | Some v \<Rightarrow> v)"
proof (induction xs rule: rev_induct)
  case Nil
  show ?case by simp
next
  case (snoc x xs)
  obtain d s b a where x: "x = (d, s, b, a)" by (cases x) auto
  from snoc.IH show ?case
    by (auto simp: x fillAll_snoc lastDefined_snoc fillStep_def Let_def split: option.splits)
qed

lemma fillAll_bb:
  "(lastBbMid (fillAll f xs), lastBbUpper (fillAll f xs), lastBbLower (fillAll f xs)) =
     (case lastDefined (map (\<lambda>(d, s, b, a). b) xs) of
        None \<Rightarrow> (lastBbMid f, lastBbUpper f, lastBbLower f) | Some v \<Rightarrow> v)"
proof (induction xs rule: rev_induct)
  case Nil
  show ?case by simp
next
  case (snoc x xs)
  obtain d s b a where x: "x = (d, s, b, a)" by (cases x) auto
  from snoc.IH show ?case
    by (auto simp: x fillAll_snoc lastDefined_snoc fillStep_def Let_def split: option.splits)
qed

lemma fillAll_atr:
  "lastAtr (fillAll f xs) =
     (case lastDefined (map (\<lambda>(d, s, b, a). a) xs) of None \<Rightarrow> lastAtr f | Some v \<Rightarrow> v)"
proof (induction xs rule: rev_induct)
  case Nil
  show ?case by simp
next
  case (snoc x xs)
  obtain d s b a where x: "x = (d, s, b, a)" by (cases x) auto
  from snoc.IH show ?case
    by (auto simp: x fillAll_snoc lastDefined_snoc fillStep_def Let_def split: option.splits)
qed

lemma forwardFill_defined: "v i = Some x \<Longrightarrow> forwardFill ph v i = x"
  by (simp add: forwardFill_def lastDefined_snoc)

lemma lastDefined_all_None: "(\<forall>x \<in> set xs. x = None) \<Longrightarrow> lastDefined xs = None"
  by (induction xs) auto

lemma forwardFill_undefined: "(\<forall>j \<le> i. v j = None) \<Longrightarrow> forwardFill ph v i = ph"
proof -
  assume a: "\<forall>j \<le> i. v j = None"
  have "lastDefined (map v [0 ..< i + 1]) = None"
    by (rule lastDefined_all_None) (use a in auto)
  then show ?thesis by (simp add: forwardFill_def)
qed

lemma zip4_proj:
  assumes "length ss = length ds" "length bs = length ds" "length as = length ds"
  shows "map (\<lambda>(d, s, b, a). s) (zip ds (zip ss (zip bs as))) = ss"
    and "map (\<lambda>(d, s, b, a). b) (zip ds (zip ss (zip bs as))) = bs"
    and "map (\<lambda>(d, s, b, a). a) (zip ds (zip ss (zip bs as))) = as"
  using assms by (auto intro!: nth_equalityI)

lemma take_series:
  assumes "i < length xs" "\<And>j. j < length xs \<Longrightarrow> xs ! j = v j"
  shows "take (Suc i) xs = map v [0 ..< i + 1]"
  using assms by (auto intro!: nth_equalityI simp del: upt_Suc)

lemma computeIndicators_nth:
  assumes "i < length daily"
  shows "sma (computeIndicators daily bp sp ap ! i) = forwardFill 0 (specSMA (map close daily) sp) i"
    and "(bbMid (computeIndicators daily bp sp ap ! i),
          bbUpper (computeIndicators daily bp sp ap ! i),
          bbLower (computeIndicators daily bp sp ap ! i))
         = forwardFill (0, 0, 0) (specBB (map close daily) bp) i"
    and "atr (computeIndicators daily bp sp ap ! i) = forwardFill 0 (specATR daily ap) i"
proof -
  let ?cs = "map close daily"
  let ?ss = "smaSeries ?cs sp"
  let ?bs = "bbSeries ?cs bp"
  let ?as = "atrSeries (trueRanges (map high daily) (map low daily) ?cs) ap"
  let ?z = "zip daily (zip ?ss (zip ?bs ?as))"
  let ?f0 = "\<lparr>lastSma = 0, lastBbMid = 0, lastBbUpper = 0, lastBbLower = 0, lastAtr = 0\<rparr>"
  have ci: "computeIndicators daily bp sp ap = assign ?f0 ?z"
    by (simp add: computeIndicators_def Let_def)
  have lz: "i < length ?z" using assms by (simp add: length_series)
  have ls: "length ?ss = length daily" "length ?bs = length daily" "length ?as = length daily"
    by (simp_all add: length_series)
  note nth = assign_nth[OF lz, of ?f0]
  have ts: "take (Suc i) ?ss = map (specSMA ?cs sp) [0 ..< i + 1]"
    by (rule take_series) (use assms in \<open>simp_all add: length_series sma_spec\<close>)
  have tb: "take (Suc i) ?bs = map (specBB ?cs bp) [0 ..< i + 1]"
    by (rule take_series) (use assms in \<open>simp_all add: length_series bb_spec\<close>)
  have ta: "take (Suc i) ?as = map (specATR daily ap) [0 ..< i + 1]"
    by (rule take_series) (use assms in \<open>simp_all add: length_series trueRanges_spec atr_spec\<close>)
  have ps: "map (\<lambda>(d, s, b, a). s) (take (Suc i) ?z) = map (specSMA ?cs sp) [0 ..< i + 1]"
    unfolding take_map[symmetric] zip4_proj(1)[OF ls] by (rule ts)
  have pb: "map (\<lambda>(d, s, b, a). b) (take (Suc i) ?z) = map (specBB ?cs bp) [0 ..< i + 1]"
    unfolding take_map[symmetric] zip4_proj(2)[OF ls] by (rule tb)
  have pa: "map (\<lambda>(d, s, b, a). a) (take (Suc i) ?z) = map (specATR daily ap) [0 ..< i + 1]"
    unfolding take_map[symmetric] zip4_proj(3)[OF ls] by (rule ta)
  show "sma (computeIndicators daily bp sp ap ! i) = forwardFill 0 (specSMA ?cs sp) i"
    unfolding ci nth forwardFill_def ps[symmetric] by (simp add: fillAll_sma split: option.splits)
  show "atr (computeIndicators daily bp sp ap ! i) = forwardFill 0 (specATR daily ap) i"
    unfolding ci nth forwardFill_def pa[symmetric] by (simp add: fillAll_atr split: option.splits)
  have "(bbMid (assign ?f0 ?z ! i), bbUpper (assign ?f0 ?z ! i), bbLower (assign ?f0 ?z ! i))
      = (lastBbMid (fillAll ?f0 (take (Suc i) ?z)), lastBbUpper (fillAll ?f0 (take (Suc i) ?z)),
         lastBbLower (fillAll ?f0 (take (Suc i) ?z)))"
    unfolding nth by simp
  also have "\<dots> = forwardFill (0, 0, 0) (specBB ?cs bp) i"
    unfolding fillAll_bb forwardFill_def pb[symmetric] by (simp split: option.splits)
  finally show "(bbMid (computeIndicators daily bp sp ap ! i),
          bbUpper (computeIndicators daily bp sp ap ! i),
          bbLower (computeIndicators daily bp sp ap ! i))
         = forwardFill (0, 0, 0) (specBB ?cs bp) i"
    unfolding ci .
qed

lemma those_map_Some: "those (map (Some \<circ> f) ys) = Some (map f ys)"
  by (induction ys) auto

lemma specATR_defined:
  assumes "i < length bars" "0 < p" "p \<le> i"
  shows "specATR bars p i = Some (sum_list (map (trueRange bars) (window i p)) / real p)"
proof -
  let ?trs = "map (specTR bars) [0 ..< length bars]"
  have il: "i < length ?trs" using assms by simp
  have "trailingWindow ?trs i p = map ((!) ?trs) (window i p)"
    using window_trailing[OF il, of p] by simp
  also have "\<dots> = map (Some \<circ> trueRange bars) (window i p)"
    using assms by (auto simp: window_def specTR_def)
  finally have th: "those (trailingWindow ?trs i p) = Some (map (trueRange bars) (window i p))"
    by (simp add: those_map_Some)
  have "length (window i p) = p" using assms by (simp add: window_def)
  then show ?thesis using assms th by (auto simp: specATR_def meanDef_def)
qed

lemma specATR_undefined:
  assumes "i < length bars" "i < p"
  shows "specATR bars p i = None"
  using atr_spec[OF assms(1), of p] assms by (simp add: atrSeries_def)

lemma specSMA_defined:
  assumes "i < length closes" "0 < p" "p \<le> i + 1"
  shows "specSMA closes p i = Some (sum_list (trailingWindow closes i p) / real p)"
  using assms length_trailing[of i closes p] by (auto simp: specSMA_def meanDef_def)

lemma specBB_defined:
  assumes "i < length closes" "0 < p" "p \<le> i + 1"
  shows "specBB closes p i =
     Some (sum_list (trailingWindow closes i p) / real p,
           sum_list (trailingWindow closes i p) / real p
             + 2 * popStd (sum_list (trailingWindow closes i p) / real p) (trailingWindow closes i p),
           sum_list (trailingWindow closes i p) / real p
             - 2 * popStd (sum_list (trailingWindow closes i p) / real p) (trailingWindow closes i p))"
  using assms length_trailing[of i closes p] by (auto simp: specBB_def meanDef_def)

lemma trailingWindow_zero: "trailingWindow xs i 0 = []"
  by (simp add: trailingWindow_def)

lemma spec_period_zero:
  "specSMA closes 0 j = None" "specBB closes 0 j = None" "specATR bars 0 j = None"
  by (simp_all add: specSMA_def specBB_def specATR_def trailingWindow_zero meanDef_def)

text \<open>
  C6. For every bar sequence, every window length and every index \<open>i\<close> inside the
  sequence, the engine stores the forward fill of the specified indicator: the SMA is the
  mean of the last \<open>smaPeriod\<close> closes and the placeholder 0 while \<open>i + 1 < smaPeriod\<close>;
  the Bollinger mid is the mean of the last \<open>bbPeriod\<close> closes, the bands are the mid
  plus and minus twice the population standard deviation of that window; the ATR is the
  mean of the last \<open>atrPeriod\<close> true ranges and the placeholder 0 while \<open>i < atrPeriod\<close>
  (the true range of bar 0 is undefined). A window length of 0 leaves the placeholder.
\<close>

theorem computeIndicators_trailing_values:
  assumes "i < length daily"
  shows
   "sma (computeIndicators daily bbPeriod smaPeriod atrPeriod ! i)
      = forwardFill 0 (specSMA (map close daily) smaPeriod) i \<and>
    (bbMid (computeIndicators daily bbPeriod smaPeriod atrPeriod ! i),
     bbUpper (computeIndicators daily bbPeriod smaPeriod atrPeriod ! i),
     bbLower (computeIndicators daily bbPeriod smaPeriod atrPeriod ! i))
      = forwardFill (0, 0, 0) (specBB (map close daily) bbPeriod) i \<and>
    atr (computeIndicators daily bbPeriod smaPeriod atrPeriod ! i)
      = forwardFill 0 (specATR daily atrPeriod) i \<and>
    sma (computeIndicators daily bbPeriod smaPeriod atrPeriod ! i)
      = (if smaPeriod = 0 \<or> i + 1 < smaPeriod then 0
         else sum_list (trailingWindow (map close daily) i smaPeriod) / real smaPeriod) \<and>
    bbMid (computeIndicators daily bbPeriod smaPeriod atrPeriod ! i)
      = (if bbPeriod = 0 \<or> i + 1 < bbPeriod then 0
         else sum_list (trailingWindow (map close daily) i bbPeriod) / real bbPeriod) \<and>
    bbUpper (computeIndicators daily bbPeriod smaPeriod atrPeriod ! i)
      = (if bbPeriod = 0 \<or> i + 1 < bbPeriod then 0
         else bbMid (computeIndicators daily bbPeriod smaPeriod atrPeriod ! i)
              + 2 * popStd (bbMid (computeIndicators daily bbPeriod smaPeriod atrPeriod ! i))
                      (trailingWindow (map close daily) i bbPeriod)) \<and>
    bbLower (computeIndicators daily bbPeriod smaPeriod atrPeriod ! i)
      = (if bbPeriod = 0 \<or> i + 1 < bbPeriod then 0
         else bbMid (computeIndicators daily bbPeriod smaPeriod atrPeriod ! i)
              - 2 * popStd (bbMid (computeIndicators daily bbPeriod smaPeriod atrPeriod ! i))
                      (trailingWindow (map close daily) i bbPeriod)) \<and>
    atr (computeIndicators daily bbPeriod smaPeriod atrPeriod ! i)
      = (if atrPeriod = 0 \<or> i < atrPeriod then 0
         else sum_list (map (trueRange daily) (window i atrPeriod)) / real atrPeriod)"
proof -
  let ?c = "computeIndicators daily bbPeriod smaPeriod atrPeriod ! i"
  let ?cs = "map close daily"
  let ?w = "trailingWindow ?cs i bbPeriod"
  note n = computeIndicators_nth[OF assms, of bbPeriod smaPeriod atrPeriod]
  have ic: "i < length ?cs" using assms by simp
  have s0: "smaPeriod = 0 \<or> i + 1 < smaPeriod \<Longrightarrow> sma ?c = 0"
    unfolding n(1) by (rule forwardFill_undefined) (auto simp: specSMA_def trailingWindow_zero meanDef_def)
  have s1: "\<not> (smaPeriod = 0 \<or> i + 1 < smaPeriod) \<Longrightarrow>
       sma ?c = sum_list (trailingWindow ?cs i smaPeriod) / real smaPeriod"
    unfolding n(1) by (rule forwardFill_defined) (use ic in \<open>simp add: specSMA_defined\<close>)
  have b0: "bbPeriod = 0 \<or> i + 1 < bbPeriod \<Longrightarrow> (bbMid ?c, bbUpper ?c, bbLower ?c) = (0, 0, 0)"
    unfolding n(2) by (rule forwardFill_undefined) (auto simp: specBB_def trailingWindow_zero meanDef_def)
  have b1: "\<not> (bbPeriod = 0 \<or> i + 1 < bbPeriod) \<Longrightarrow> (bbMid ?c, bbUpper ?c, bbLower ?c) =
      (sum_list ?w / real bbPeriod,
       sum_list ?w / real bbPeriod + 2 * popStd (sum_list ?w / real bbPeriod) ?w,
       sum_list ?w / real bbPeriod - 2 * popStd (sum_list ?w / real bbPeriod) ?w)"
    unfolding n(2) by (rule forwardFill_defined) (use ic in \<open>simp add: specBB_defined\<close>)
  have a0: "atrPeriod = 0 \<or> i < atrPeriod \<Longrightarrow> atr ?c = 0"
    unfolding n(3)
  proof (rule forwardFill_undefined, intro allI impI)
    fix j assume "atrPeriod = 0 \<or> i < atrPeriod" "j \<le> i"
    then show "specATR daily atrPeriod j = None"
      using assms specATR_undefined[of j daily atrPeriod] by (auto simp: spec_period_zero)
  qed
  have a1: "\<not> (atrPeriod = 0 \<or> i < atrPeriod) \<Longrightarrow>
       atr ?c = sum_list (map (trueRange daily) (window i atrPeriod)) / real atrPeriod"
    unfolding n(3) by (rule forwardFill_defined) (use assms in \<open>simp add: specATR_defined\<close>)
  have sm: "sma ?c = (if smaPeriod = 0 \<or> i + 1 < smaPeriod then 0
         else sum_list (trailingWindow ?cs i smaPeriod) / real smaPeriod)"
    using s0 s1 by presburger
  have bm: "bbMid ?c = (if bbPeriod = 0 \<or> i + 1 < bbPeriod then 0 else sum_list ?w / real bbPeriod)"
    using b0 b1 by (cases "bbPeriod = 0 \<or> i + 1 < bbPeriod") simp_all
  have bu: "bbUpper ?c = (if bbPeriod = 0 \<or> i + 1 < bbPeriod then 0
         else bbMid ?c + 2 * popStd (bbMid ?c) ?w)"
    using b0 b1 by (cases "bbPeriod = 0 \<or> i + 1 < bbPeriod") simp_all
  have bl: "bbLower ?c = (if bbPeriod = 0 \<or> i + 1 < bbPeriod then 0
         else bbMid ?c - 2 * popStd (bbMid ?c) ?w)"
    using b0 b1 by (cases "bbPeriod = 0 \<or> i + 1 < bbPeriod") simp_all
  have am: "atr ?c = (if atrPeriod = 0 \<or> i < atrPeriod then 0
         else sum_list (map (trueRange daily) (window i atrPeriod)) / real atrPeriod)"
    using a0 a1 by presburger
  show ?thesis
    using n(1) n(2) n(3) sm bm bu bl am by blast
qed

lemma sqrt9: "sqrt 9 = 3"
  by (rule real_sqrt_unique) simp_all

theorem computeIndicators_trailing_values_witness:
  "9 < length scenarioA \<and>
   bbMid (computeIndicators scenarioA 10 20 10 ! 9) = 99 \<and>
   bbUpper (computeIndicators scenarioA 10 20 10 ! 9) = 105 \<and>
   bbLower (computeIndicators scenarioA 10 20 10 ! 9) = 93 \<and>
   sma (computeIndicators scenarioA 10 20 10 ! 9) = 0 \<and>
   atr (computeIndicators scenarioA 10 20 10 ! 9) = 0"
proof -
  have l: "9 < length scenarioA" by (simp add: scenarioA_def)
  have w: "trailingWindow (map close scenarioA) 9 10 = [100, 100, 100, 100, 100, 100, 100, 100, 100, 90]"
    by (simp add: trailingWindow_def scenarioA_def bar100_def bar90_def rawBar_def)
  note t = computeIndicators_trailing_values[OF l, of 10 20 10]
  have m: "bbMid (computeIndicators scenarioA 10 20 10 ! 9) = 99"
    using t by (simp add: w)
  have u: "bbUpper (computeIndicators scenarioA 10 20 10 ! 9) = 105"
    using t by (simp add: w m popStd_def sqrt9)
  have lo: "bbLower (computeIndicators scenarioA 10 20 10 ! 9) = 93"
    using t by (simp add: w m popStd_def sqrt9)
  show ?thesis using l m u lo t by simp
qed

section \<open>Signals from bars whose indicators are not ready\<close>

lemma computeIndicators_update:
  assumes "i < length daily"
  shows "computeIndicators daily bp sp ap ! i =
    (daily ! i)\<lparr>sma := forwardFill 0 (specSMA (map close daily) sp) i,
                 bbMid := fst (forwardFill (0, 0, 0) (specBB (map close daily) bp) i),
                 bbUpper := fst (snd (forwardFill (0, 0, 0) (specBB (map close daily) bp) i)),
                 bbLower := snd (snd (forwardFill (0, 0, 0) (specBB (map close daily) bp) i)),
                 atr := forwardFill 0 (specATR daily ap) i\<rparr>"
proof -
  let ?z = "zip daily (zip (smaSeries (map close daily) sp)
     (zip (bbSeries (map close daily) bp)
        (atrSeries (trueRanges (map high daily) (map low daily) (map close daily)) ap)))"
  let ?f0 = "\<lparr>lastSma = 0, lastBbMid = 0, lastBbUpper = 0, lastBbLower = 0, lastAtr = 0\<rparr>"
  let ?c = "computeIndicators daily bp sp ap ! i"
  have ci: "computeIndicators daily bp sp ap = assign ?f0 ?z"
    by (simp add: computeIndicators_def Let_def)
  have lz: "i < length ?z" using assms by (simp add: length_series)
  have fz: "fst (?z ! i) = daily ! i" using assms by (simp add: length_series)
  note n = computeIndicators_nth[OF assms, of bp sp ap]
  have "?c = (daily ! i)\<lparr>sma := sma ?c, bbMid := bbMid ?c, bbUpper := bbUpper ?c,
                           bbLower := bbLower ?c, atr := atr ?c\<rparr>"
    unfolding ci assign_nth[OF lz] fz by simp
  moreover have "bbMid ?c = fst (forwardFill (0, 0, 0) (specBB (map close daily) bp) i)"
    "bbUpper ?c = fst (snd (forwardFill (0, 0, 0) (specBB (map close daily) bp) i))"
    "bbLower ?c = snd (snd (forwardFill (0, 0, 0) (specBB (map close daily) bp) i))"
    using n(2)[symmetric] by simp_all
  ultimately show ?thesis using n(1) n(3) by simp
qed

lemma ff_early: "i + 1 < p \<Longrightarrow> forwardFill ph (specSMA cs p) i = ph"
  "i + 1 < p \<Longrightarrow> forwardFill ph3 (specBB cs p) i = ph3"
  by (rule forwardFill_undefined; simp add: specSMA_def specBB_def)+

lemma ff_early_atr: "i < length bars \<Longrightarrow> i < p \<Longrightarrow> forwardFill ph (specATR bars p) i = ph"
  by (rule forwardFill_undefined) (auto intro: specATR_undefined)

lemma scenarioA_early:
  assumes "i < 9"
  shows "computeIndicators scenarioA 10 20 10 ! i = bar100"
proof -
  have l: "i < length scenarioA" using assms by (simp add: scenarioA_def)
  have d: "scenarioA ! i = bar100" using assms
    by (simp add: scenarioA_def nth_Cons' )
  show ?thesis
    unfolding computeIndicators_update[OF l] d
    using assms l by (simp add: ff_early ff_early_atr bar100_def rawBar_def)
qed

lemma scenarioA_last:
  "computeIndicators scenarioA 10 20 10 ! 9 = bar90\<lparr>bbMid := 99, bbUpper := 105, bbLower := 93\<rparr>"
proof -
  have l: "9 < length scenarioA" by (simp add: scenarioA_def)
  have d: "scenarioA ! 9 = bar90" by (simp add: scenarioA_def)
  have w: "trailingWindow (map close scenarioA) 9 10 = [100, 100, 100, 100, 100, 100, 100, 100, 100, 90]"
    by (simp add: trailingWindow_def scenarioA_def bar100_def bar90_def rawBar_def)
  have bb: "forwardFill (0, 0, 0) (specBB (map close scenarioA) 10) 9 = (99, 105, 93)"
    by (rule forwardFill_defined) (use l in \<open>simp add: specBB_defined w popStd_def sqrt9\<close>)
  show ?thesis
    unfolding computeIndicators_update[OF l] d bb
    using l by (simp add: ff_early ff_early_atr bar90_def rawBar_def)
qed

lemma scenarioA_indicators:
  "computeIndicators scenarioA 10 20 10 =
     [bar100, bar100, bar100, bar100, bar100, bar100, bar100, bar100, bar100,
      bar90\<lparr>bbMid := 99, bbUpper := 105, bbLower := 93\<rparr>]"
proof (rule nth_equalityI)
  show "length (computeIndicators scenarioA 10 20 10) = length [bar100, bar100, bar100, bar100, bar100, bar100, bar100, bar100, bar100,
      bar90\<lparr>bbMid := 99, bbUpper := 105, bbLower := 93\<rparr>]"
    by (simp add: computeIndicators_def Let_def length_assign length_series scenarioA_def)
next
  fix i assume "i < length (computeIndicators scenarioA 10 20 10)"
  then have "i < 10" by (simp add: computeIndicators_def Let_def length_assign length_series scenarioA_def)
  then consider "i < 9" | "i = 9" by linarith
  then show "computeIndicators scenarioA 10 20 10 ! i = [bar100, bar100, bar100, bar100, bar100, bar100, bar100, bar100, bar100,
      bar90\<lparr>bbMid := 99, bbUpper := 105, bbLower := 93\<rparr>] ! i"
  proof cases
    case 1
    then show ?thesis using scenarioA_early[OF 1] by (simp add: nth_Cons')
  next
    case 2
    then show ?thesis using scenarioA_last by simp
  qed
qed

text \<open>
  C5. The daily signal generator does not wait for the indicators. On Scenario A (nine
  closes of 100, then 90; windows 10, 20, 10) the Bollinger bands are undefined on bars 0
  to 8 and hold the placeholder 0, and the generator emits a short band-reversal signal on
  each of the bars 1 to 8, because the close is above the placeholder. The long signal of
  bar 9 is the only one the bands justify. The 15-minute generator, which has the guard,
  emits nothing on the same bars.
\<close>

theorem generateSignals_scenarioA:
  "generateSignals (computeIndicatorsDaily scenarioA) =
     [\<lparr>index = 1, sig_date = Some 0, sig_side = short, sig_type = BB_reversal\<rparr>,
      \<lparr>index = 2, sig_date = Some 0, sig_side = short, sig_type = BB_reversal\<rparr>,
      \<lparr>index = 3, sig_date = Some 0, sig_side = short, sig_type = BB_reversal\<rparr>,
      \<lparr>index = 4, sig_date = Some 0, sig_side = short, sig_type = BB_reversal\<rparr>,
      \<lparr>index = 5, sig_date = Some 0, sig_side = short, sig_type = BB_reversal\<rparr>,
      \<lparr>index = 6, sig_date = Some 0, sig_side = short, sig_type = BB_reversal\<rparr>,
      \<lparr>index = 7, sig_date = Some 0, sig_side = short, sig_type = BB_reversal\<rparr>,
      \<lparr>index = 8, sig_date = Some 0, sig_side = short, sig_type = BB_reversal\<rparr>,
      \<lparr>index = 9, sig_date = Some 0, sig_side = long, sig_type = BB_reversal\<rparr>] \<and>
   generateSignals15Min (computeIndicatorsDaily scenarioA) = []"
  unfolding computeIndicatorsDaily_def scenarioA_indicators
  by (simp add: generateSignals_def generateSignals15Min_def signalsAt_def bar100_def bar90_def
      rawBar_def threshold_def upt_rec[of _ 10])

section \<open>The contract selector and the ranking of the survivors\<close>

lemma compareRows_le:
  assumes "oi a \<noteq> None" "contracts a \<noteq> None" "oi b \<noteq> None" "contracts b \<noteq> None"
  shows "sortOrder (compareRows a b) \<le> 0 \<longleftrightarrow> ranksBefore a b"
  using assms by (auto simp: compareRows_def ranksBefore_def sortOrder_def Let_def)

lemma ranksBefore_total:
  assumes "oi a \<noteq> None" "contracts a \<noteq> None" "oi b \<noteq> None" "contracts b \<noteq> None"
  shows "ranksBefore a b \<or> ranksBefore b a"
  using assms by (auto simp: ranksBefore_def)

lemma ranksBefore_trans:
  assumes "oi b \<noteq> None" "contracts b \<noteq> None"
  shows "ranksBefore a b \<Longrightarrow> ranksBefore b c \<Longrightarrow> ranksBefore a c"
  using assms
  by (cases "oi a"; cases "oi c"; cases "contracts a"; cases "contracts c")
     (auto simp: ranksBefore_def)

lemma ranksBefore_refl:
  assumes "oi a \<noteq> None" "contracts a \<noteq> None"
  shows "ranksBefore a a"
  using assms by (auto simp: ranksBefore_def)

lemma set_insertRow: "set (insertRow x ys) = insert x (set ys)"
  by (induction ys) auto

lemma set_sortRows: "set (sortRows xs) = set xs"
  by (induction xs) (auto simp: sortRows_def set_insertRow)

lemma sortRows_Nil: "sortRows xs = [] \<longleftrightarrow> xs = []"
  using set_sortRows[of xs] by (metis set_empty)

lemma hd_insertRow:
  "hd (insertRow x ys) = (if ys = [] \<or> sortOrder (compareRows x (hd ys)) \<le> 0 then x else hd ys)"
  by (cases ys) auto

lemma sortRows_Cons: "sortRows (x # xs) = insertRow x (sortRows xs)"
  by (simp add: sortRows_def)

lemma hd_sortRows_min:
  assumes "xs \<noteq> []" "\<forall>r \<in> set xs. oi r \<noteq> None \<and> contracts r \<noteq> None"
  shows "\<forall>c \<in> set xs. ranksBefore (hd (sortRows xs)) c"
  using assms
proof (induction xs)
  case Nil
  then show ?case by simp
next
  case (Cons x xs)
  have nx: "oi x \<noteq> None" "contracts x \<noteq> None" using Cons.prems(2) by simp_all
  show ?case
  proof (cases "xs = []")
    case True
    then show ?thesis using nx by (simp add: sortRows_def ranksBefore_refl)
  next
    case False
    have num: "\<forall>r \<in> set xs. oi r \<noteq> None \<and> contracts r \<noteq> None" using Cons.prems(2) by simp
    have ih: "\<forall>c \<in> set xs. ranksBefore (hd (sortRows xs)) c" using Cons.IH[OF False num] .
    have ne: "sortRows xs \<noteq> []" using False by (simp add: sortRows_Nil)
    then have "hd (sortRows xs) \<in> set xs" using hd_in_set[OF ne] by (simp add: set_sortRows)
    then have nh: "oi (hd (sortRows xs)) \<noteq> None" "contracts (hd (sortRows xs)) \<noteq> None"
      using num by simp_all
    show ?thesis
    proof (cases "sortOrder (compareRows x (hd (sortRows xs))) \<le> 0")
      case True
      then have h: "hd (sortRows (x # xs)) = x" by (simp add: sortRows_Cons hd_insertRow)
      have xh: "ranksBefore x (hd (sortRows xs))"
        using True compareRows_le[OF nx nh] by simp
      have "ranksBefore x c" if "c \<in> set xs" for c
        using ranksBefore_trans[OF nh xh] ih that by simp
      then show ?thesis using h ranksBefore_refl[OF nx] by auto
    next
      case F: False
      then have h: "hd (sortRows (x # xs)) = hd (sortRows xs)"
        using ne by (simp add: sortRows_Cons hd_insertRow)
      have "ranksBefore (hd (sortRows xs)) x"
        using F ranksBefore_total[OF nx nh] compareRows_le[OF nx nh] by simp
      then show ?thesis using ih h by auto
    qed
  qed
qed

lemma candidates_survivors:
  "filter (\<lambda>row. expiryDt row \<noteq> None \<and> dateGe (expiryDt row) (opt_date first))
     (filter (\<lambda>row. opt_type row = desiredTypeOf sd \<and> strike row = targetStrikeOf sd spot) (first # rest))
   = survivors (first # rest) sd spot"
proof -
  have "\<And>row. (expiryDt row \<noteq> None \<and> dateGe (expiryDt row) (opt_date first)) = dateGe (expiryDt row) (opt_date first)"
    by (metis dateGe.simps(2))
  then show ?thesis
    unfolding survivors_def list.case filter_filter by (intro filter_cong) auto
qed

lemma selectContract_hd:
  "selectContract snapshot sd spot =
     (if survivors snapshot sd spot = [] then None
      else Some (hd (sortRows (survivors snapshot sd spot))))"
proof (cases snapshot)
  case Nil
  then show ?thesis by (simp add: selectContract_def survivors_def)
next
  case (Cons first rest)
  let ?cand = "filter (\<lambda>row. opt_type row = desiredTypeOf sd \<and> strike row = targetStrikeOf sd spot) (first # rest)"
  have sub: "?cand = [] \<Longrightarrow> survivors (first # rest) sd spot = []"
    unfolding candidates_survivors[symmetric] by simp
  show ?thesis
  proof (cases "?cand = []")
    case True
    then show ?thesis using sub by (simp add: selectContract_def Cons Let_def)
  next
    case False
    have "selectContract snapshot sd spot =
        (case sortRows (survivors (first # rest) sd spot) of [] \<Rightarrow> None | best # _ \<Rightarrow> Some best)"
      using False unfolding selectContract_def Cons Let_def list.case candidates_survivors by simp
    then show ?thesis
      unfolding Cons using sortRows_Nil[of "survivors (first # rest) sd spot"]
      by (cases "sortRows (survivors (first # rest) sd spot)") auto
  qed
qed

lemma jsRound_near: "\<bar>x - real_of_int (jsRound x)\<bar> \<le> 1 / 2"
  unfolding jsRound_def by linarith

lemma jsRound_nearest: "\<bar>x - real_of_int (jsRound x)\<bar> \<le> \<bar>x - real_of_int k\<bar>"
proof (cases "k = jsRound x")
  case True
  then show ?thesis by simp
next
  case False
  then have "1 \<le> \<bar>k - jsRound x\<bar>" by linarith
  then have "real_of_int 1 \<le> real_of_int \<bar>k - jsRound x\<bar>" by (simp only: of_int_le_iff)
  then have "1 \<le> \<bar>real_of_int k - real_of_int (jsRound x)\<bar>" by simp
  then show ?thesis using jsRound_near[of x] by linarith
qed

lemma atmStrike_nearest:
  assumes "0 < step"
  shows "\<bar>spot - atmStrike step spot\<bar> \<le> \<bar>spot - real_of_int k * step\<bar>"
proof -
  have a: "spot - real_of_int j * step = (spot / step - real_of_int j) * step" for j
    using assms by (simp add: field_simps)
  have "\<bar>spot / step - real_of_int (jsRound (spot / step))\<bar> * step
        \<le> \<bar>spot / step - real_of_int k\<bar> * step"
    using jsRound_nearest[of "spot / step" k] assms by (simp add: mult_right_mono)
  then show ?thesis
    unfolding atmStrike_def a abs_mult using assms by simp
qed

lemma atmStrike_multiple: "\<exists>k. atmStrike step spot = real_of_int k * step"
  unfolding atmStrike_def by blast

lemma selectContract_top_ranked_numeric:
  assumes "\<forall>r \<in> set (survivors snapshot sd spot). oi r \<noteq> None \<and> contracts r \<noteq> None"
  shows "selectContract snapshot sd spot = None \<longleftrightarrow> survivors snapshot sd spot = []"
    and "selectContract snapshot sd spot = Some r \<Longrightarrow>
          r \<in> set (survivors snapshot sd spot) \<and>
          (\<forall>c \<in> set (survivors snapshot sd spot). ranksBefore r c)"
proof -
  show "selectContract snapshot sd spot = None \<longleftrightarrow> survivors snapshot sd spot = []"
    by (simp add: selectContract_hd)
  assume r: "selectContract snapshot sd spot = Some r"
  then have ne: "survivors snapshot sd spot \<noteq> []"
    and hd: "r = hd (sortRows (survivors snapshot sd spot))"
    by (auto simp: selectContract_hd split: if_splits)
  have "sortRows (survivors snapshot sd spot) \<noteq> []" using ne by (simp add: sortRows_Nil)
  then have "r \<in> set (sortRows (survivors snapshot sd spot))" unfolding hd by (rule hd_in_set)
  then have "r \<in> set (survivors snapshot sd spot)" by (simp add: set_sortRows)
  moreover have "\<forall>c \<in> set (survivors snapshot sd spot). ranksBefore r c"
    unfolding hd using hd_sortRows_min[OF ne assms] .
  ultimately show "r \<in> set (survivors snapshot sd spot) \<and>
      (\<forall>c \<in> set (survivors snapshot sd spot). ranksBefore r c)" ..
qed

lemma selectContract_strikes:
  "targetStrikeOf long spot = atmStrike STRIKE_STEP spot + STRIKE_STEP"
  "desiredTypeOf long = ''CE''"
  "targetStrikeOf short spot = atmStrike STRIKE_STEP spot - STRIKE_STEP"
  "desiredTypeOf short = ''PE''"
  "findNearestStrike cfg spot CE = atmStrike (strikeStep cfg) spot + strikeStep cfg"
  "findNearestStrike cfg spot PE = atmStrike (strikeStep cfg) spot - strikeStep cfg"
  by (simp_all add: targetStrikeOf_def desiredTypeOf_def findNearestStrike_def Let_def)

lemmas contract_defs =
  selectContract_def survivors_def targetStrikeOf_def desiredTypeOf_def atmStrike_def jsRound_def
  STRIKE_STEP_def sortRows_def compareRows_def sortOrder_def expiryTime_def ranksBefore_def Let_def

lemma selectContract_snapshotC: "selectContract snapshotC long 24537 = Some rowC"
  by (simp add: contract_defs snapshotC_def rowA_def rowB_def rowC_def rowD_def rowE_def rowP_def
      optRow_def)

text \<open>
  C7. The selector is to return the survivor that ranks first by expiry ascending, then
  open interest descending, then number of contracts descending. \<^verbatim>\<open>selectContract\<close>
  does so whenever every surviving row carries a number for its open interest and its
  number of contracts (\<open>selectContract_top_ranked_numeric\<close>). It does not on a chain with
  a row whose open interest is \<^verbatim>\<open>NaN\<close>, which \<^verbatim>\<open>loadOptionData\<close> produces from an empty
  cell or a dash. Three rows of the target strike and kind with the same expiry, in this
  order: open interest 5000, \<^verbatim>\<open>NaN\<close>, 9000. All three survive the filters. Every
  comparison with the middle row returns \<^verbatim>\<open>NaN\<close>, the sort leaves the array as it is, and
  the selector returns the row with open interest 5000, although the row with open
  interest 9000 ranks before it. Without the middle row the selector returns the row with
  open interest 9000.
\<close>

theorem selectContract_nan_oi:
  "survivors snapshotNaN long 24537 = [rowLow, rowNaN, rowHigh] \<and>
   oi rowLow = Some 5000 \<and> oi rowNaN = None \<and> oi rowHigh = Some 9000 \<and>
   expiryTime rowLow = expiryTime rowHigh \<and>
   compareRows rowNaN rowHigh = None \<and> compareRows rowLow rowNaN = None \<and>
   sortRows [rowLow, rowNaN, rowHigh] = [rowLow, rowNaN, rowHigh] \<and>
   selectContract snapshotNaN long 24537 = Some rowLow \<and>
   ranksBefore rowHigh rowLow \<and> \<not> ranksBefore rowLow rowHigh \<and>
   selectContract [rowLow, rowHigh] long 24537 = Some rowHigh"
  by (simp add: contract_defs snapshotNaN_def rowLow_def rowNaN_def rowHigh_def optRow_def)

section \<open>One monitoring tick of the live manager\<close>

lemma logMsg_simps [simp]:
  "config (logMsg m s) = config s"
  "positions (logMsg m s) = positions s"
  "capital (logMsg m s) = capital s"
  "tradingActive (logMsg m s) = tradingActive s"
  "live_trades (logMsg m s) = live_trades s"
  by (simp_all add: logMsg_def)


lemma logMsg_upd:
  "logMsg m (s\<lparr>positions := ps\<rparr>) = (logMsg m s)\<lparr>positions := ps\<rparr>"
  "logMsg m (s\<lparr>capital := c\<rparr>) = (logMsg m s)\<lparr>capital := c\<rparr>"
  by (simp_all add: logMsg_def)

lemma enterPosition_managerA:
  "enterPosition brokerA sigLong 24537 managerA = (Some posA, managerA\<lparr>positions := [(''order-1'', posA)]\<rparr>)"
  by (simp add: enterPosition_def brokerA_def sigLong_def managerA_def cfgA_def posA_def
      getOptionLTP_def placeOptionOrder_def logMsg_def findNearestStrike_def atmStrike_def jsRound_def
      getOptionTradingSymbol_def riskLevels_def getNumLots_def Let_def)

lemma placeOptionOrder_simps [simp]:
  "fst (placeOptionOrder b ts q x t s) = placeOrder b ts q x t"
  "config (snd (placeOptionOrder b ts q x t s)) = config s"
  "positions (snd (placeOptionOrder b ts q x t s)) = positions s"
  "capital (snd (placeOptionOrder b ts q x t s)) = capital s"
  "live_trades (snd (placeOptionOrder b ts q x t s)) = live_trades s"
  by (simp_all add: placeOptionOrder_def Let_def split: option.splits)

lemma getOptionLTP_simps [simp]:
  "fst (getOptionLTP b ts s) = (case lastPrice b ts of None \<Rightarrow> None | Some l \<Rightarrow> if l = 0 then None else Some l)"
  "config (snd (getOptionLTP b ts s)) = config s"
  "positions (snd (getOptionLTP b ts s)) = positions s"
  "capital (snd (getOptionLTP b ts s)) = capital s"
  "live_trades (snd (getOptionLTP b ts s)) = live_trades s"
  by (simp_all add: getOptionLTP_def Let_def split: option.splits)

lemma map_of_update [simp]: "map_of (AList.update k v ps) = (map_of ps)(k \<mapsto> v)"
  by (rule update_conv')

lemma map_of_delete [simp]: "map_of (AList.delete k ps) k = None"
  by (simp add: delete_conv')

text \<open>A successful exit: what it leaves behind.\<close>

lemma exitPosition_ok:
  assumes "map_of (positions s) oid = Some p"
    and "placeOrder b (tradingSymbol p) (quantity p) x SELL = Some o'"
  shows "fst (exitPosition b oid x reason s) = False"
    and "capital (snd (exitPosition b oid x reason s)) = capital s + (x - entryPrice p) * quantity p"
    and "positions (snd (exitPosition b oid x reason s)) = AList.delete oid (positions s)"
    and "config (snd (exitPosition b oid x reason s)) = config s"
    and "live_trades (snd (exitPosition b oid x reason s)) = live_trades s @
          [\<lparr>lt_position = p\<lparr>profit := Some ((x - entryPrice p) * quantity p), status := closed\<rparr>,
            lt_exitPrice = x, lt_capital = capital s + (x - entryPrice p) * quantity p,
            lt_reason = reason\<rparr>]"
proof -
  obtain s1 where po: "placeOptionOrder b (tradingSymbol p) (quantity p) x SELL s = (Some o', s1)"
    using assms(2) placeOptionOrder_simps(1)[of b "tradingSymbol p" "quantity p" x SELL s]
    by (cases "placeOptionOrder b (tradingSymbol p) (quantity p) x SELL s") auto
  have s1: "config s1 = config s" "positions s1 = positions s" "capital s1 = capital s"
    "live_trades s1 = live_trades s"
    using placeOptionOrder_simps(2-5)[of b "tradingSymbol p" "quantity p" x SELL s] po by simp_all
  show "fst (exitPosition b oid x reason s) = False"
    and "capital (snd (exitPosition b oid x reason s)) = capital s + (x - entryPrice p) * quantity p"
    and "positions (snd (exitPosition b oid x reason s)) = AList.delete oid (positions s)"
    and "config (snd (exitPosition b oid x reason s)) = config s"
    and "live_trades (snd (exitPosition b oid x reason s)) = live_trades s @
          [\<lparr>lt_position = p\<lparr>profit := Some ((x - entryPrice p) * quantity p), status := closed\<rparr>,
            lt_exitPrice = x, lt_capital = capital s + (x - entryPrice p) * quantity p,
            lt_reason = reason\<rparr>]"
    using assms(1) po s1 by (simp_all add: exitPosition_def Let_def)
qed

lemma exitCaught_ok:
  assumes "map_of (positions s) oid = Some p"
    and "placeOrder b (tradingSymbol p) (quantity p) x SELL = Some o'"
  shows "exitCaught b oid x reason s = snd (exitPosition b oid x reason s)"
  using exitPosition_ok(1)[OF assms, of reason]
  by (cases "exitPosition b oid x reason s") (auto simp: exitCaught_def)

lemma getOptionLTP_Some:
  assumes "lastPrice b ts = Some price" "price \<noteq> 0"
  shows "getOptionLTP b ts s = (Some price, s)"
  using assms by (simp add: getOptionLTP_def)

lemma monitorOne_trades:
  assumes lookup: "map_of (positions s) oid = Some position"
    and price: "lastPrice b (tradingSymbol position) = Some price" "price \<noteq> 0"
    and order: "placeOrder b (tradingSymbol position) (quantity position) price SELL = Some o'"
  shows "live_trades (monitorOne b oid s) =
           live_trades s @
           (case liveRule position price (fridayExitTime b) of
              None \<Rightarrow> []
            | Some r \<Rightarrow> [\<lparr>lt_position = closedAt position price, lt_exitPrice = price,
                         lt_capital = capital s + (price - entryPrice position) * quantity position,
                         lt_reason = r\<rparr>])"
    and "capital (monitorOne b oid s) =
           (case liveRule position price (fridayExitTime b) of
              None \<Rightarrow> capital s
            | Some r \<Rightarrow> capital s + (price - entryPrice position) * quantity position)"
    and "liveRule position price (fridayExitTime b) \<noteq> None \<Longrightarrow>
           map_of (positions (monitorOne b oid s)) oid = None"
proof -
  let ?p1 = "position\<lparr>currentPrice := Some price\<rparr>"
  let ?s1 = "logMsg ''Monitoring'' (s\<lparr>positions := AList.update oid ?p1 (positions s)\<rparr>)"
  let ?hit = "status position = active \<and> price \<ge> target1 position"
  let ?p2 = "if ?hit then ?p1\<lparr>status := trailing\<rparr> else ?p1"
  let ?s2 = "if ?hit then logMsg ''Target 1:3 hit'' (?s1\<lparr>positions := AList.update oid ?p2 (positions ?s1)\<rparr>) else ?s1"
  let ?pr = "(price - entryPrice position) * quantity position"
  have g: "getOptionLTP b (tradingSymbol position) s = (Some price, s)"
    using price by (rule getOptionLTP_Some)
  have l1: "map_of (positions (logMsg m ?s1)) oid = Some ?p1" for m by simp
  have l2: "map_of (positions (logMsg m ?s2)) oid = Some ?p2" for m by simp
  have o1: "placeOrder b (tradingSymbol ?p1) (quantity ?p1) price SELL = Some o'"
    using order by simp
  have o2: "placeOrder b (tradingSymbol ?p2) (quantity ?p2) price SELL = Some o'"
    using order by simp
  note e1 = exitPosition_ok[OF l1 o1] exitCaught_ok[OF l1 o1]
  note e2 = exitPosition_ok[OF l2 o2] exitCaught_ok[OF l2 o2]
  have c1: "?p1\<lparr>profit := Some ?pr, status := closed\<rparr> = closedAt position price"
    by (simp add: closedAt_def)
  have c2: "?p2\<lparr>profit := Some ?pr, status := closed\<rparr> = closedAt position price"
    by (simp add: closedAt_def)
  have caps: "capital ?s1 = capital s" "capital ?s2 = capital s"
    "live_trades ?s1 = live_trades s" "live_trades ?s2 = live_trades s" by simp_all
  have ep: "entryPrice ?p1 = entryPrice position" "quantity ?p1 = quantity position"
    "entryPrice ?p2 = entryPrice position" "quantity ?p2 = quantity position" by simp_all
  consider (stop) "status position = active \<and> price \<le> initialStop position"
    | (trail) "\<not> (status position = active \<and> price \<le> initialStop position)"
        "status ?p2 = trailing \<and> price \<le> trailingStop position"
    | (target) "\<not> (status position = active \<and> price \<le> initialStop position)"
        "\<not> (status ?p2 = trailing \<and> price \<le> trailingStop position)" "price \<ge> finalTarget position"
    | (friday) "\<not> (status position = active \<and> price \<le> initialStop position)"
        "\<not> (status ?p2 = trailing \<and> price \<le> trailingStop position)" "\<not> price \<ge> finalTarget position"
        "fridayExitTime b"
    | (none) "\<not> (status position = active \<and> price \<le> initialStop position)"
        "\<not> (status ?p2 = trailing \<and> price \<le> trailingStop position)" "\<not> price \<ge> finalTarget position"
        "\<not> fridayExitTime b"
    by blast
  then have "live_trades (monitorOne b oid s) =
           live_trades s @
           (case liveRule position price (fridayExitTime b) of
              None \<Rightarrow> []
            | Some r \<Rightarrow> [\<lparr>lt_position = closedAt position price, lt_exitPrice = price,
                         lt_capital = capital s + ?pr, lt_reason = r\<rparr>]) \<and>
      capital (monitorOne b oid s) =
           (case liveRule position price (fridayExitTime b) of
              None \<Rightarrow> capital s
            | Some r \<Rightarrow> capital s + ?pr) \<and>
      (liveRule position price (fridayExitTime b) \<noteq> None \<longrightarrow>
           map_of (positions (monitorOne b oid s)) oid = None)"
  proof cases
    case stop
    have m: "monitorOne b oid s = exitCaught b oid price ''stop_loss'' (logMsg ''Stop-loss hit'' ?s1)"
      using lookup g stop by (simp add: monitorOne_def Let_def)
    have r: "liveRule position price (fridayExitTime b) = Some ''stop_loss''"
      using stop by (simp add: liveRule_def)
    show ?thesis unfolding m r e1(6) e1(5) e1(2) e1(3) c1 ep by (simp add: caps)
  next
    case trail
    have m: "monitorOne b oid s = exitCaught b oid price ''trailing_stop'' (logMsg ''Trailing stop hit'' ?s2)"
      using lookup g trail by (auto simp add: monitorOne_def Let_def)
    have r: "liveRule position price (fridayExitTime b) = Some ''trailing_stop''"
      using trail by (auto simp: liveRule_def split: if_splits)
    show ?thesis unfolding m r e2(6) e2(5) e2(2) e2(3) c2 ep by (simp add: caps)
  next
    case target
    have m: "monitorOne b oid s = exitCaught b oid price ''target'' (logMsg ''Final target hit'' ?s2)"
      using lookup g target by (auto simp add: monitorOne_def Let_def)
    have r: "liveRule position price (fridayExitTime b) = Some ''target''"
      using target by (auto simp: liveRule_def split: if_splits)
    show ?thesis unfolding m r e2(6) e2(5) e2(2) e2(3) c2 ep by (simp add: caps)
  next
    case friday
    have m: "monitorOne b oid s = exitCaught b oid price ''friday_exit'' (logMsg ''Friday exit'' ?s2)"
      using lookup g friday by (auto simp add: monitorOne_def Let_def)
    have r: "liveRule position price (fridayExitTime b) = Some ''friday_exit''"
      using friday by (auto simp: liveRule_def split: if_splits)
    show ?thesis unfolding m r e2(6) e2(5) e2(2) e2(3) c2 ep by (simp add: caps)
  next
    case none
    have m: "monitorOne b oid s = ?s2"
      using lookup g none by (auto simp add: monitorOne_def Let_def)
    have r: "liveRule position price (fridayExitTime b) = None"
      using none by (auto simp: liveRule_def split: if_splits)
    show ?thesis unfolding m r by simp
  qed
  then show "live_trades (monitorOne b oid s) =
           live_trades s @
           (case liveRule position price (fridayExitTime b) of
              None \<Rightarrow> []
            | Some r \<Rightarrow> [\<lparr>lt_position = closedAt position price, lt_exitPrice = price,
                         lt_capital = capital s + (price - entryPrice position) * quantity position,
                         lt_reason = r\<rparr>])"
    and "capital (monitorOne b oid s) =
           (case liveRule position price (fridayExitTime b) of
              None \<Rightarrow> capital s
            | Some r \<Rightarrow> capital s + (price - entryPrice position) * quantity position)"
    and "liveRule position price (fridayExitTime b) \<noteq> None \<Longrightarrow>
           map_of (positions (monitorOne b oid s)) oid = None"
    by blast+
qed

lemma logMsg15_simps [simp]:
  "currentBarIndex (logMsg m s) = currentBarIndex s"
  "order_log (logMsg m s) = order_log s"
  by (simp_all add: logMsg_def)

lemma logOrderAttempt_simps [simp]:
  "config (logOrderAttempt e s) = config s"
  "positions (logOrderAttempt e s) = positions s"
  "capital (logOrderAttempt e s) = capital s"
  "live_trades (logOrderAttempt e s) = live_trades s"
  "currentBarIndex (logOrderAttempt e s) = currentBarIndex s"
  "order_log (logOrderAttempt e s) = order_log s @ [e]"
  by (simp_all add: logOrderAttempt_def)

lemma placeOptionOrder15_simps [simp]:
  "currentBarIndex (snd (placeOptionOrder b ts q x t s)) = currentBarIndex s"
  "order_log (snd (placeOptionOrder b ts q x t s)) = order_log s"
  by (simp_all add: placeOptionOrder_def Let_def split: option.splits)

lemma exitPosition15_ok:
  assumes "map_of (positions s) oid = Some p"
    and "placeOrder b (tradingSymbol p) (quantity p) x SELL = Some o'"
  shows "fst (exitPosition15 b oid x reason s) = False"
    and "capital (snd (exitPosition15 b oid x reason s)) = capital s + (x - entryPrice p) * quantity p"
    and "positions (snd (exitPosition15 b oid x reason s)) = AList.delete oid (positions s)"
    and "config (snd (exitPosition15 b oid x reason s)) = config s"
    and "live_trades (snd (exitPosition15 b oid x reason s)) = live_trades s @
          [\<lparr>lt_position = p\<lparr>profit := Some ((x - entryPrice p) * quantity p), status := closed\<rparr>,
            lt_exitPrice = x, lt_capital = capital s + (x - entryPrice p) * quantity p,
            lt_reason = reason\<rparr>]"
proof -
  obtain s1 where po: "placeOptionOrder b (tradingSymbol p) (quantity p) x SELL s = (Some o', s1)"
    using assms(2) placeOptionOrder_simps(1)[of b "tradingSymbol p" "quantity p" x SELL s]
    by (cases "placeOptionOrder b (tradingSymbol p) (quantity p) x SELL s") auto
  have s1: "config s1 = config s" "positions s1 = positions s" "capital s1 = capital s"
    "live_trades s1 = live_trades s"
    using placeOptionOrder_simps(2-5)[of b "tradingSymbol p" "quantity p" x SELL s] po by simp_all
  show "fst (exitPosition15 b oid x reason s) = False"
    and "capital (snd (exitPosition15 b oid x reason s)) = capital s + (x - entryPrice p) * quantity p"
    and "positions (snd (exitPosition15 b oid x reason s)) = AList.delete oid (positions s)"
    and "config (snd (exitPosition15 b oid x reason s)) = config s"
    and "live_trades (snd (exitPosition15 b oid x reason s)) = live_trades s @
          [\<lparr>lt_position = p\<lparr>profit := Some ((x - entryPrice p) * quantity p), status := closed\<rparr>,
            lt_exitPrice = x, lt_capital = capital s + (x - entryPrice p) * quantity p,
            lt_reason = reason\<rparr>]"
    using assms(1) po s1 by (simp_all add: exitPosition15_def Let_def)
qed

lemma exitCaught15_ok:
  assumes "map_of (positions s) oid = Some p"
    and "placeOrder b (tradingSymbol p) (quantity p) x SELL = Some o'"
  shows "exitCaught15 b oid x reason s = snd (exitPosition15 b oid x reason s)"
  using exitPosition15_ok(1)[OF assms, of reason]
  by (cases "exitPosition15 b oid x reason s") (auto simp: exitCaught15_def)

lemma monitorOne15_trades:
  assumes lookup: "map_of (positions s) oid = Some position"
    and price: "lastPrice b (tradingSymbol position) = Some price" "price \<noteq> 0"
    and order: "placeOrder b (tradingSymbol position) (quantity position) price SELL = Some o'"
  shows "live_trades (monitorOne15 b oid s) =
           live_trades s @
           (case liveRule15 position (runHigh (intradayHigh position) price)
                   (runLow (intradayLow position) price)
                   (currentBarIndex s - entryBarIndex position) (fridayExitTime b) of
              None \<Rightarrow> []
            | Some r \<Rightarrow> [\<lparr>lt_position = closedAt15 position price, lt_exitPrice = price,
                         lt_capital = capital s + (price - entryPrice position) * quantity position,
                         lt_reason = r\<rparr>])"
    and "capital (monitorOne15 b oid s) =
           (case liveRule15 position (runHigh (intradayHigh position) price)
                   (runLow (intradayLow position) price)
                   (currentBarIndex s - entryBarIndex position) (fridayExitTime b) of
              None \<Rightarrow> capital s
            | Some r \<Rightarrow> capital s + (price - entryPrice position) * quantity position)"
    and "liveRule15 position (runHigh (intradayHigh position) price)
                   (runLow (intradayLow position) price)
                   (currentBarIndex s - entryBarIndex position) (fridayExitTime b) \<noteq> None \<Longrightarrow>
           map_of (positions (monitorOne15 b oid s)) oid = None"
proof -
  let ?hi = "runHigh (intradayHigh position) price"
  let ?lo = "runLow (intradayLow position) price"
  let ?held = "currentBarIndex s - entryBarIndex position"
  let ?rule = "liveRule15 position ?hi ?lo ?held (fridayExitTime b)"
  let ?p1 = "position\<lparr>currentPrice := Some price, intradayHigh := Some ?hi, intradayLow := Some ?lo\<rparr>"
  let ?s1 = "logMsg ''Monitoring'' (s\<lparr>positions := AList.update oid ?p1 (positions s)\<rparr>)"
  let ?hit = "status position = active \<and> ?hi \<ge> target1 position"
  let ?p2 = "if ?hit then ?p1\<lparr>status := trailing\<rparr> else ?p1"
  let ?s2 = "if ?hit then logMsg ''Target 1:3 hit'' (?s1\<lparr>positions := AList.update oid ?p2 (positions ?s1)\<rparr>) else ?s1"
  let ?pr = "(price - entryPrice position) * quantity position"
  have g: "getOptionLTP b (tradingSymbol position) s = (Some price, s)"
    using price by (rule getOptionLTP_Some)
  have l1: "map_of (positions (logMsg m ?s1)) oid = Some ?p1" for m by simp
  have l2: "map_of (positions (logMsg m ?s2)) oid = Some ?p2" for m by simp
  have o1: "placeOrder b (tradingSymbol ?p1) (quantity ?p1) price SELL = Some o'"
    using order by simp
  have o2: "placeOrder b (tradingSymbol ?p2) (quantity ?p2) price SELL = Some o'"
    using order by simp
  note e1 = exitPosition15_ok[OF l1 o1] exitCaught15_ok[OF l1 o1]
  note e2 = exitPosition15_ok[OF l2 o2] exitCaught15_ok[OF l2 o2]
  have c1: "?p1\<lparr>profit := Some ?pr, status := closed\<rparr> = closedAt15 position price"
    by (simp add: closedAt15_def)
  have c2: "?p2\<lparr>profit := Some ?pr, status := closed\<rparr> = closedAt15 position price"
    by (simp add: closedAt15_def)
  have caps: "capital ?s1 = capital s" "capital ?s2 = capital s"
    "live_trades ?s1 = live_trades s" "live_trades ?s2 = live_trades s"
    "currentBarIndex ?s1 = currentBarIndex s" by simp_all
  have ep: "entryPrice ?p1 = entryPrice position" "quantity ?p1 = quantity position"
    "entryPrice ?p2 = entryPrice position" "quantity ?p2 = quantity position" by simp_all
  consider (hold) "?held \<ge> MAX_HOLDING_BARS"
    | (stop) "\<not> ?held \<ge> MAX_HOLDING_BARS" "status position = active \<and> ?lo \<le> initialStop position"
    | (trail) "\<not> ?held \<ge> MAX_HOLDING_BARS" "\<not> (status position = active \<and> ?lo \<le> initialStop position)"
        "status ?p2 = trailing \<and> ?lo \<le> trailingStop position"
    | (target) "\<not> ?held \<ge> MAX_HOLDING_BARS" "\<not> (status position = active \<and> ?lo \<le> initialStop position)"
        "\<not> (status ?p2 = trailing \<and> ?lo \<le> trailingStop position)" "?hi \<ge> finalTarget position"
    | (friday) "\<not> ?held \<ge> MAX_HOLDING_BARS" "\<not> (status position = active \<and> ?lo \<le> initialStop position)"
        "\<not> (status ?p2 = trailing \<and> ?lo \<le> trailingStop position)" "\<not> ?hi \<ge> finalTarget position"
        "fridayExitTime b"
    | (none) "\<not> ?held \<ge> MAX_HOLDING_BARS" "\<not> (status position = active \<and> ?lo \<le> initialStop position)"
        "\<not> (status ?p2 = trailing \<and> ?lo \<le> trailingStop position)" "\<not> ?hi \<ge> finalTarget position"
        "\<not> fridayExitTime b"
    by blast
  then have "live_trades (monitorOne15 b oid s) =
           live_trades s @
           (case ?rule of
              None \<Rightarrow> []
            | Some r \<Rightarrow> [\<lparr>lt_position = closedAt15 position price, lt_exitPrice = price,
                         lt_capital = capital s + ?pr, lt_reason = r\<rparr>]) \<and>
      capital (monitorOne15 b oid s) =
           (case ?rule of None \<Rightarrow> capital s | Some r \<Rightarrow> capital s + ?pr) \<and>
      (?rule \<noteq> None \<longrightarrow> map_of (positions (monitorOne15 b oid s)) oid = None)"
  proof cases
    case hold
    have m: "monitorOne15 b oid s = exitCaught15 b oid price ''max_holding_period'' (logMsg ''Max holding period reached'' ?s1)"
      using lookup g hold by (simp add: monitorOne15_def Let_def)
    have r: "?rule = Some ''max_holding_period''"
      using hold by (simp add: liveRule15_def)
    show ?thesis unfolding m r e1(6) e1(5) e1(2) e1(3) c1 ep by (simp add: caps)
  next
    case stop
    have m: "monitorOne15 b oid s = exitCaught15 b oid price ''stop_loss'' (logMsg ''Stop-loss hit'' ?s1)"
      using lookup g stop by (simp add: monitorOne15_def Let_def)
    have r: "?rule = Some ''stop_loss''"
      using stop by (simp add: liveRule15_def)
    show ?thesis unfolding m r e1(6) e1(5) e1(2) e1(3) c1 ep by (simp add: caps)
  next
    case trail
    have m: "monitorOne15 b oid s = exitCaught15 b oid price ''trailing_stop'' (logMsg ''Trailing stop hit'' ?s2)"
      using lookup g trail by (auto simp add: monitorOne15_def Let_def)
    have r: "?rule = Some ''trailing_stop''"
      using trail by (auto simp: liveRule15_def split: if_splits)
    show ?thesis unfolding m r e2(6) e2(5) e2(2) e2(3) c2 ep by (simp add: caps)
  next
    case target
    have m: "monitorOne15 b oid s = exitCaught15 b oid price ''target'' (logMsg ''Final target hit'' ?s2)"
      using lookup g target by (auto simp add: monitorOne15_def Let_def)
    have r: "?rule = Some ''target''"
      using target by (auto simp: liveRule15_def split: if_splits)
    show ?thesis unfolding m r e2(6) e2(5) e2(2) e2(3) c2 ep by (simp add: caps)
  next
    case friday
    have m: "monitorOne15 b oid s = exitCaught15 b oid price ''friday_exit'' (logMsg ''Friday exit'' ?s2)"
      using lookup g friday by (auto simp add: monitorOne15_def Let_def)
    have r: "?rule = Some ''friday_exit''"
      using friday by (auto simp: liveRule15_def split: if_splits)
    show ?thesis unfolding m r e2(6) e2(5) e2(2) e2(3) c2 ep by (simp add: caps)
  next
    case none
    have m: "monitorOne15 b oid s = ?s2"
      using lookup g none by (auto simp add: monitorOne15_def Let_def)
    have r: "?rule = None"
      using none by (auto simp: liveRule15_def split: if_splits)
    show ?thesis unfolding m r by simp
  qed
  then show "live_trades (monitorOne15 b oid s) =
           live_trades s @
           (case ?rule of
              None \<Rightarrow> []
            | Some r \<Rightarrow> [\<lparr>lt_position = closedAt15 position price, lt_exitPrice = price,
                         lt_capital = capital s + (price - entryPrice position) * quantity position,
                         lt_reason = r\<rparr>])"
    and "capital (monitorOne15 b oid s) =
           (case ?rule of
              None \<Rightarrow> capital s
            | Some r \<Rightarrow> capital s + (price - entryPrice position) * quantity position)"
    and "?rule \<noteq> None \<Longrightarrow> map_of (positions (monitorOne15 b oid s)) oid = None"
    by blast+
qed

section \<open>Levels, priorities and the back test\<close>

lemma tradeSignal_Trade:
  assumes "tradeSignal daily g k cap sig = Trade t"
  shows "initialStop t = entryLimit t - RISK_PER_TRADE"
    and "target1 t = entryLimit t + 3 * RISK_PER_TRADE"
    and "trailingStop t = entryLimit t + 2 * RISK_PER_TRADE"
    and "finalTarget t = entryLimit t + k * RISK_PER_TRADE"
    and "tr_profit t = (exitPrice t - entryLimit t) * LOT_SIZE"
    and "capitalAfter t = cap + tr_profit t"
    and "tr_side t = sig_side sig"
  using assms
  by (auto simp: tradeSignal_def Let_def riskLevels_def
      split: option.splits if_splits prod.splits)

lemma dayZero_target_first:
  "hi \<ge> finalTarget lv \<Longrightarrow> dayZero lv lo hi = (Some (finalTarget lv), False, initialStop lv)"
  by (simp add: dayZero_def)

lemma holdingExit_date:
  "holdingExit daily g contract idx = Some (p, d) \<Longrightarrow>
     d = date (daily ! min (idx + 3) (length daily - 1))"
  by (auto simp: holdingExit_def endIdx_def Let_def split: option.splits list.splits if_splits)


lemmas example_defs =
  snapshotC_def rowA_def rowB_def rowC_def rowD_def rowE_def rowP_def rowWide_def snapshotWide_def
  optRow_def dailyOne_def rawBar_def optsWide_def optsC_def sigLong_def sigShort_def

lemmas backtest_defs =
  tradeSignal_def selectContract_def targetStrikeOf_def desiredTypeOf_def atmStrike_def
  jsRound_def STRIKE_STEP_def sortRows_def compareRows_def sortOrder_def expiryTime_def orElse_def
  truthy_def
  ENTRY_BUFFER_def LOT_SIZE_def RISK_PER_TRADE_def START_CAPITAL_def riskLevels_def dayZero_def
  holdingExit_def endIdx_def isoDay_def sameContract_def Let_def

lemma tradeSignal_wide:
  "tradeSignal dailyOne optsWide 8 START_CAPITAL sigLong =
     Trade \<lparr>initialStop = 90, target1 = 130, trailingStop = 120, finalTarget = 180,
            tr_entryDate = Some 0, tr_exitDate = Some 0, tr_signalType = BB_reversal,
            tr_side = long, tr_strike = 24600, tr_expiry = ''09-Jan'', entryLimit = 100,
            exitPrice = 180, tr_profit = 6000, capitalAfter = 21000\<rparr>"
  by (simp add: example_defs backtest_defs)

lemma tradeSignal_lastBar:
  "tradeSignal dailyOne optsC 8 START_CAPITAL sigLong =
     Trade \<lparr>initialStop = 90, target1 = 130, trailingStop = 120, finalTarget = 180,
            tr_entryDate = Some 0, tr_exitDate = Some 0, tr_signalType = BB_reversal,
            tr_side = long, tr_strike = 24600, tr_expiry = ''09-Jan'', entryLimit = 100,
            exitPrice = 110, tr_profit = 750, capitalAfter = 15750\<rparr>"
  by (simp add: example_defs backtest_defs)

lemma tradeSignal_short:
  "tradeSignal dailyOne optsC 2 START_CAPITAL sigShort =
     Trade \<lparr>initialStop = 90, target1 = 130, trailingStop = 120, finalTarget = 120,
            tr_entryDate = Some 0, tr_exitDate = Some 0, tr_signalType = BB_reversal,
            tr_side = short, tr_strike = 24500, tr_expiry = ''09-Jan'', entryLimit = 100,
            exitPrice = 110, tr_profit = 750, capitalAfter = 15750\<rparr>"
  by (simp add: example_defs backtest_defs)

lemma enterPosition_levels:
  assumes "enterPosition b signal spotPrice s = (Some p, s')"
  shows "initialStop p = entryPrice p - riskPerTrade (config s)"
    and "trailingStop p = entryPrice p + 2 * riskPerTrade (config s)"
    and "target1 p = entryPrice p + 3 * riskPerTrade (config s)"
    and "finalTarget p = entryPrice p + finalRR (config s) * riskPerTrade (config s)"
    and "pos_side p = sig_side signal"
  using assms
  by (auto simp: enterPosition_def Let_def riskLevels_def split: if_splits option.splits prod.splits)

text \<open>
  C1 (amended). For every entry price \<open>entry\<close>, risk unit \<open>R\<close> and multiple \<open>k\<close> the levels
  are \<open>entry - R\<close>, \<open>entry + 2R\<close>, \<open>entry + 3R\<close> and \<open>entry + kR\<close>. They are strictly ordered
  initialStop < entry < trailingStop < target1 < finalTarget whenever \<open>R\<close> is positive and
  \<open>k\<close> exceeds 3. The back test and the live manager compute these same levels for a long
  and for a short signal: both sides buy an option, and no level is mirrored.
\<close>

theorem levels_ordering:
  "initialStop (riskLevels entry R k) = entry - R \<and>
   trailingStop (riskLevels entry R k) = entry + 2 * R \<and>
   target1 (riskLevels entry R k) = entry + 3 * R \<and>
   finalTarget (riskLevels entry R k) = entry + k * R \<and>
   (0 < R \<and> 3 < k \<longrightarrow>
      initialStop (riskLevels entry R k) < entry \<and>
      entry < trailingStop (riskLevels entry R k) \<and>
      trailingStop (riskLevels entry R k) < target1 (riskLevels entry R k) \<and>
      target1 (riskLevels entry R k) < finalTarget (riskLevels entry R k)) \<and>
   (\<forall>t. tradeSignal daily g k cap sig = Trade t \<longrightarrow>
      tr_side t = sig_side sig \<and>
      initialStop t = entryLimit t - RISK_PER_TRADE \<and>
      trailingStop t = entryLimit t + 2 * RISK_PER_TRADE \<and>
      target1 t = entryLimit t + 3 * RISK_PER_TRADE \<and>
      finalTarget t = entryLimit t + k * RISK_PER_TRADE) \<and>
   (\<forall>p s'. enterPosition b signal spotPrice s = (Some p, s') \<longrightarrow>
      pos_side p = sig_side signal \<and>
      initialStop p = entryPrice p - riskPerTrade (config s) \<and>
      trailingStop p = entryPrice p + 2 * riskPerTrade (config s) \<and>
      target1 p = entryPrice p + 3 * riskPerTrade (config s) \<and>
      finalTarget p = entryPrice p + finalRR (config s) * riskPerTrade (config s))"
proof -
  have ord: "0 < R \<and> 3 < k \<longrightarrow>
      initialStop (riskLevels entry R k) < entry \<and>
      entry < trailingStop (riskLevels entry R k) \<and>
      trailingStop (riskLevels entry R k) < target1 (riskLevels entry R k) \<and>
      target1 (riskLevels entry R k) < finalTarget (riskLevels entry R k)"
    by (simp add: riskLevels_def)
  have vals: "initialStop (riskLevels entry R k) = entry - R"
    "trailingStop (riskLevels entry R k) = entry + 2 * R"
    "target1 (riskLevels entry R k) = entry + 3 * R"
    "finalTarget (riskLevels entry R k) = entry + k * R"
    by (simp_all add: riskLevels_def)
  show ?thesis
    using ord vals tradeSignal_Trade[of daily g k cap sig] enterPosition_levels[of b signal spotPrice s]
    by blast
qed

theorem levels_ordering_witness:
  "(0::real) < 10 \<and> (3::real) < 8 \<and>
   initialStop (riskLevels 100 10 8) = 90 \<and> trailingStop (riskLevels 100 10 8) = 120 \<and>
   target1 (riskLevels 100 10 8) = 130 \<and> finalTarget (riskLevels 100 10 8) = 180 \<and>
   initialStop (riskLevels 100 10 8) < 100 \<and> 100 < trailingStop (riskLevels 100 10 8) \<and>
   trailingStop (riskLevels 100 10 8) < target1 (riskLevels 100 10 8) \<and>
   target1 (riskLevels 100 10 8) < finalTarget (riskLevels 100 10 8) \<and>
   (\<exists>t. tradeSignal dailyOne optsC 8 START_CAPITAL sigShort = Trade t \<and> tr_side t = short \<and>
        initialStop t = entryLimit t - RISK_PER_TRADE \<and> initialStop t < entryLimit t) \<and>
   enterPosition brokerA sigLong 24537 managerA
     = (Some posA, managerA\<lparr>positions := [(''order-1'', posA)]\<rparr>) \<and>
   initialStop posA = entryPrice posA - riskPerTrade (config managerA)"
proof -
  note t = levels_ordering[of 100 10 8 dailyOne optsC START_CAPITAL sigShort brokerA sigLong 24537 managerA]
  have e: "enterPosition brokerA sigLong 24537 managerA
     = (Some posA, managerA\<lparr>positions := [(''order-1'', posA)]\<rparr>)"
    by (rule enterPosition_managerA)
  have "\<exists>t. tradeSignal dailyOne optsC 8 START_CAPITAL sigShort = Trade t"
    by (simp add: example_defs backtest_defs)
  then obtain tr where tr: "tradeSignal dailyOne optsC 8 START_CAPITAL sigShort = Trade tr" by blast
  with t have trf: "tr_side tr = sig_side sigShort" "initialStop tr = entryLimit tr - RISK_PER_TRADE"
    by blast+
  have sh: "\<exists>t. tradeSignal dailyOne optsC 8 START_CAPITAL sigShort = Trade t \<and> tr_side t = short \<and>
        initialStop t = entryLimit t - RISK_PER_TRADE \<and> initialStop t < entryLimit t"
    using tr trf by (intro exI[of _ tr]) (simp add: sigShort_def RISK_PER_TRADE_def)
  from t e have "initialStop posA = entryPrice posA - riskPerTrade (config managerA)" by blast
  with t e sh show ?thesis by simp
qed

theorem levels_ordering_counterexample:
  "target1 (riskLevels 100 10 2) = 130 \<and> finalTarget (riskLevels 100 10 2) = 120 \<and>
   \<not> target1 (riskLevels 100 10 2) < finalTarget (riskLevels 100 10 2) \<and>
   tradeSignal dailyOne optsC 2 START_CAPITAL sigShort =
     Trade \<lparr>initialStop = 90, target1 = 130, trailingStop = 120, finalTarget = 120,
            tr_entryDate = Some 0, tr_exitDate = Some 0, tr_signalType = BB_reversal,
            tr_side = short, tr_strike = 24500, tr_expiry = ''09-Jan'', entryLimit = 100,
            exitPrice = 110, tr_profit = 750, capitalAfter = 15750\<rparr>"
  using tradeSignal_short by (simp add: riskLevels_def)

lemma scanDays_target_first:
  assumes "idx + j < length daily" "date (daily ! (idx + j)) = Some t"
    and "g (isoDay t) = Some snap" "filter (sameContract contract) snap = row # rest"
    and "opt_low row = Some lo" "opt_high row = Some hi" "hi \<ge> finalTarget lv"
  shows "scanDays daily g contract lv idx (j # js) hit stop = Some (finalTarget lv, Some t)"
  using assms by (simp add: Let_def)

lemma exitPosition_trades_cases:
  "live_trades (snd (exitPosition b oid x reason s)) = live_trades s \<or>
   (\<exists>t. live_trades (snd (exitPosition b oid x reason s)) = live_trades s @ [t] \<and> lt_reason t = reason)"
  by (auto simp: exitPosition_def Let_def placeOptionOrder_def split: option.splits prod.splits)

lemma exitCaught_trades_cases:
  "live_trades (exitCaught b oid x reason s) = live_trades s \<or>
   (\<exists>t. live_trades (exitCaught b oid x reason s) = live_trades s @ [t] \<and> lt_reason t = reason)"
  using exitPosition_trades_cases[of b oid x reason s]
  by (cases "exitPosition b oid x reason s") (auto simp: exitCaught_def split: bool.splits)

lemma monitorOne_reasons:
  "live_trades (monitorOne b oid s) = live_trades s \<or>
   (\<exists>t. live_trades (monitorOne b oid s) = live_trades s @ [t] \<and>
        lt_reason t \<in> {''stop_loss'', ''trailing_stop'', ''target'', ''friday_exit''})"
proof (cases "map_of (positions s) oid")
  case None
  then show ?thesis by (simp add: monitorOne_def)
next
  case (Some position)
  show ?thesis
  proof (cases "getOptionLTP b (tradingSymbol position) s")
    case (Pair r s0)
    have s0: "live_trades s0 = live_trades s"
      using getOptionLTP_simps(5)[of b "tradingSymbol position" s] Pair by simp
    show ?thesis
    proof (cases r)
      case None
      then show ?thesis using Some Pair s0 by (simp add: monitorOne_def)
    next
      case (Some price)
      let ?p1 = "position\<lparr>currentPrice := Some price\<rparr>"
      let ?s1 = "logMsg ''Monitoring'' (s0\<lparr>positions := AList.update oid ?p1 (positions s0)\<rparr>)"
      let ?hit = "status ?p1 = active \<and> price \<ge> target1 ?p1"
      let ?p2 = "if ?hit then ?p1\<lparr>status := trailing\<rparr> else ?p1"
      let ?s2 = "if ?hit then logMsg ''Target 1:3 hit'' (?s1\<lparr>positions := AList.update oid ?p2 (positions ?s1)\<rparr>) else ?s1"
      have l: "live_trades (logMsg m ?s1) = live_trades s" "live_trades (logMsg m ?s2) = live_trades s"
        "live_trades ?s2 = live_trades s" for m
        using s0 by simp_all
      note lk = \<open>map_of (positions s) oid = Some position\<close>
      have g: "getOptionLTP b (tradingSymbol position) s = (Some price, s0)"
        using Pair Some by simp
      have ex: "live_trades (exitCaught b oid price r st) = live_trades s \<or>
            (\<exists>t. live_trades (exitCaught b oid price r st) = live_trades s @ [t] \<and>
               lt_reason t \<in> {''stop_loss'', ''trailing_stop'', ''target'', ''friday_exit''})"
        if "live_trades st = live_trades s"
          and "r \<in> {''stop_loss'', ''trailing_stop'', ''target'', ''friday_exit''}" for r st
        using exitCaught_trades_cases[of b oid price r st] that by metis
      consider (a) "status ?p1 = active \<and> price \<le> initialStop ?p1"
        | (b) "\<not> (status ?p1 = active \<and> price \<le> initialStop ?p1)"
              "status ?p2 = trailing \<and> price \<le> trailingStop ?p2"
        | (c) "\<not> (status ?p1 = active \<and> price \<le> initialStop ?p1)"
              "\<not> (status ?p2 = trailing \<and> price \<le> trailingStop ?p2)" "price \<ge> finalTarget ?p2"
        | (d) "\<not> (status ?p1 = active \<and> price \<le> initialStop ?p1)"
              "\<not> (status ?p2 = trailing \<and> price \<le> trailingStop ?p2)" "\<not> price \<ge> finalTarget ?p2"
              "fridayExitTime b"
        | (e) "\<not> (status ?p1 = active \<and> price \<le> initialStop ?p1)"
              "\<not> (status ?p2 = trailing \<and> price \<le> trailingStop ?p2)" "\<not> price \<ge> finalTarget ?p2"
              "\<not> fridayExitTime b"
        by blast
      then show ?thesis
      proof cases
        case a
        have "monitorOne b oid s = exitCaught b oid price ''stop_loss'' (logMsg ''Stop-loss hit'' ?s1)"
          using lk g a by (auto simp add: monitorOne_def Let_def)
        then show ?thesis using ex[OF l(1)[of "''Stop-loss hit''"], of "''stop_loss''"] by simp
      next
        case b
        have "monitorOne b oid s = exitCaught b oid price ''trailing_stop'' (logMsg ''Trailing stop hit'' ?s2)"
          using lk g b by (auto simp add: monitorOne_def Let_def)
        then show ?thesis using ex[OF l(2)[of "''Trailing stop hit''"], of "''trailing_stop''"] by simp
      next
        case c
        have "monitorOne b oid s = exitCaught b oid price ''target'' (logMsg ''Final target hit'' ?s2)"
          using lk g c by (auto simp add: monitorOne_def Let_def)
        then show ?thesis using ex[OF l(2)[of "''Final target hit''"], of "''target''"] by simp
      next
        case d
        have "monitorOne b oid s = exitCaught b oid price ''friday_exit'' (logMsg ''Friday exit'' ?s2)"
          using lk g d by (auto simp add: monitorOne_def Let_def)
        then show ?thesis using ex[OF l(2)[of "''Friday exit''"], of "''friday_exit''"] by simp
      next
        case e
        have "monitorOne b oid s = ?s2"
          using lk g e by (auto simp add: monitorOne_def Let_def)
        then show ?thesis using l(3) by simp
      qed
    qed
  qed
qed

lemma exitPosition15_trades_cases:
  "live_trades (snd (exitPosition15 b oid x reason s)) = live_trades s \<or>
   (\<exists>t. live_trades (snd (exitPosition15 b oid x reason s)) = live_trades s @ [t] \<and> lt_reason t = reason)"
  by (auto simp: exitPosition15_def Let_def placeOptionOrder_def split: option.splits prod.splits)

lemma exitCaught15_trades_cases:
  "live_trades (exitCaught15 b oid x reason s) = live_trades s \<or>
   (\<exists>t. live_trades (exitCaught15 b oid x reason s) = live_trades s @ [t] \<and> lt_reason t = reason)"
  using exitPosition15_trades_cases[of b oid x reason s]
  by (cases "exitPosition15 b oid x reason s") (auto simp: exitCaught15_def split: bool.splits)

lemma monitorOne15_reasons:
  assumes lk: "map_of (positions s) oid = Some position"
    and held: "currentBarIndex s - entryBarIndex position < MAX_HOLDING_BARS"
  shows "live_trades (monitorOne15 b oid s) = live_trades s \<or>
   (\<exists>t. live_trades (monitorOne15 b oid s) = live_trades s @ [t] \<and>
        lt_reason t \<in> {''stop_loss'', ''trailing_stop'', ''target'', ''friday_exit''})"
proof (cases "getOptionLTP b (tradingSymbol position) s")
  case (Pair r s0)
  have s0: "live_trades s0 = live_trades s" "currentBarIndex s0 = currentBarIndex s"
    using getOptionLTP_simps(5)[of b "tradingSymbol position" s] Pair
    by (auto simp: getOptionLTP_def split: option.splits if_splits)
  show ?thesis
  proof (cases r)
    case None
    then show ?thesis using lk Pair s0 by (simp add: monitorOne15_def)
  next
    case (Some price)
    let ?hi = "runHigh (intradayHigh position) price"
    let ?lo = "runLow (intradayLow position) price"
    let ?p1 = "position\<lparr>currentPrice := Some price, intradayHigh := Some ?hi, intradayLow := Some ?lo\<rparr>"
    let ?s1 = "logMsg ''Monitoring'' (s0\<lparr>positions := AList.update oid ?p1 (positions s0)\<rparr>)"
    let ?hit = "status ?p1 = active \<and> ?hi \<ge> target1 ?p1"
    let ?p2 = "if ?hit then ?p1\<lparr>status := trailing\<rparr> else ?p1"
    let ?s2 = "if ?hit then logMsg ''Target 1:3 hit'' (?s1\<lparr>positions := AList.update oid ?p2 (positions ?s1)\<rparr>) else ?s1"
    have l: "live_trades (logMsg m ?s1) = live_trades s" "live_trades (logMsg m ?s2) = live_trades s"
      "live_trades ?s2 = live_trades s" for m
      using s0 by simp_all
    have nh: "\<not> currentBarIndex ?s1 - entryBarIndex ?p1 \<ge> MAX_HOLDING_BARS"
      using held s0 by simp
    have g: "getOptionLTP b (tradingSymbol position) s = (Some price, s0)"
      using Pair Some by simp
    have ex: "live_trades (exitCaught15 b oid price r st) = live_trades s \<or>
          (\<exists>t. live_trades (exitCaught15 b oid price r st) = live_trades s @ [t] \<and>
             lt_reason t \<in> {''stop_loss'', ''trailing_stop'', ''target'', ''friday_exit''})"
      if "live_trades st = live_trades s"
        and "r \<in> {''stop_loss'', ''trailing_stop'', ''target'', ''friday_exit''}" for r st
      using exitCaught15_trades_cases[of b oid price r st] that by metis
    consider (a) "status ?p1 = active \<and> ?lo \<le> initialStop ?p1"
      | (b) "\<not> (status ?p1 = active \<and> ?lo \<le> initialStop ?p1)"
            "status ?p2 = trailing \<and> ?lo \<le> trailingStop ?p2"
      | (c) "\<not> (status ?p1 = active \<and> ?lo \<le> initialStop ?p1)"
            "\<not> (status ?p2 = trailing \<and> ?lo \<le> trailingStop ?p2)" "?hi \<ge> finalTarget ?p2"
      | (d) "\<not> (status ?p1 = active \<and> ?lo \<le> initialStop ?p1)"
            "\<not> (status ?p2 = trailing \<and> ?lo \<le> trailingStop ?p2)" "\<not> ?hi \<ge> finalTarget ?p2"
            "fridayExitTime b"
      | (e) "\<not> (status ?p1 = active \<and> ?lo \<le> initialStop ?p1)"
            "\<not> (status ?p2 = trailing \<and> ?lo \<le> trailingStop ?p2)" "\<not> ?hi \<ge> finalTarget ?p2"
            "\<not> fridayExitTime b"
      by blast
    then show ?thesis
    proof cases
      case a
      have "monitorOne15 b oid s = exitCaught15 b oid price ''stop_loss'' (logMsg ''Stop-loss hit'' ?s1)"
        using lk g a nh by (auto simp add: monitorOne15_def Let_def)
      then show ?thesis using ex[OF l(1)[of "''Stop-loss hit''"], of "''stop_loss''"] by simp
    next
      case b
      have "monitorOne15 b oid s = exitCaught15 b oid price ''trailing_stop'' (logMsg ''Trailing stop hit'' ?s2)"
        using lk g b nh by (auto simp add: monitorOne15_def Let_def)
      then show ?thesis using ex[OF l(2)[of "''Trailing stop hit''"], of "''trailing_stop''"] by simp
    next
      case c
      have "monitorOne15 b oid s = exitCaught15 b oid price ''target'' (logMsg ''Final target hit'' ?s2)"
        using lk g c nh by (auto simp add: monitorOne15_def Let_def)
      then show ?thesis using ex[OF l(2)[of "''Final target hit''"], of "''target''"] by simp
    next
      case d
      have "monitorOne15 b oid s = exitCaught15 b oid price ''friday_exit'' (logMsg ''Friday exit'' ?s2)"
        using lk g d nh by (auto simp add: monitorOne15_def Let_def)
      then show ?thesis using ex[OF l(2)[of "''Friday exit''"], of "''friday_exit''"] by simp
    next
      case e
      have "monitorOne15 b oid s = ?s2"
        using lk g e nh by (auto simp add: monitorOne15_def Let_def)
      then show ?thesis using l(3) by simp
    qed
  qed
qed

lemma holdingExit_lastBar: "holdingExit dailyOne optsC rowC 0 = Some (110, Some 0)"
  by (simp add: example_defs backtest_defs)








lemma length_update_pos: "0 < length (AList.update k v ps)"
  by (cases ps) auto













lemma liveRule_friday:
  "liveRule position price False = None \<Longrightarrow> liveRule position price True = Some ''friday_exit''"
  by (auto simp: liveRule_def split: if_splits)

lemma liveRule15_friday:
  "liveRule15 position hi lo held False = None \<Longrightarrow>
   liveRule15 position hi lo held True = Some ''friday_exit''"
  by (auto simp: liveRule15_def split: if_splits)

lemma friday_window:
  fixes b :: "'b Broker_scheme"
  assumes "nowDay b = 5" "isNearMarketClose 15 30 15 b"
    and "int (nowHours b) * 60 + int (nowMinutes b) < 15 * 60 + 30" "nowMinutes b < 60"
  shows "fridayExitTime b"
proof -
  have lo: "915 \<le> int (nowHours b) * 60 + int (nowMinutes b)"
    using assms(2) unfolding isNearMarketClose_def by simp
  have h: "nowHours b = 15" using lo assms(3,4) by presburger
  have m: "15 \<le> nowMinutes b" using lo h by simp
  show ?thesis unfolding fridayExitTime_def using assms(1) h m by simp
qed

text \<open>
  C9 (amended). On a monitoring tick on a Friday with local hour at least 15 and minute at
  least 15, on which no higher-priority rule fires and the sell order is accepted, the
  position is closed at the current price with reason \<^verbatim>\<open>friday_exit\<close>. The window is
  written into the monitor and is not read from the configuration; with the default
  market close of 15:30 it contains the last 15 minutes before the close on a Friday.
\<close>

theorem friday_exit_rule:
  "(map_of (positions s) oid = Some position \<and>
    lastPrice b (tradingSymbol position) = Some price \<and> price \<noteq> 0 \<and>
    placeOrder b (tradingSymbol position) (quantity position) price SELL = Some o' \<and>
    liveRule position price False = None \<and> fridayExitTime b \<longrightarrow>
      live_trades (monitorOne b oid s) =
        live_trades s @
          [\<lparr>lt_position = closedAt position price, lt_exitPrice = price,
            lt_capital = capital s + (price - entryPrice position) * quantity position,
            lt_reason = ''friday_exit''\<rparr>] \<and>
      map_of (positions (monitorOne b oid s)) oid = None) \<and>
   (map_of (positions s15) oid = Some position15 \<and>
    lastPrice b15 (tradingSymbol position15) = Some price \<and> price \<noteq> 0 \<and>
    placeOrder b15 (tradingSymbol position15) (quantity position15) price SELL = Some o15 \<and>
    liveRule15 position15 (runHigh (intradayHigh position15) price)
      (runLow (intradayLow position15) price)
      (currentBarIndex s15 - entryBarIndex position15) False = None \<and>
    fridayExitTime b15 \<longrightarrow>
      live_trades (monitorOne15 b15 oid s15) =
        live_trades s15 @
          [\<lparr>lt_position = closedAt15 position15 price, lt_exitPrice = price,
            lt_capital = capital s15 + (price - entryPrice position15) * quantity position15,
            lt_reason = ''friday_exit''\<rparr>] \<and>
      map_of (positions (monitorOne15 b15 oid s15)) oid = None) \<and>
   (nowDay b = 5 \<and> isNearMarketClose 15 30 15 b \<and>
    int (nowHours b) * 60 + int (nowMinutes b) < 15 * 60 + 30 \<and> nowMinutes b < 60 \<longrightarrow>
      fridayExitTime b)"
proof (intro conjI impI)
  assume a: "map_of (positions s) oid = Some position \<and>
    lastPrice b (tradingSymbol position) = Some price \<and> price \<noteq> 0 \<and>
    placeOrder b (tradingSymbol position) (quantity position) price SELL = Some o' \<and>
    liveRule position price False = None \<and> fridayExitTime b"
  then have r: "liveRule position price (fridayExitTime b) = Some ''friday_exit''"
    using liveRule_friday by simp
  from a have h: "map_of (positions s) oid = Some position"
    "lastPrice b (tradingSymbol position) = Some price" "price \<noteq> 0"
    "placeOrder b (tradingSymbol position) (quantity position) price SELL = Some o'" by simp_all
  show "live_trades (monitorOne b oid s) =
        live_trades s @
          [\<lparr>lt_position = closedAt position price, lt_exitPrice = price,
            lt_capital = capital s + (price - entryPrice position) * quantity position,
            lt_reason = ''friday_exit''\<rparr>]"
    using monitorOne_trades(1)[OF h] r by simp
  show "map_of (positions (monitorOne b oid s)) oid = None"
    using monitorOne_trades(3)[OF h] r by simp
next
  assume a: "map_of (positions s15) oid = Some position15 \<and>
    lastPrice b15 (tradingSymbol position15) = Some price \<and> price \<noteq> 0 \<and>
    placeOrder b15 (tradingSymbol position15) (quantity position15) price SELL = Some o15 \<and>
    liveRule15 position15 (runHigh (intradayHigh position15) price)
      (runLow (intradayLow position15) price)
      (currentBarIndex s15 - entryBarIndex position15) False = None \<and>
    fridayExitTime b15"
  then have r: "liveRule15 position15 (runHigh (intradayHigh position15) price)
      (runLow (intradayLow position15) price)
      (currentBarIndex s15 - entryBarIndex position15) (fridayExitTime b15) = Some ''friday_exit''"
    using liveRule15_friday by simp
  from a have h: "map_of (positions s15) oid = Some position15"
    "lastPrice b15 (tradingSymbol position15) = Some price" "price \<noteq> 0"
    "placeOrder b15 (tradingSymbol position15) (quantity position15) price SELL = Some o15" by simp_all
  show "live_trades (monitorOne15 b15 oid s15) =
        live_trades s15 @
          [\<lparr>lt_position = closedAt15 position15 price, lt_exitPrice = price,
            lt_capital = capital s15 + (price - entryPrice position15) * quantity position15,
            lt_reason = ''friday_exit''\<rparr>]"
    using monitorOne15_trades(1)[OF h] r by simp
  show "map_of (positions (monitorOne15 b15 oid s15)) oid = None"
    using monitorOne15_trades(3)[OF h] r by simp
next
  assume "nowDay b = 5 \<and> isNearMarketClose 15 30 15 b \<and>
    int (nowHours b) * 60 + int (nowMinutes b) < 15 * 60 + 30 \<and> nowMinutes b < 60"
  then show "fridayExitTime b" using friday_window[of b] by simp
qed

theorem friday_exit_rule_witness:
  "liveRule posA 110 False = None \<and> fridayExitTime brokerFri \<and>
   isNearMarketClose 15 30 15 brokerFri \<and>
   live_trades (monitorOne brokerFri ''order-1'' managerB) =
     [\<lparr>lt_position = closedAt posA 110, lt_exitPrice = 110, lt_capital = 15750,
       lt_reason = ''friday_exit''\<rparr>] \<and>
   map_of (positions (monitorOne brokerFri ''order-1'' managerB)) ''order-1'' = None \<and>
   live_trades (monitorOne15 broker15Fri ''order-1'' manager15C) =
     [\<lparr>lt_position = closedAt15 pos15A 110, lt_exitPrice = 110, lt_capital = 15750,
       lt_reason = ''friday_exit''\<rparr>]"
proof -
  note t = friday_exit_rule[where s = managerB and oid = "''order-1''" and position = posA
      and b = brokerFri and price = 110 and o' = "''order-1''" and ?s15.0 = manager15C
      and ?position15.0 = pos15A and ?b15.0 = broker15Fri and ?o15.0 = "''order-2''"]
  have r: "liveRule posA 110 False = None" by (simp add: liveRule_def posA_def)
  have n: "nowDay brokerFri = 5 \<and> isNearMarketClose 15 30 15 brokerFri \<and>
    int (nowHours brokerFri) * 60 + int (nowMinutes brokerFri) < 15 * 60 + 30 \<and>
    nowMinutes brokerFri < 60"
    by (simp add: brokerFri_def brokerA_def isNearMarketClose_def)
  from t n have f: "fridayExitTime brokerFri" by blast
  have h1: "map_of (positions managerB) ''order-1'' = Some posA \<and>
    lastPrice brokerFri (tradingSymbol posA) = Some 110 \<and> (110::real) \<noteq> 0 \<and>
    placeOrder brokerFri (tradingSymbol posA) (quantity posA) 110 SELL = Some ''order-1'' \<and>
    liveRule posA 110 False = None \<and> fridayExitTime brokerFri"
    using r f by (simp add: managerB_def managerA_def brokerFri_def brokerA_def)
  have h2: "map_of (positions manager15C) ''order-1'' = Some pos15A \<and>
    lastPrice broker15Fri (tradingSymbol pos15A) = Some 110 \<and> (110::real) \<noteq> 0 \<and>
    placeOrder broker15Fri (tradingSymbol pos15A) (quantity pos15A) 110 SELL = Some ''order-2'' \<and>
    liveRule15 pos15A (runHigh (intradayHigh pos15A) 110) (runLow (intradayLow pos15A) 110)
      (currentBarIndex manager15C - entryBarIndex pos15A) False = None \<and>
    fridayExitTime broker15Fri"
    by (simp add: manager15C_def manager15A_def pos15A_def broker15Fri_def broker15A_def
        liveRule15_def runHigh_def runLow_def MAX_HOLDING_BARS_def fridayExitTime_def)
  from t h1 have a: "live_trades (monitorOne brokerFri ''order-1'' managerB) =
        live_trades managerB @
          [\<lparr>lt_position = closedAt posA 110, lt_exitPrice = 110,
            lt_capital = capital managerB + (110 - entryPrice posA) * quantity posA,
            lt_reason = ''friday_exit''\<rparr>]"
    and a': "map_of (positions (monitorOne brokerFri ''order-1'' managerB)) ''order-1'' = None"
    by blast+
  from t h2 have b: "live_trades (monitorOne15 broker15Fri ''order-1'' manager15C) =
        live_trades manager15C @
          [\<lparr>lt_position = closedAt15 pos15A 110, lt_exitPrice = 110,
            lt_capital = capital manager15C + (110 - entryPrice pos15A) * quantity pos15A,
            lt_reason = ''friday_exit''\<rparr>]"
    by blast
  have a2: "live_trades (monitorOne brokerFri ''order-1'' managerB) =
     [\<lparr>lt_position = closedAt posA 110, lt_exitPrice = 110, lt_capital = 15750,
       lt_reason = ''friday_exit''\<rparr>]"
    using a by (simp add: managerB_def managerA_def posA_def)
  have b2: "live_trades (monitorOne15 broker15Fri ''order-1'' manager15C) =
     [\<lparr>lt_position = closedAt15 pos15A 110, lt_exitPrice = 110, lt_capital = 15750,
       lt_reason = ''friday_exit''\<rparr>]"
    using b by (simp add: manager15C_def manager15A_def pos15A_def)
  show ?thesis using r f n a2 a' b2 by blast
qed

lemma monitorOne_friday_early:
  "live_trades (monitorOne brokerFriEarly ''order-1'' managerB) = []"
proof -
  have h: "map_of (positions managerB) ''order-1'' = Some posA"
    "lastPrice brokerFriEarly (tradingSymbol posA) = Some 110" "(110::real) \<noteq> 0"
    "placeOrder brokerFriEarly (tradingSymbol posA) (quantity posA) 110 SELL = Some ''order-1''"
    by (simp_all add: managerB_def managerA_def brokerFriEarly_def brokerA_def)
  have r: "liveRule posA 110 (fridayExitTime brokerFriEarly) = None"
    by (simp add: liveRule_def posA_def fridayExitTime_def brokerFriEarly_def brokerA_def)
  show ?thesis using monitorOne_trades(1)[OF h] r by (simp add: managerB_def managerA_def)
qed

lemma monitorOne_friday:
  "live_trades (monitorOne brokerFri ''order-1'' managerB) =
     [\<lparr>lt_position = closedAt posA 110, lt_exitPrice = 110, lt_capital = 15750,
       lt_reason = ''friday_exit''\<rparr>]"
proof -
  have h: "map_of (positions managerB) ''order-1'' = Some posA"
    "lastPrice brokerFri (tradingSymbol posA) = Some 110" "(110::real) \<noteq> 0"
    "placeOrder brokerFri (tradingSymbol posA) (quantity posA) 110 SELL = Some ''order-1''"
    by (simp_all add: managerB_def managerA_def brokerFri_def brokerA_def)
  have r: "liveRule posA 110 (fridayExitTime brokerFri) = Some ''friday_exit''"
    by (simp add: liveRule_def posA_def fridayExitTime_def brokerFri_def brokerA_def)
  show ?thesis using monitorOne_trades(1)[OF h] r by (simp add: managerB_def managerA_def posA_def)
qed

theorem friday_exit_rule_counterexample:
  "nowDay brokerFri = 5 \<and> nowHours brokerFri = 15 \<and> nowMinutes brokerFri = 20 \<and>
   live_trades (monitorOne brokerFri ''order-1'' managerB) =
     [\<lparr>lt_position = closedAt posA 110, lt_exitPrice = 110, lt_capital = 15750,
       lt_reason = ''friday_exit''\<rparr>] \<and>
   ''friday_exit'' \<noteq> ''calendar_exit'' \<and>
   nowDay brokerFriEarly = 5 \<and> isNearMarketClose 15 10 15 brokerFriEarly \<and>
   live_trades (monitorOne brokerFriEarly ''order-1'' managerB) = []"
  using monitorOne_friday monitorOne_friday_early
  by (simp add: brokerFri_def brokerFriEarly_def brokerA_def isNearMarketClose_def)

section \<open>The back test: target before stop, and the end of the holding period\<close>

lemma tradeSignal_entered:
  assumes "sig_date sig = Some tt" "index sig < length daily"
    and "g (isoDay tt) = Some snapshot"
    and "selectContract snapshot (sig_side sig) (close (daily ! index sig)) = Some contract"
    and "orElse (orElse (ltp contract) (opt_high contract)) (opt_low contract) = Some l" "0 < l"
    and "(l - ENTRY_BUFFER) * LOT_SIZE \<le> cap"
    and "opt_low contract = Some lo" "opt_high contract = Some hi"
    and "lo \<le> l - ENTRY_BUFFER" "l - ENTRY_BUFFER \<le> hi"
    and "lv = riskLevels (l - ENTRY_BUFFER) RISK_PER_TRADE k"
    and "dayZero lv lo hi = (exit0, hit, stop)"
    and "(case exit0 of Some p \<Rightarrow> Some (p, Some tt)
          | None \<Rightarrow> (case scanDays daily g contract lv (index sig) [1, 2, 3] hit stop of
                       Some e \<Rightarrow> Some e
                     | None \<Rightarrow> holdingExit daily g contract (index sig))) = ex"
  shows "tradeSignal daily g k cap sig =
     (case ex of
        None \<Rightarrow> Skip
      | Some (exitP, exitD) \<Rightarrow>
          Trade \<lparr>initialStop = initialStop lv, target1 = target1 lv,
                 trailingStop = trailingStop lv, finalTarget = finalTarget lv,
                 tr_entryDate = Some tt, tr_exitDate = exitD,
                 tr_signalType = sig_type sig, tr_side = sig_side sig,
                 tr_strike = strike contract, tr_expiry = expiry contract,
                 entryLimit = l - ENTRY_BUFFER, exitPrice = exitP,
                 tr_profit = (exitP - (l - ENTRY_BUFFER)) * LOT_SIZE,
                 capitalAfter = cap + (exitP - (l - ENTRY_BUFFER)) * LOT_SIZE\<rparr>)"
proof -
  have a: "\<not> l \<le> 0" "\<not> cap < (l - ENTRY_BUFFER) * LOT_SIZE"
    "\<not> (l - ENTRY_BUFFER < lo \<or> hi < l - ENTRY_BUFFER)"
    using assms(6,7,10,11) by auto
  show ?thesis
    unfolding tradeSignal_def Let_def
    using assms(1-5,8,9,13,14) a assms(12)[symmetric]
    by (auto simp del: scanDays.simps split: option.splits prod.splits)
qed

lemma scanDays_open_target:
  assumes "scanDays daily g contract lv idx pre hit stop = None"
    and "\<forall>i \<in> set pre. idx + i < length daily"
    and "idx + j < length daily" "date (daily ! (idx + j)) = Some t"
    and "g (isoDay t) = Some snap" "filter (sameContract contract) snap = row # rest"
    and "opt_low row = Some lo" "opt_high row = Some hi" "hi \<ge> finalTarget lv"
  shows "scanDays daily g contract lv idx (pre @ j # post) hit stop = Some (finalTarget lv, Some t)"
  using assms(1,2)
proof (induction pre arbitrary: hit stop)
  case Nil
  show ?case using scanDays_target_first[where g = g, OF assms(3-9)] by simp
next
  case (Cons i pre)
  have r: "idx + i < length daily" and rest: "\<forall>i \<in> set pre. idx + i < length daily"
    using Cons.prems(2) by simp_all
  have ih: "scanDays daily g contract lv idx pre h s = None \<Longrightarrow>
      scanDays daily g contract lv idx (pre @ j # post) h s = Some (finalTarget lv, Some t)" for h s
    using Cons.IH[OF _ rest] .
  show ?case
    using Cons.prems(1) r ih
    by (auto simp: Let_def split: option.splits list.splits if_splits)
qed

lemma scan_prefix_less:
  "[1, 2, 3] = pre @ j # post \<Longrightarrow> \<forall>i \<in> set pre. i < (j::nat)"
  by (auto simp: append_eq_Cons_conv Cons_eq_append_conv)

text \<open>
  The back test on a bar that reaches the final target. On day 0, and on each following
  day on which the trade is still open, a high at or above the final target closes the
  trade at the final target, whatever the low of that bar is.
\<close>

lemma tradeSignal_target_day0:
  assumes "sig_date sig = Some tt" "index sig < length daily"
    and "g (isoDay tt) = Some snapshot"
    and "selectContract snapshot (sig_side sig) (close (daily ! index sig)) = Some contract"
    and "orElse (orElse (ltp contract) (opt_high contract)) (opt_low contract) = Some l" "0 < l"
    and "(l - ENTRY_BUFFER) * LOT_SIZE \<le> cap"
    and "opt_low contract = Some lo" "opt_high contract = Some hi"
    and "lo \<le> l - ENTRY_BUFFER" "l - ENTRY_BUFFER \<le> hi"
    and "lv = riskLevels (l - ENTRY_BUFFER) RISK_PER_TRADE k"
    and "hi \<ge> finalTarget lv"
  shows "tradeSignal daily g k cap sig =
          Trade \<lparr>initialStop = initialStop lv, target1 = target1 lv,
                 trailingStop = trailingStop lv, finalTarget = finalTarget lv,
                 tr_entryDate = Some tt, tr_exitDate = Some tt,
                 tr_signalType = sig_type sig, tr_side = sig_side sig,
                 tr_strike = strike contract, tr_expiry = expiry contract,
                 entryLimit = l - ENTRY_BUFFER, exitPrice = finalTarget lv,
                 tr_profit = (finalTarget lv - (l - ENTRY_BUFFER)) * LOT_SIZE,
                 capitalAfter = cap + (finalTarget lv - (l - ENTRY_BUFFER)) * LOT_SIZE\<rparr>"
proof -
  have d: "dayZero lv lo hi = (Some (finalTarget lv), False, initialStop lv)"
    using assms(13) by (rule dayZero_target_first)
  show ?thesis
    using tradeSignal_entered[where g = g, OF assms(1-12) d refl] by simp
qed

lemma tradeSignal_target_later:
  assumes "sig_date sig = Some tt" "index sig < length daily"
    and "g (isoDay tt) = Some snapshot"
    and "selectContract snapshot (sig_side sig) (close (daily ! index sig)) = Some contract"
    and "orElse (orElse (ltp contract) (opt_high contract)) (opt_low contract) = Some l" "0 < l"
    and "(l - ENTRY_BUFFER) * LOT_SIZE \<le> cap"
    and "opt_low contract = Some lo" "opt_high contract = Some hi"
    and "lo \<le> l - ENTRY_BUFFER" "l - ENTRY_BUFFER \<le> hi"
    and "lv = riskLevels (l - ENTRY_BUFFER) RISK_PER_TRADE k"
    and "dayZero lv lo hi = (None, hit, stop)"
    and "[1, 2, 3] = pre @ j # post"
    and "scanDays daily g contract lv (index sig) pre hit stop = None"
    and "index sig + j < length daily" "date (daily ! (index sig + j)) = Some t"
    and "g (isoDay t) = Some snap" "filter (sameContract contract) snap = row # rest"
    and "opt_low row = Some lo'" "opt_high row = Some hi'" "hi' \<ge> finalTarget lv"
  shows "tradeSignal daily g k cap sig =
          Trade \<lparr>initialStop = initialStop lv, target1 = target1 lv,
                 trailingStop = trailingStop lv, finalTarget = finalTarget lv,
                 tr_entryDate = Some tt, tr_exitDate = Some t,
                 tr_signalType = sig_type sig, tr_side = sig_side sig,
                 tr_strike = strike contract, tr_expiry = expiry contract,
                 entryLimit = l - ENTRY_BUFFER, exitPrice = finalTarget lv,
                 tr_profit = (finalTarget lv - (l - ENTRY_BUFFER)) * LOT_SIZE,
                 capitalAfter = cap + (finalTarget lv - (l - ENTRY_BUFFER)) * LOT_SIZE\<rparr>"
proof -
  have "\<forall>i \<in> set pre. index sig + i < length daily"
    using scan_prefix_less[OF assms(14)] assms(16) by fastforce
  from scanDays_open_target[where g = g and post = post, OF assms(15) this assms(16-22)]
  have sc: "scanDays daily g contract lv (index sig) [1, 2, 3] hit stop = Some (finalTarget lv, Some t)"
    using assms(14) by simp
  show ?thesis
    using tradeSignal_entered[where g = g, OF assms(1-13) refl] sc by simp
qed

lemma tradeSignal_dailyFive_next:
  "tradeSignal dailyFive optsNext 8 START_CAPITAL sigLong =
     Trade \<lparr>initialStop = 90, target1 = 130, trailingStop = 120, finalTarget = 180,
            tr_entryDate = Some 0, tr_exitDate = Some 86400000, tr_signalType = BB_reversal,
            tr_side = long, tr_strike = 24600, tr_expiry = ''09-Jan'', entryLimit = 100,
            exitPrice = 180, tr_profit = 6000, capitalAfter = 21000\<rparr>"
  by (simp add: example_defs backtest_defs dailyFive_def dayBar_def optsNext_def rowWideNext_def)

lemma tradeSignal_dailyFive_quiet:
  "tradeSignal dailyFive optsQuiet 8 START_CAPITAL sigLong =
     Trade \<lparr>initialStop = 90, target1 = 130, trailingStop = 120, finalTarget = 180,
            tr_entryDate = Some 0, tr_exitDate = Some 259200000, tr_signalType = BB_reversal,
            tr_side = long, tr_strike = 24600, tr_expiry = ''09-Jan'', entryLimit = 100,
            exitPrice = 112, tr_profit = 900, capitalAfter = 15900\<rparr>"
  by (simp add: example_defs backtest_defs dailyFive_def dayBar_def optsQuiet_def rowEnd_def)

lemma tradeSignal_dailyFive_dropped:
  "tradeSignal dailyFive optsC 8 START_CAPITAL sigLong = Skip"
  by (simp add: example_defs backtest_defs dailyFive_def dayBar_def)

text \<open>
  Both live monitors test the stop before any target: an active position whose observation
  is at or below the initial stop is closed with reason \<^verbatim>\<open>stop_loss\<close>, whatever target
  the observation reaches as well.
\<close>

lemma monitorOne_stop_first:
  assumes "map_of (positions s) oid = Some position"
    and "lastPrice b (tradingSymbol position) = Some price" "price \<noteq> 0"
    and "placeOrder b (tradingSymbol position) (quantity position) price SELL = Some o'"
    and "status position = active" "price \<le> initialStop position"
  shows "live_trades (monitorOne b oid s) =
        live_trades s @
          [\<lparr>lt_position = closedAt position price, lt_exitPrice = price,
            lt_capital = capital s + (price - entryPrice position) * quantity position,
            lt_reason = ''stop_loss''\<rparr>]"
    and "map_of (positions (monitorOne b oid s)) oid = None"
proof -
  have r: "liveRule position price (fridayExitTime b) = Some ''stop_loss''"
    using assms(5,6) by (simp add: liveRule_def)
  show "live_trades (monitorOne b oid s) =
        live_trades s @
          [\<lparr>lt_position = closedAt position price, lt_exitPrice = price,
            lt_capital = capital s + (price - entryPrice position) * quantity position,
            lt_reason = ''stop_loss''\<rparr>]"
    using monitorOne_trades(1)[OF assms(1-4)] r by simp
  show "map_of (positions (monitorOne b oid s)) oid = None"
    using monitorOne_trades(3)[OF assms(1-4)] r by simp
qed

lemma monitorOne15_stop_first:
  assumes "map_of (positions s) oid = Some position"
    and "lastPrice b (tradingSymbol position) = Some price" "price \<noteq> 0"
    and "placeOrder b (tradingSymbol position) (quantity position) price SELL = Some o'"
    and "currentBarIndex s - entryBarIndex position < MAX_HOLDING_BARS"
    and "status position = active" "runLow (intradayLow position) price \<le> initialStop position"
  shows "live_trades (monitorOne15 b oid s) =
        live_trades s @
          [\<lparr>lt_position = closedAt15 position price, lt_exitPrice = price,
            lt_capital = capital s + (price - entryPrice position) * quantity position,
            lt_reason = ''stop_loss''\<rparr>]"
    and "map_of (positions (monitorOne15 b oid s)) oid = None"
proof -
  have r: "liveRule15 position (runHigh (intradayHigh position) price)
      (runLow (intradayLow position) price)
      (currentBarIndex s - entryBarIndex position) (fridayExitTime b) = Some ''stop_loss''"
    using assms(5-7) by (simp add: liveRule15_def)
  show "live_trades (monitorOne15 b oid s) =
        live_trades s @
          [\<lparr>lt_position = closedAt15 position price, lt_exitPrice = price,
            lt_capital = capital s + (price - entryPrice position) * quantity position,
            lt_reason = ''stop_loss''\<rparr>]"
    using monitorOne15_trades(1)[OF assms(1-4)] r by simp
  show "map_of (positions (monitorOne15 b oid s)) oid = None"
    using monitorOne15_trades(3)[OF assms(1-4)] r by simp
qed

lemma enterPosition_flat:
  "fst (enterPosition brokerA sigLong 24537 (managerA\<lparr>config := cfgFlat\<rparr>)) = Some posFlat"
  by (simp add: enterPosition_def Let_def brokerA_def sigLong_def managerA_def cfgFlat_def cfgA_def
      posFlat_def posA_def findNearestStrike_def atmStrike_def jsRound_def
      getOptionTradingSymbol_def getOptionLTP_def placeOptionOrder_def riskLevels_def getNumLots_def)

lemma monitorOne15_both:
  "live_trades (monitorOne15 broker15High ''order-1'' manager15Low) =
     [\<lparr>lt_position = closedAt15 pos15Low 185, lt_exitPrice = 185, lt_capital = 21375,
       lt_reason = ''stop_loss''\<rparr>]"
proof -
  have "live_trades (monitorOne15 broker15High ''order-1'' manager15Low) =
        live_trades manager15Low @
          [\<lparr>lt_position = closedAt15 pos15Low 185, lt_exitPrice = 185,
            lt_capital = capital manager15Low + (185 - entryPrice pos15Low) * quantity pos15Low,
            lt_reason = ''stop_loss''\<rparr>]"
    by (rule monitorOne15_stop_first(1)[where o' = "''order-2''"])
       (simp_all add: manager15Low_def manager15B_def manager15A_def pos15Low_def pos15A_def
         broker15High_def broker15A_def MAX_HOLDING_BARS_def runLow_def)
  then show ?thesis
    by (simp add: manager15Low_def manager15B_def manager15A_def pos15Low_def pos15A_def)
qed

lemma monitorOne_both:
  "live_trades (monitorOne brokerFlat ''order-1'' managerFlat) =
     [\<lparr>lt_position = closedAt posFlat 100, lt_exitPrice = 100, lt_capital = 15000,
       lt_reason = ''stop_loss''\<rparr>]"
proof -
  have "live_trades (monitorOne brokerFlat ''order-1'' managerFlat) =
        live_trades managerFlat @
          [\<lparr>lt_position = closedAt posFlat 100, lt_exitPrice = 100,
            lt_capital = capital managerFlat + (100 - entryPrice posFlat) * quantity posFlat,
            lt_reason = ''stop_loss''\<rparr>]"
    by (rule monitorOne_stop_first(1)[where o' = "''order-1''"])
       (simp_all add: managerFlat_def managerA_def posFlat_def posA_def brokerFlat_def brokerA_def)
  then show ?thesis
    by (simp add: managerFlat_def managerA_def posFlat_def posA_def)
qed

text \<open>
  C2. A tick whose observation reaches both the stop and a target must exit by the stop-loss
  rule. Both live monitors do so (\<open>monitorOne_stop_first\<close>, \<open>monitorOne15_stop_first\<close>).
  The back test does not: it tests the high of a bar against the final target before it
  tests the low against the stop, on day 0 (\<open>tradeSignal_target_day0\<close>) and on each
  following day (\<open>tradeSignal_target_later\<close>). For an entry at 100 with stop 90 and final
  target 180, a bar with low 85 and high 185 closes the trade at 180 with a profit of 6000,
  on the entry day and likewise on the next day; the 15-minute monitor with running low 85
  and running high 185 closes the same levels with reason \<^verbatim>\<open>stop_loss\<close>, and so does the
  monitor of \<^verbatim>\<open>strategy_v2_live.ts\<close> when one price reaches both levels (a risk unit
  of 0 puts all levels at the entry price).
\<close>

theorem backtest_target_before_stop:
  "opt_low rowWide = Some 85 \<and> opt_high rowWide = Some 185 \<and>
   tradeSignal dailyOne optsWide 8 START_CAPITAL sigLong =
     Trade \<lparr>initialStop = 90, target1 = 130, trailingStop = 120, finalTarget = 180,
            tr_entryDate = Some 0, tr_exitDate = Some 0, tr_signalType = BB_reversal,
            tr_side = long, tr_strike = 24600, tr_expiry = ''09-Jan'', entryLimit = 100,
            exitPrice = 180, tr_profit = 6000, capitalAfter = 21000\<rparr> \<and>
   opt_low rowWideNext = Some 85 \<and> opt_high rowWideNext = Some 185 \<and>
   optsNext 1 = Some [rowWideNext] \<and>
   tradeSignal dailyFive optsNext 8 START_CAPITAL sigLong =
     Trade \<lparr>initialStop = 90, target1 = 130, trailingStop = 120, finalTarget = 180,
            tr_entryDate = Some 0, tr_exitDate = Some 86400000, tr_signalType = BB_reversal,
            tr_side = long, tr_strike = 24600, tr_expiry = ''09-Jan'', entryLimit = 100,
            exitPrice = 180, tr_profit = 6000, capitalAfter = 21000\<rparr> \<and>
   initialStop pos15Low = 90 \<and> finalTarget pos15Low = 180 \<and> status pos15Low = active \<and>
   runLow (intradayLow pos15Low) 185 = 85 \<and> runHigh (intradayHigh pos15Low) 185 = 185 \<and>
   live_trades (monitorOne15 broker15High ''order-1'' manager15Low) =
     [\<lparr>lt_position = closedAt15 pos15Low 185, lt_exitPrice = 185, lt_capital = 21375,
       lt_reason = ''stop_loss''\<rparr>] \<and>
   fst (enterPosition brokerA sigLong 24537 (managerA\<lparr>config := cfgFlat\<rparr>)) = Some posFlat \<and>
   initialStop posFlat = 100 \<and> finalTarget posFlat = 100 \<and>
   live_trades (monitorOne brokerFlat ''order-1'' managerFlat) =
     [\<lparr>lt_position = closedAt posFlat 100, lt_exitPrice = 100, lt_capital = 15000,
       lt_reason = ''stop_loss''\<rparr>]"
  using tradeSignal_wide tradeSignal_dailyFive_next monitorOne15_both monitorOne_both
    enterPosition_flat
  by (simp add: rowWide_def rowWideNext_def optRow_def optsNext_def pos15Low_def pos15A_def
      posFlat_def posA_def runLow_def runHigh_def)

lemma tradeSignal_holding:
  assumes "sig_date sig = Some tt" "index sig < length daily"
    and "g (isoDay tt) = Some snapshot"
    and "selectContract snapshot (sig_side sig) (close (daily ! index sig)) = Some contract"
    and "orElse (orElse (ltp contract) (opt_high contract)) (opt_low contract) = Some l" "0 < l"
    and "(l - ENTRY_BUFFER) * LOT_SIZE \<le> cap"
    and "opt_low contract = Some lo" "opt_high contract = Some hi"
    and "lo \<le> l - ENTRY_BUFFER" "l - ENTRY_BUFFER \<le> hi"
    and "lv = riskLevels (l - ENTRY_BUFFER) RISK_PER_TRADE k"
    and "dayZero lv lo hi = (None, hit, stop)"
    and "scanDays daily g contract lv (index sig) [1, 2, 3] hit stop = None"
  shows "tradeSignal daily g k cap sig =
     (case holdingExit daily g contract (index sig) of
        None \<Rightarrow> Skip
      | Some (exitP, exitD) \<Rightarrow>
          Trade \<lparr>initialStop = initialStop lv, target1 = target1 lv,
                 trailingStop = trailingStop lv, finalTarget = finalTarget lv,
                 tr_entryDate = Some tt, tr_exitDate = exitD,
                 tr_signalType = sig_type sig, tr_side = sig_side sig,
                 tr_strike = strike contract, tr_expiry = expiry contract,
                 entryLimit = l - ENTRY_BUFFER, exitPrice = exitP,
                 tr_profit = (exitP - (l - ENTRY_BUFFER)) * LOT_SIZE,
                 capitalAfter = cap + (exitP - (l - ENTRY_BUFFER)) * LOT_SIZE\<rparr>)"
  using tradeSignal_entered[where g = g, OF assms(1-13) refl] assms(14) by simp

lemma holdingExit_row:
  assumes "date (daily ! min (idx + 3) (length daily - 1)) = Some te"
    and "g (isoDay te) = Some snapEnd" "filter (sameContract contract) snapEnd = row # rest"
    and "orElse (orElse (ltp row) (opt_high row)) (opt_low row) = Some p" "p \<noteq> 0"
  shows "holdingExit daily g contract idx = Some (p, Some te)"
  using assms by (simp add: holdingExit_def endIdx_def Let_def)

lemma holdingExit_no_row:
  assumes "date (daily ! min (idx + 3) (length daily - 1)) = Some te"
    and "g (isoDay te) = None \<or>
         (\<exists>snapEnd. g (isoDay te) = Some snapEnd \<and> filter (sameContract contract) snapEnd = []) \<or>
         (\<exists>snapEnd row rest. g (isoDay te) = Some snapEnd \<and>
            filter (sameContract contract) snapEnd = row # rest \<and>
            orElse (orElse (ltp row) (opt_high row)) (opt_low row) \<in> {None, Some 0})"
  shows "holdingExit daily g contract idx = None"
  using assms by (auto simp: holdingExit_def endIdx_def Let_def)

text \<open>
  C3 (amended). In the 15-minute live monitor a position held for 75 bars or more (a
  constant of the code, about three sessions) is closed at the current price with reason
  \<^verbatim>\<open>max_holding_period\<close> on that tick, given the sell order is accepted; with fewer
  than 75 bars held no record with that reason is written. In the back test a trade that
  neither day 0 nor the scan of the next three days closed ends on the daily bar
  \<open>min (idx + 3) (last bar)\<close>: when the option data of that day hold a row of the
  contract with a usable price (the last traded price, else the high, else the low, and
  not 0), the trade is closed at that price on that day; when there are no option data for
  that day, or no row of the contract, or a row without a usable price, the trade is
  dropped and leaves no record.
\<close>

theorem holding_period_exit:
  "(map_of (positions s15) oid = Some position15 \<and>
    lastPrice b15 (tradingSymbol position15) = Some price \<and> price \<noteq> 0 \<and>
    placeOrder b15 (tradingSymbol position15) (quantity position15) price SELL = Some o15 \<and>
    currentBarIndex s15 - entryBarIndex position15 \<ge> MAX_HOLDING_BARS \<longrightarrow>
      live_trades (monitorOne15 b15 oid s15) =
        live_trades s15 @
          [\<lparr>lt_position = closedAt15 position15 price, lt_exitPrice = price,
            lt_capital = capital s15 + (price - entryPrice position15) * quantity position15,
            lt_reason = ''max_holding_period''\<rparr>] \<and>
      map_of (positions (monitorOne15 b15 oid s15)) oid = None) \<and>
   (map_of (positions s15') oid' = Some position15' \<and>
    currentBarIndex s15' - entryBarIndex position15' < MAX_HOLDING_BARS \<longrightarrow>
      live_trades (monitorOne15 b15' oid' s15') = live_trades s15' \<or>
      (\<exists>t. live_trades (monitorOne15 b15' oid' s15') = live_trades s15' @ [t] \<and>
           lt_reason t \<in> {''stop_loss'', ''trailing_stop'', ''target'', ''friday_exit''})) \<and>
   (sig_date sig = Some tt \<and> index sig < length daily \<and> g (isoDay tt) = Some snapshot \<and>
    selectContract snapshot (sig_side sig) (close (daily ! index sig)) = Some contract \<and>
    orElse (orElse (ltp contract) (opt_high contract)) (opt_low contract) = Some l \<and> 0 < l \<and>
    (l - ENTRY_BUFFER) * LOT_SIZE \<le> cap \<and>
    opt_low contract = Some lo \<and> opt_high contract = Some hi \<and>
    lo \<le> l - ENTRY_BUFFER \<and> l - ENTRY_BUFFER \<le> hi \<and>
    dayZero (riskLevels (l - ENTRY_BUFFER) RISK_PER_TRADE k) lo hi = (None, hit, stop) \<and>
    scanDays daily g contract (riskLevels (l - ENTRY_BUFFER) RISK_PER_TRADE k) (index sig)
      [1, 2, 3] hit stop = None \<and>
    date (daily ! min (index sig + 3) (length daily - 1)) = Some te \<and>
    g (isoDay te) = Some snapEnd \<and> filter (sameContract contract) snapEnd = row # rest \<and>
    orElse (orElse (ltp row) (opt_high row)) (opt_low row) = Some p \<and> p \<noteq> 0 \<longrightarrow>
      tradeSignal daily g k cap sig =
        Trade \<lparr>initialStop = l - ENTRY_BUFFER - RISK_PER_TRADE,
               target1 = l - ENTRY_BUFFER + 3 * RISK_PER_TRADE,
               trailingStop = l - ENTRY_BUFFER + 2 * RISK_PER_TRADE,
               finalTarget = l - ENTRY_BUFFER + k * RISK_PER_TRADE,
               tr_entryDate = Some tt, tr_exitDate = Some te,
               tr_signalType = sig_type sig, tr_side = sig_side sig,
               tr_strike = strike contract, tr_expiry = expiry contract,
               entryLimit = l - ENTRY_BUFFER, exitPrice = p,
               tr_profit = (p - (l - ENTRY_BUFFER)) * LOT_SIZE,
               capitalAfter = cap + (p - (l - ENTRY_BUFFER)) * LOT_SIZE\<rparr>) \<and>
   (sig_date sig' = Some tt' \<and> index sig' < length daily' \<and> g' (isoDay tt') = Some snapshot' \<and>
    selectContract snapshot' (sig_side sig') (close (daily' ! index sig')) = Some contract' \<and>
    orElse (orElse (ltp contract') (opt_high contract')) (opt_low contract') = Some l' \<and> 0 < l' \<and>
    (l' - ENTRY_BUFFER) * LOT_SIZE \<le> cap' \<and>
    opt_low contract' = Some lo' \<and> opt_high contract' = Some hi' \<and>
    lo' \<le> l' - ENTRY_BUFFER \<and> l' - ENTRY_BUFFER \<le> hi' \<and>
    dayZero (riskLevels (l' - ENTRY_BUFFER) RISK_PER_TRADE k') lo' hi' = (None, hit', stop') \<and>
    scanDays daily' g' contract' (riskLevels (l' - ENTRY_BUFFER) RISK_PER_TRADE k') (index sig')
      [1, 2, 3] hit' stop' = None \<and>
    date (daily' ! min (index sig' + 3) (length daily' - 1)) = Some te' \<and>
    (g' (isoDay te') = None \<or>
     (\<exists>snapEnd'. g' (isoDay te') = Some snapEnd' \<and>
                 filter (sameContract contract') snapEnd' = []) \<or>
     (\<exists>snapEnd' row' rest'. g' (isoDay te') = Some snapEnd' \<and>
                 filter (sameContract contract') snapEnd' = row' # rest' \<and>
                 orElse (orElse (ltp row') (opt_high row')) (opt_low row') \<in> {None, Some 0})) \<longrightarrow>
      tradeSignal daily' g' k' cap' sig' = Skip)"
proof (intro conjI impI)
  assume a: "map_of (positions s15) oid = Some position15 \<and>
    lastPrice b15 (tradingSymbol position15) = Some price \<and> price \<noteq> 0 \<and>
    placeOrder b15 (tradingSymbol position15) (quantity position15) price SELL = Some o15 \<and>
    currentBarIndex s15 - entryBarIndex position15 \<ge> MAX_HOLDING_BARS"
  then have r: "liveRule15 position15 (runHigh (intradayHigh position15) price)
      (runLow (intradayLow position15) price)
      (currentBarIndex s15 - entryBarIndex position15) (fridayExitTime b15) = Some ''max_holding_period''"
    by (simp add: liveRule15_def)
  from a have h: "map_of (positions s15) oid = Some position15"
    "lastPrice b15 (tradingSymbol position15) = Some price" "price \<noteq> 0"
    "placeOrder b15 (tradingSymbol position15) (quantity position15) price SELL = Some o15" by simp_all
  show "live_trades (monitorOne15 b15 oid s15) =
        live_trades s15 @
          [\<lparr>lt_position = closedAt15 position15 price, lt_exitPrice = price,
            lt_capital = capital s15 + (price - entryPrice position15) * quantity position15,
            lt_reason = ''max_holding_period''\<rparr>]"
    using monitorOne15_trades(1)[OF h] r by simp
  show "map_of (positions (monitorOne15 b15 oid s15)) oid = None"
    using monitorOne15_trades(3)[OF h] r by simp
next
  assume "map_of (positions s15') oid' = Some position15' \<and>
    currentBarIndex s15' - entryBarIndex position15' < MAX_HOLDING_BARS"
  then show "live_trades (monitorOne15 b15' oid' s15') = live_trades s15' \<or>
      (\<exists>t. live_trades (monitorOne15 b15' oid' s15') = live_trades s15' @ [t] \<and>
           lt_reason t \<in> {''stop_loss'', ''trailing_stop'', ''target'', ''friday_exit''})"
    using monitorOne15_reasons by blast
next
  let ?lv = "riskLevels (l - ENTRY_BUFFER) RISK_PER_TRADE k"
  assume a: "sig_date sig = Some tt \<and> index sig < length daily \<and> g (isoDay tt) = Some snapshot \<and>
    selectContract snapshot (sig_side sig) (close (daily ! index sig)) = Some contract \<and>
    orElse (orElse (ltp contract) (opt_high contract)) (opt_low contract) = Some l \<and> 0 < l \<and>
    (l - ENTRY_BUFFER) * LOT_SIZE \<le> cap \<and>
    opt_low contract = Some lo \<and> opt_high contract = Some hi \<and>
    lo \<le> l - ENTRY_BUFFER \<and> l - ENTRY_BUFFER \<le> hi \<and>
    dayZero ?lv lo hi = (None, hit, stop) \<and>
    scanDays daily g contract ?lv (index sig) [1, 2, 3] hit stop = None \<and>
    date (daily ! min (index sig + 3) (length daily - 1)) = Some te \<and>
    g (isoDay te) = Some snapEnd \<and> filter (sameContract contract) snapEnd = row # rest \<and>
    orElse (orElse (ltp row) (opt_high row)) (opt_low row) = Some p \<and> p \<noteq> 0"
  then have e: "sig_date sig = Some tt" "index sig < length daily" "g (isoDay tt) = Some snapshot"
    "selectContract snapshot (sig_side sig) (close (daily ! index sig)) = Some contract"
    "orElse (orElse (ltp contract) (opt_high contract)) (opt_low contract) = Some l" "0 < l"
    "(l - ENTRY_BUFFER) * LOT_SIZE \<le> cap"
    "opt_low contract = Some lo" "opt_high contract = Some hi"
    "lo \<le> l - ENTRY_BUFFER" "l - ENTRY_BUFFER \<le> hi"
    and n: "dayZero ?lv lo hi = (None, hit, stop)"
      "scanDays daily g contract ?lv (index sig) [1, 2, 3] hit stop = None"
    and r: "date (daily ! min (index sig + 3) (length daily - 1)) = Some te"
      "g (isoDay te) = Some snapEnd" "filter (sameContract contract) snapEnd = row # rest"
      "orElse (orElse (ltp row) (opt_high row)) (opt_low row) = Some p" "p \<noteq> 0"
    by blast+
  have "holdingExit daily g contract (index sig) = Some (p, Some te)"
    using holdingExit_row[where g = g, OF r] .
  then show "tradeSignal daily g k cap sig =
        Trade \<lparr>initialStop = l - ENTRY_BUFFER - RISK_PER_TRADE,
               target1 = l - ENTRY_BUFFER + 3 * RISK_PER_TRADE,
               trailingStop = l - ENTRY_BUFFER + 2 * RISK_PER_TRADE,
               finalTarget = l - ENTRY_BUFFER + k * RISK_PER_TRADE,
               tr_entryDate = Some tt, tr_exitDate = Some te,
               tr_signalType = sig_type sig, tr_side = sig_side sig,
               tr_strike = strike contract, tr_expiry = expiry contract,
               entryLimit = l - ENTRY_BUFFER, exitPrice = p,
               tr_profit = (p - (l - ENTRY_BUFFER)) * LOT_SIZE,
               capitalAfter = cap + (p - (l - ENTRY_BUFFER)) * LOT_SIZE\<rparr>"
    using tradeSignal_holding[where g = g, OF e refl n] by (simp add: riskLevels_def)
next
  let ?lv = "riskLevels (l' - ENTRY_BUFFER) RISK_PER_TRADE k'"
  assume a: "sig_date sig' = Some tt' \<and> index sig' < length daily' \<and> g' (isoDay tt') = Some snapshot' \<and>
    selectContract snapshot' (sig_side sig') (close (daily' ! index sig')) = Some contract' \<and>
    orElse (orElse (ltp contract') (opt_high contract')) (opt_low contract') = Some l' \<and> 0 < l' \<and>
    (l' - ENTRY_BUFFER) * LOT_SIZE \<le> cap' \<and>
    opt_low contract' = Some lo' \<and> opt_high contract' = Some hi' \<and>
    lo' \<le> l' - ENTRY_BUFFER \<and> l' - ENTRY_BUFFER \<le> hi' \<and>
    dayZero ?lv lo' hi' = (None, hit', stop') \<and>
    scanDays daily' g' contract' ?lv (index sig') [1, 2, 3] hit' stop' = None \<and>
    date (daily' ! min (index sig' + 3) (length daily' - 1)) = Some te' \<and>
    (g' (isoDay te') = None \<or>
     (\<exists>snapEnd'. g' (isoDay te') = Some snapEnd' \<and>
                 filter (sameContract contract') snapEnd' = []) \<or>
     (\<exists>snapEnd' row' rest'. g' (isoDay te') = Some snapEnd' \<and>
                 filter (sameContract contract') snapEnd' = row' # rest' \<and>
                 orElse (orElse (ltp row') (opt_high row')) (opt_low row') \<in> {None, Some 0}))"
  then have e: "sig_date sig' = Some tt'" "index sig' < length daily'" "g' (isoDay tt') = Some snapshot'"
    "selectContract snapshot' (sig_side sig') (close (daily' ! index sig')) = Some contract'"
    "orElse (orElse (ltp contract') (opt_high contract')) (opt_low contract') = Some l'" "0 < l'"
    "(l' - ENTRY_BUFFER) * LOT_SIZE \<le> cap'"
    "opt_low contract' = Some lo'" "opt_high contract' = Some hi'"
    "lo' \<le> l' - ENTRY_BUFFER" "l' - ENTRY_BUFFER \<le> hi'"
    and n: "dayZero ?lv lo' hi' = (None, hit', stop')"
      "scanDays daily' g' contract' ?lv (index sig') [1, 2, 3] hit' stop' = None"
    and r: "date (daily' ! min (index sig' + 3) (length daily' - 1)) = Some te'"
      "g' (isoDay te') = None \<or>
       (\<exists>snapEnd'. g' (isoDay te') = Some snapEnd' \<and>
                   filter (sameContract contract') snapEnd' = []) \<or>
       (\<exists>snapEnd' row' rest'. g' (isoDay te') = Some snapEnd' \<and>
                   filter (sameContract contract') snapEnd' = row' # rest' \<and>
                   orElse (orElse (ltp row') (opt_high row')) (opt_low row') \<in> {None, Some 0})"
    by blast+
  have "holdingExit daily' g' contract' (index sig') = None"
    using holdingExit_no_row[where g = g', OF r] .
  then show "tradeSignal daily' g' k' cap' sig' = Skip"
    using tradeSignal_holding[where g = g', OF e refl n] by simp
qed

theorem holding_period_exit_witness:
  "live_trades (monitorOne15 broker15A ''order-1'' manager15A) =
     [\<lparr>lt_position = closedAt15 pos15A 110, lt_exitPrice = 110, lt_capital = 15750,
       lt_reason = ''max_holding_period''\<rparr>] \<and>
   map_of (positions (monitorOne15 broker15A ''order-1'' manager15A)) ''order-1'' = None \<and>
   currentBarIndex manager15C - entryBarIndex pos15A = 74 \<and>
   (live_trades (monitorOne15 broker15A ''order-1'' manager15C) = live_trades manager15C \<or>
      (\<exists>t. live_trades (monitorOne15 broker15A ''order-1'' manager15C) = live_trades manager15C @ [t] \<and>
           lt_reason t \<in> {''stop_loss'', ''trailing_stop'', ''target'', ''friday_exit''})) \<and>
   length dailyFive = 5 \<and>
   date (dailyFive ! min (0 + 3) (length dailyFive - 1)) = Some 259200000 \<and>
   tradeSignal dailyFive optsQuiet 8 START_CAPITAL sigLong =
     Trade \<lparr>initialStop = 90, target1 = 130, trailingStop = 120, finalTarget = 180,
            tr_entryDate = Some 0, tr_exitDate = Some 259200000, tr_signalType = BB_reversal,
            tr_side = long, tr_strike = 24600, tr_expiry = ''09-Jan'', entryLimit = 100,
            exitPrice = 112, tr_profit = 900, capitalAfter = 15900\<rparr> \<and>
   optsC 3 = None \<and>
   tradeSignal dailyFive optsC 8 START_CAPITAL sigLong = Skip"
proof -
  note t = holding_period_exit[where ?s15.0 = manager15A and oid = "''order-1''"
      and ?position15.0 = pos15A and ?b15.0 = broker15A and price = 110 and ?o15.0 = "''order-2''"
      and s15' = manager15C and oid' = "''order-1''" and position15' = pos15A and b15' = broker15A
      and sig = sigLong and tt = 0 and daily = dailyFive and g = optsQuiet and snapshot = snapshotC
      and contract = rowC and l = 110 and cap = START_CAPITAL and lo = 95 and hi = 115 and k = 8
      and hit = False and stop = 90 and te = 259200000 and snapEnd = "[rowEnd]" and row = rowEnd
      and rest = "[]" and p = 112
      and sig' = sigLong and tt' = 0 and daily' = dailyFive and g' = optsC and snapshot' = snapshotC
      and contract' = rowC and l' = 110 and cap' = START_CAPITAL and lo' = 95 and hi' = 115
      and k' = 8 and hit' = False and stop' = 90 and te' = 259200000]
  have h1: "map_of (positions manager15A) ''order-1'' = Some pos15A \<and>
    lastPrice broker15A (tradingSymbol pos15A) = Some 110 \<and> (110::real) \<noteq> 0 \<and>
    placeOrder broker15A (tradingSymbol pos15A) (quantity pos15A) 110 SELL = Some ''order-2'' \<and>
    currentBarIndex manager15A - entryBarIndex pos15A \<ge> MAX_HOLDING_BARS"
    by (simp add: manager15A_def pos15A_def broker15A_def MAX_HOLDING_BARS_def)
  have h2: "map_of (positions manager15C) ''order-1'' = Some pos15A \<and>
    currentBarIndex manager15C - entryBarIndex pos15A < MAX_HOLDING_BARS"
    by (simp add: manager15C_def manager15A_def pos15A_def MAX_HOLDING_BARS_def)
  have sel: "selectContract snapshotC (sig_side sigLong) (close (dailyFive ! index sigLong)) = Some rowC"
    using selectContract_snapshotC by (simp add: sigLong_def dailyFive_def dayBar_def rawBar_def)
  have row: "ltp rowC = Some 110" "opt_low rowC = Some 95" "opt_high rowC = Some 115"
    "ltp rowEnd = Some 112"
    by (simp_all add: rowC_def rowEnd_def optRow_def)
  have dz: "dayZero (riskLevels (110 - ENTRY_BUFFER) RISK_PER_TRADE 8) 95 115 = (None, False, 90)"
    by (simp add: dayZero_def riskLevels_def ENTRY_BUFFER_def RISK_PER_TRADE_def)
  have scQ: "scanDays dailyFive optsQuiet rowC (riskLevels (110 - ENTRY_BUFFER) RISK_PER_TRADE 8)
      (index sigLong) [1, 2, 3] False 90 = None"
    by (simp add: example_defs dailyFive_def dayBar_def optsQuiet_def rowEnd_def riskLevels_def
        ENTRY_BUFFER_def RISK_PER_TRADE_def isoDay_def sameContract_def Let_def)
  have scC: "scanDays dailyFive optsC rowC (riskLevels (110 - ENTRY_BUFFER) RISK_PER_TRADE 8)
      (index sigLong) [1, 2, 3] False 90 = None"
    by (simp add: example_defs dailyFive_def dayBar_def riskLevels_def
        ENTRY_BUFFER_def RISK_PER_TRADE_def isoDay_def sameContract_def Let_def)
  have endD: "date (dailyFive ! min (index sigLong + 3) (length dailyFive - 1)) = Some 259200000"
    by (simp add: sigLong_def dailyFive_def dayBar_def rawBar_def)
  have h3: "sig_date sigLong = Some 0 \<and> index sigLong < length dailyFive \<and>
    optsQuiet (isoDay 0) = Some snapshotC \<and>
    selectContract snapshotC (sig_side sigLong) (close (dailyFive ! index sigLong)) = Some rowC \<and>
    orElse (orElse (ltp rowC) (opt_high rowC)) (opt_low rowC) = Some 110 \<and> (0::real) < 110 \<and>
    (110 - ENTRY_BUFFER) * LOT_SIZE \<le> START_CAPITAL \<and>
    opt_low rowC = Some 95 \<and> opt_high rowC = Some 115 \<and>
    95 \<le> 110 - ENTRY_BUFFER \<and> 110 - ENTRY_BUFFER \<le> 115 \<and>
    dayZero (riskLevels (110 - ENTRY_BUFFER) RISK_PER_TRADE 8) 95 115 = (None, False, 90) \<and>
    scanDays dailyFive optsQuiet rowC (riskLevels (110 - ENTRY_BUFFER) RISK_PER_TRADE 8)
      (index sigLong) [1, 2, 3] False 90 = None \<and>
    date (dailyFive ! min (index sigLong + 3) (length dailyFive - 1)) = Some 259200000 \<and>
    optsQuiet (isoDay 259200000) = Some [rowEnd] \<and>
    filter (sameContract rowC) [rowEnd] = rowEnd # [] \<and>
    orElse (orElse (ltp rowEnd) (opt_high rowEnd)) (opt_low rowEnd) = Some 112 \<and> (112::real) \<noteq> 0"
    using sel dz scQ endD row
    by (simp add: sigLong_def dailyFive_def optsQuiet_def isoDay_def orElse_def truthy_def
        ENTRY_BUFFER_def LOT_SIZE_def START_CAPITAL_def sameContract_def rowC_def rowEnd_def
        optRow_def del: scanDays.simps)
  have h4: "sig_date sigLong = Some 0 \<and> index sigLong < length dailyFive \<and>
    optsC (isoDay 0) = Some snapshotC \<and>
    selectContract snapshotC (sig_side sigLong) (close (dailyFive ! index sigLong)) = Some rowC \<and>
    orElse (orElse (ltp rowC) (opt_high rowC)) (opt_low rowC) = Some 110 \<and> (0::real) < 110 \<and>
    (110 - ENTRY_BUFFER) * LOT_SIZE \<le> START_CAPITAL \<and>
    opt_low rowC = Some 95 \<and> opt_high rowC = Some 115 \<and>
    95 \<le> 110 - ENTRY_BUFFER \<and> 110 - ENTRY_BUFFER \<le> 115 \<and>
    dayZero (riskLevels (110 - ENTRY_BUFFER) RISK_PER_TRADE 8) 95 115 = (None, False, 90) \<and>
    scanDays dailyFive optsC rowC (riskLevels (110 - ENTRY_BUFFER) RISK_PER_TRADE 8)
      (index sigLong) [1, 2, 3] False 90 = None \<and>
    date (dailyFive ! min (index sigLong + 3) (length dailyFive - 1)) = Some 259200000 \<and>
    (optsC (isoDay 259200000) = None \<or>
     (\<exists>snapEnd'. optsC (isoDay 259200000) = Some snapEnd' \<and>
                 filter (sameContract rowC) snapEnd' = []) \<or>
     (\<exists>snapEnd' row' rest'. optsC (isoDay 259200000) = Some snapEnd' \<and>
                 filter (sameContract rowC) snapEnd' = row' # rest' \<and>
                 orElse (orElse (ltp row') (opt_high row')) (opt_low row') \<in> {None, Some 0}))"
    using sel dz scC endD row
    by (simp add: sigLong_def dailyFive_def optsC_def isoDay_def orElse_def truthy_def
        ENTRY_BUFFER_def LOT_SIZE_def START_CAPITAL_def del: scanDays.simps)
  have c: "currentBarIndex manager15C - entryBarIndex pos15A = 74"
    by (simp add: manager15C_def manager15A_def pos15A_def)
  from t h1 have a: "live_trades (monitorOne15 broker15A ''order-1'' manager15A) =
        live_trades manager15A @
          [\<lparr>lt_position = closedAt15 pos15A 110, lt_exitPrice = 110,
            lt_capital = capital manager15A + (110 - entryPrice pos15A) * quantity pos15A,
            lt_reason = ''max_holding_period''\<rparr>]"
    and a': "map_of (positions (monitorOne15 broker15A ''order-1'' manager15A)) ''order-1'' = None"
    by blast+
  from t h2 have b: "live_trades (monitorOne15 broker15A ''order-1'' manager15C) = live_trades manager15C \<or>
      (\<exists>t. live_trades (monitorOne15 broker15A ''order-1'' manager15C) = live_trades manager15C @ [t] \<and>
           lt_reason t \<in> {''stop_loss'', ''trailing_stop'', ''target'', ''friday_exit''})"
    by blast
  have d: "tradeSignal dailyFive optsQuiet 8 START_CAPITAL sigLong =
        Trade \<lparr>initialStop = 110 - ENTRY_BUFFER - RISK_PER_TRADE,
               target1 = 110 - ENTRY_BUFFER + 3 * RISK_PER_TRADE,
               trailingStop = 110 - ENTRY_BUFFER + 2 * RISK_PER_TRADE,
               finalTarget = 110 - ENTRY_BUFFER + 8 * RISK_PER_TRADE,
               tr_entryDate = Some 0, tr_exitDate = Some 259200000,
               tr_signalType = sig_type sigLong, tr_side = sig_side sigLong,
               tr_strike = strike rowC, tr_expiry = expiry rowC,
               entryLimit = 110 - ENTRY_BUFFER, exitPrice = 112,
               tr_profit = (112 - (110 - ENTRY_BUFFER)) * LOT_SIZE,
               capitalAfter = START_CAPITAL + (112 - (110 - ENTRY_BUFFER)) * LOT_SIZE\<rparr>"
    using t[THEN conjunct2, THEN conjunct2, THEN conjunct1, THEN mp, OF h3] .
  have e: "tradeSignal dailyFive optsC 8 START_CAPITAL sigLong = Skip"
    using t[THEN conjunct2, THEN conjunct2, THEN conjunct2, THEN mp, OF h4] .
  have a2: "live_trades (monitorOne15 broker15A ''order-1'' manager15A) =
     [\<lparr>lt_position = closedAt15 pos15A 110, lt_exitPrice = 110, lt_capital = 15750,
       lt_reason = ''max_holding_period''\<rparr>]"
    using a by (simp add: manager15A_def pos15A_def)
  have d2: "tradeSignal dailyFive optsQuiet 8 START_CAPITAL sigLong =
     Trade \<lparr>initialStop = 90, target1 = 130, trailingStop = 120, finalTarget = 180,
            tr_entryDate = Some 0, tr_exitDate = Some 259200000, tr_signalType = BB_reversal,
            tr_side = long, tr_strike = 24600, tr_expiry = ''09-Jan'', entryLimit = 100,
            exitPrice = 112, tr_profit = 900, capitalAfter = 15900\<rparr>"
    using d by (simp add: ENTRY_BUFFER_def RISK_PER_TRADE_def LOT_SIZE_def START_CAPITAL_def
        sigLong_def rowC_def optRow_def)
  have l5: "length dailyFive = 5" "optsC 3 = None"
    "date (dailyFive ! min (0 + 3) (length dailyFive - 1)) = Some 259200000"
    using endD by (simp_all add: dailyFive_def optsC_def sigLong_def)
  show ?thesis using a2 a' b c d2 e l5 by blast
qed

theorem holding_period_exit_counterexample:
  "length dailyOne = 1 \<and> min (0 + 3) (length dailyOne - 1) = 0 \<and>
   selectContract snapshotC long 24537 = Some rowC \<and>
   dayZero (riskLevels 100 10 8) 95 115 = (None, False, 90) \<and>
   scanDays dailyOne optsC rowC (riskLevels 100 10 8) 0 [1, 2, 3] False 90 = None \<and>
   holdingExit dailyOne optsC rowC 0 = Some (110, Some 0) \<and>
   tradeSignal dailyOne optsC 8 START_CAPITAL sigLong =
     Trade \<lparr>initialStop = 90, target1 = 130, trailingStop = 120, finalTarget = 180,
            tr_entryDate = Some 0, tr_exitDate = Some 0, tr_signalType = BB_reversal,
            tr_side = long, tr_strike = 24600, tr_expiry = ''09-Jan'', entryLimit = 100,
            exitPrice = 110, tr_profit = 750, capitalAfter = 15750\<rparr> \<and>
   length dailyFive = 5 \<and> optsC 1 = None \<and> optsC 2 = None \<and> optsC 3 = None \<and>
   tradeSignal dailyFive optsC 8 START_CAPITAL sigLong = Skip"
  using tradeSignal_lastBar holdingExit_lastBar selectContract_snapshotC
    tradeSignal_dailyFive_dropped
  by (simp add: dailyOne_def dailyFive_def optsC_def dayZero_def riskLevels_def)

end
